theory Spec2Isabelle
  imports Main
begin

section \<open>Identifiers, library functions and the runtime\<close>

text \<open>
  A MongoDB ObjectId is a 96-bit number whose string form is 24 hexadecimal digits.
  Documents carry it as a number; route parameters and request bodies carry the string,
  which Mongoose casts. Only the 24-digit form of \<open>mongoose.Types.ObjectId.isValid\<close>
  is modelled.
\<close>

type_synonym oid = nat

definition hex_digit :: "char \<Rightarrow> nat option" where
  "hex_digit c =
     (let n = (of_char c :: nat) in
      if 48 \<le> n \<and> n \<le> 57 then Some (n - 48)
      else if 97 \<le> n \<and> n \<le> 102 then Some (n - 87)
      else if 65 \<le> n \<and> n \<le> 70 then Some (n - 55)
      else None)"

fun hex_value :: "nat \<Rightarrow> string \<Rightarrow> nat option" where
  "hex_value acc [] = Some acc"
| "hex_value acc (c # cs) =
     (case hex_digit c of None \<Rightarrow> None | Some v \<Rightarrow> hex_value (16 * acc + v) cs)"

definition cast_oid :: "string \<Rightarrow> oid option" where
  "cast_oid s = (if length s = 24 then hex_value 0 s else None)"

definition isValid :: "string \<Rightarrow> bool" where
  "isValid s = (cast_oid s \<noteq> None)"

text \<open>
  Instants are milliseconds since the epoch. The two things the code asks of the
  JavaScript \<open>Date\<close> object are parameters: \<open>new Date(str)\<close> (\<open>None\<close> is the
  Invalid Date), \<open>setHours(0, 0, 0, 0)\<close>, the start of the local day, and
  \<open>setDate(getDate() + n)\<close>, the same local time \<open>n\<close> calendar days later.
\<close>

record jsenv =
  parseDate :: "string \<Rightarrow> int option"
  startOfDay :: "int \<Rightarrow> int"
  addDays :: "int \<Rightarrow> nat \<Rightarrow> int"

text \<open>\<open>Model.findById\<close>, \<open>Model.findOne\<close> and an update of the first matching document.\<close>

definition findById :: "('a \<Rightarrow> oid) \<Rightarrow> oid \<Rightarrow> 'a list \<Rightarrow> 'a option" where
  "findById key i xs = find (\<lambda>x. key x = i) xs"

fun update_first :: "('a \<Rightarrow> bool) \<Rightarrow> ('a \<Rightarrow> 'a) \<Rightarrow> 'a list \<Rightarrow> 'a list" where
  "update_first P f [] = []"
| "update_first P f (x # xs) = (if P x then f x # xs else x # update_first P f xs)"

section \<open>Data model\<close>

text \<open>model/AppointmentSlot.js (the schema required as \<open>model/AppointmentSlot\<close>).\<close>

record slot =
  slot_id :: oid
  doctor :: oid
  hospital :: oid
  date :: int
  startTime :: string
  endTime :: string
  duration :: nat
  isBooked :: bool
  isAvailable :: bool
  bookedBy :: "oid option"

text \<open>model/Users.js: the embedded appointment schema and its status enum.\<close>

datatype appt_status = Scheduled | Confirmed | Completed | Cancelled | NoShow

record appointment =
  appt_id :: oid
  hospitalId :: oid
  hospitalName :: string
  departmentId :: oid
  department :: string
  doctorId :: oid
  doctorName :: string
  appointmentDate :: int
  appointmentTime :: string
  location :: string
  status :: appt_status
  createdAt :: int
  actualStartTime :: "int option"
  actualEndTime :: "int option"
  slotId :: "oid option"
  prescriptionId :: "oid option"
  appt_notes :: "string option"

text \<open>The user document; of its fields only the ledger is read or written here.\<close>

record user =
  user_id :: oid
  appointments :: "appointment list"

text \<open>The fields of a doctor and a hospital that booking and seeding read.\<close>

record doctor_doc =
  doctor_id :: oid
  doctor_name :: string
  specialty :: string
  doctor_hospital :: oid
  appointmentDuration :: nat

record hospital_doc =
  hospital_id :: oid
  hospital_name :: string
  hospital_location :: string

record medicine =
  med_name :: string
  med_genericName :: string
  strengths :: "string list"
  med_category :: string
  isActive :: bool

record medication =
  name :: string
  genericName :: string
  dosage :: string
  frequency :: string
  med_duration :: string
  category :: string
  instructions :: string

datatype presc_status = Active | Presc_Completed | Presc_Cancelled

record prescription =
  presc_id :: oid
  appointmentId :: oid
  userId :: oid
  presc_hospitalName :: string
  presc_department :: string
  presc_doctorName :: string
  presc_appointmentDate :: int
  presc_appointmentTime :: string
  diagnosis :: string
  medications :: "medication list"
  presc_instructions :: string
  followUpDate :: int
  prescribedAt :: int
  presc_status :: presc_status

text \<open>The collections. A list keeps the natural order that \<open>findOne\<close> and \<open>find\<close> follow.\<close>

record db =
  users :: "user list"
  slots :: "slot list"
  doctors :: "doctor_doc list"
  hospitals :: "hospital_doc list"
  medicines :: "medicine list"
  prescriptions :: "prescription list"

text \<open>An HTTP response: status code, message and the document sent back, if any.\<close>

datatype 'a response = Resp (code: nat) (message: string) (payload: "'a option")

text \<open>
  The operations on the database that the booking and the cancelling handler await. Any
  of them may throw (a lost connection, a document that the server refuses); \<open>throws\<close>
  gives, for an operation that does, the message of the error. The other two fields are
  the messages of the \<open>ValidationError\<close> that Mongoose builds for a document that fails
  its schema on \<open>save()\<close>.
\<close>

datatype db_op =
    User_findById
  | AppointmentSlot_findOne
  | Doctor_findById
  | Hospital_findById
  | AppointmentSlot_save
  | AppointmentSlot_findByIdAndUpdate
  | User_save

record storage =
  throws :: "db_op \<Rightarrow> string option"
  slotValidationError :: "slot \<Rightarrow> string"
  userValidationError :: "user \<Rightarrow> string"

section \<open>controllers/appointmentController.js\<close>

text \<open>
  The controller that the routes require as \<open>controllers/appointmentController\<close>:
  \<open>validateAppointmentData\<close>, \<open>addAppointment\<close>, \<open>cancelAppointment\<close> and
  \<open>updateAppointment\<close>. In the sources at hand its text follows the patient page in
  \<open>pages/patient.jsx\<close>.
\<close>

record appointment_request =
  req_hospitalId :: "string option"
  req_departmentId :: "string option"
  req_doctorId :: "string option"
  req_appointmentDate :: "string option"
  req_appointmentTime :: "string option"

text \<open>\<open>!field\<close>: a missing field and the empty string are both falsy.\<close>

definition falsy :: "string option \<Rightarrow> bool" where
  "falsy f = (f = None \<or> f = Some [])"

definition is_digit :: "char \<Rightarrow> bool" where
  "is_digit c = (48 \<le> (of_char c :: nat) \<and> (of_char c :: nat) \<le> 57)"

text \<open>The regular expression \<open>/^([01]\d|2[0-3]):([0-5]\d)$/\<close>.\<close>

fun time_format :: "string \<Rightarrow> bool" where
  "time_format [h1, h2, c, m1, m2] =
     (((h1 = CHR ''0'' \<or> h1 = CHR ''1'') \<and> is_digit h2
        \<or> h1 = CHR ''2'' \<and> h2 \<in> set ''0123'')
      \<and> c = CHR '':'' \<and> m1 \<in> set ''012345'' \<and> is_digit m2)"
| "time_format _ = False"

definition validateAppointmentData :: "jsenv \<Rightarrow> appointment_request \<Rightarrow> string + int" where
  "validateAppointmentData env data =
     (if falsy (req_hospitalId data) \<or> falsy (req_departmentId data) \<or> falsy (req_doctorId data)
         \<or> falsy (req_appointmentDate data) \<or> falsy (req_appointmentTime data)
      then Inl ''All fields are required''
      else if \<not> isValid (the (req_hospitalId data)) \<or> \<not> isValid (the (req_departmentId data))
         \<or> \<not> isValid (the (req_doctorId data))
      then Inl ''Invalid ID format''
      else case parseDate env (the (req_appointmentDate data)) of
             None \<Rightarrow> Inl ''Invalid date format''
           | Some d \<Rightarrow>
               if \<not> time_format (the (req_appointmentTime data))
               then Inl ''Invalid time format. Use HH:MM''
               else Inr d)"

text \<open>
  What \<open>save()\<close> checks before it writes. Mongoose validates the document in hand
  against its schema and throws a \<open>ValidationError\<close> when a path fails. For a slot
  (model/AppointmentSlot.js) the paths with a validator are \<open>startTime\<close> and
  \<open>endTime\<close>, required and of the form HH:MM, and \<open>duration\<close>, from 5 to 240.
  For an embedded appointment (model/Users.js) they are the required strings
  \<open>hospitalName\<close>, \<open>department\<close>, \<open>doctorName\<close> and \<open>appointmentTime\<close>, which
  must not be empty; the identifiers and the date are always present here and the status
  is of the enum by its type. A user is saved with every appointment of the ledger
  validated. The fields of a user outside the ledger are not modelled: a save that fails
  on them is a save that \<open>throws\<close>.
\<close>

definition slot_valid :: "slot \<Rightarrow> bool" where
  "slot_valid s =
     (time_format (startTime s) \<and> time_format (endTime s) \<and> 5 \<le> duration s \<and> duration s \<le> 240)"

definition appointment_valid :: "appointment \<Rightarrow> bool" where
  "appointment_valid a =
     (hospitalName a \<noteq> [] \<and> department a \<noteq> [] \<and> doctorName a \<noteq> [] \<and> appointmentTime a \<noteq> [])"

text \<open>The error that \<open>slot.save()\<close> and \<open>user.save()\<close> throw for a document, if any.\<close>

definition slot_save_error :: "storage \<Rightarrow> slot \<Rightarrow> string option" where
  "slot_save_error st s =
     (if \<not> slot_valid s then Some (slotValidationError st s) else throws st AppointmentSlot_save)"

definition user_save_error :: "storage \<Rightarrow> user \<Rightarrow> string option" where
  "user_save_error st u =
     (if \<not> list_all appointment_valid (appointments u) then Some (userValidationError st u)
      else throws st User_save)"

text \<open>
  The setter of a schema path declared with \<open>trim: true\<close>: \<open>String.prototype.trim\<close>,
  here for the white space of ASCII.
\<close>

definition is_space :: "char \<Rightarrow> bool" where
  "is_space c = ((of_char c :: nat) \<in> {9, 10, 11, 12, 13, 32})"

definition trim :: "string \<Rightarrow> string" where
  "trim s = rev (dropWhile is_space (rev (dropWhile is_space s)))"

text \<open>
  The query of \<open>AppointmentSlot.findOne\<close> in \<open>addAppointment\<close>, and the write that
  \<open>availableSlot.save()\<close> sends for the three modified fields of that document.
\<close>

definition slot_query :: "oid \<Rightarrow> oid \<Rightarrow> int \<Rightarrow> string \<Rightarrow> slot \<Rightarrow> bool" where
  "slot_query doctorId' hospitalId' slotDate appointmentTime' s =
     (doctor s = doctorId' \<and> hospital s = hospitalId' \<and> date s = slotDate
      \<and> startTime s = appointmentTime' \<and> isAvailable s \<and> \<not> isBooked s)"

definition book_slot :: "oid \<Rightarrow> slot \<Rightarrow> slot" where
  "book_slot claimant s = s\<lparr>isBooked := True, isAvailable := False, bookedBy := Some claimant\<rparr>"

definition save_slot :: "oid \<Rightarrow> oid \<Rightarrow> slot list \<Rightarrow> slot list" where
  "save_slot sid claimant ss = update_first (\<lambda>s. slot_id s = sid) (book_slot claimant) ss"

definition default_duration :: "nat \<Rightarrow> nat" where
  "default_duration n = (if n = 0 then 30 else n)"

definition newAppointment ::
  "int \<Rightarrow> oid \<Rightarrow> appointment_request \<Rightarrow> int \<Rightarrow> doctor_doc \<Rightarrow> hospital_doc \<Rightarrow> slot \<Rightarrow> appointment" where
  "newAppointment now new_id body slotDate doc hosp availableSlot =
     \<lparr>appt_id = new_id,
      hospitalId = the (cast_oid (the (req_hospitalId body))),
      hospitalName = trim (hospital_name hosp),
      departmentId = the (cast_oid (the (req_departmentId body))),
      department = trim (specialty doc),
      doctorId = the (cast_oid (the (req_doctorId body))),
      doctorName = trim (doctor_name doc),
      appointmentDate = slotDate,
      appointmentTime = the (req_appointmentTime body),
      location = trim (hospital_location hosp),
      status = Confirmed,
      createdAt = now,
      actualStartTime = Some now,
      actualEndTime = Some (now + int (default_duration (appointmentDuration doc)) * 60000),
      slotId = Some (slot_id availableSlot),
      prescriptionId = None,
      appt_notes = None\<rparr>"

definition save_user :: "user \<Rightarrow> user list \<Rightarrow> user list" where
  "save_user u us = update_first (\<lambda>v. user_id v = user_id u) (\<lambda>_. u) us"

text \<open>
  \<open>addAppointment\<close>, for the authenticated user \<open>uid\<close> (\<open>req.userId\<close>). \<open>now\<close> is the
  clock and \<open>new_id\<close> the identifier Mongoose gives the pushed subdocument. The body
  of the handler is one \<open>try\<close>: whatever an awaited operation throws is caught and
  answered with 500, with the database as the operations before it left it.
\<close>

definition caught :: "string \<Rightarrow> 'a response" where
  "caught err = Resp 500 (''Internal server error: '' @ err) None"

definition addAppointment ::
  "jsenv \<Rightarrow> storage \<Rightarrow> int \<Rightarrow> oid \<Rightarrow> db \<Rightarrow> oid \<Rightarrow> appointment_request
     \<Rightarrow> appointment response \<times> db" where
  "addAppointment env st now new_id d uid body =
     (case validateAppointmentData env body of
        Inl msg \<Rightarrow> (Resp 400 msg None, d)
      | Inr _ \<Rightarrow>
         (case throws st User_findById of
            Some err \<Rightarrow> (caught err, d)
          | None \<Rightarrow>
         (case findById user_id uid (users d) of
            None \<Rightarrow> (Resp 404 ''User not found'' None, d)
          | Some usr \<Rightarrow>
             (let hospitalId' = the (cast_oid (the (req_hospitalId body)));
                  doctorId' = the (cast_oid (the (req_doctorId body)));
                  appointmentTime' = the (req_appointmentTime body);
                  slotDate = startOfDay env (the (parseDate env (the (req_appointmentDate body))))
              in case throws st AppointmentSlot_findOne of
                   Some err \<Rightarrow> (caught err, d)
                 | None \<Rightarrow>
                (case find (slot_query doctorId' hospitalId' slotDate appointmentTime') (slots d) of
                   None \<Rightarrow> (Resp 400 ''Selected time slot is no longer available'' None, d)
                 | Some availableSlot \<Rightarrow>
                    (case throws st Doctor_findById of
                       Some err \<Rightarrow> (caught err, d)
                     | None \<Rightarrow>
                    (case throws st Hospital_findById of
                       Some err \<Rightarrow> (caught err, d)
                     | None \<Rightarrow>
                    (case findById doctor_id doctorId' (doctors d) of
                       None \<Rightarrow> (Resp 400 ''Doctor or hospital not found'' None, d)
                     | Some doc \<Rightarrow>
                        (case findById hospital_id hospitalId' (hospitals d) of
                           None \<Rightarrow> (Resp 400 ''Doctor or hospital not found'' None, d)
                         | Some hosp \<Rightarrow>
                            (case slot_save_error st (book_slot uid availableSlot) of
                               Some err \<Rightarrow> (caught err, d)
                             | None \<Rightarrow>
                            (let d1 = d\<lparr>slots := save_slot (slot_id availableSlot) uid (slots d)\<rparr>;
                                 appt = newAppointment now new_id body slotDate doc hosp availableSlot;
                                 usr' = usr\<lparr>appointments := appointments usr @ [appt]\<rparr>
                             in case user_save_error st usr' of
                                  Some err \<Rightarrow> (caught err, d1)
                                | None \<Rightarrow>
                                   (Resp 201 ''Appointment booked successfully! It will be completed in 1 minute.''
                                      (Some appt),
                                    d1\<lparr>users := save_user usr' (users d1)\<rparr>))))))))))))"

text \<open>
  \<open>cancelAppointment\<close>. \<open>findByIdAndUpdate\<close> writes the three fields of the slot with
  that identifier and does nothing when there is none; it runs no validation. The
  handler releases the slot first and saves the ledger after; what is thrown on the way
  is caught and answered with 500.
\<close>

definition free_slot :: "slot \<Rightarrow> slot" where
  "free_slot s = s\<lparr>isBooked := False, isAvailable := True, bookedBy := None\<rparr>"

definition release_slot :: "oid \<Rightarrow> slot list \<Rightarrow> slot list" where
  "release_slot sid ss = update_first (\<lambda>s. slot_id s = sid) free_slot ss"

definition cancelAppointment :: "storage \<Rightarrow> db \<Rightarrow> oid \<Rightarrow> string \<Rightarrow> unit response \<times> db" where
  "cancelAppointment st d uid appointmentId' =
     (case cast_oid appointmentId' of
        None \<Rightarrow> (Resp 400 ''Invalid appointment ID'' None, d)
      | Some aid \<Rightarrow>
         (case throws st User_findById of
            Some err \<Rightarrow> (Resp 500 ''Internal server error'' None, d)
          | None \<Rightarrow>
         (case findById user_id uid (users d) of
            None \<Rightarrow> (Resp 404 ''User not found'' None, d)
          | Some usr \<Rightarrow>
             (case findById appt_id aid (appointments usr) of
                None \<Rightarrow> (Resp 404 ''Appointment not found'' None, d)
              | Some appt \<Rightarrow>
                 if status appt = Cancelled
                 then (Resp 400 ''Appointment is already cancelled'' None, d)
                 else
                   (case (case slotId appt of
                            None \<Rightarrow> Inr d
                          | Some sid \<Rightarrow>
                              (case throws st AppointmentSlot_findByIdAndUpdate of
                                 Some err \<Rightarrow> Inl err
                               | None \<Rightarrow> Inr (d\<lparr>slots := release_slot sid (slots d)\<rparr>))) of
                      Inl err \<Rightarrow> (Resp 500 ''Internal server error'' None, d)
                    | Inr d1 \<Rightarrow>
                       (let usr' = usr\<lparr>appointments :=
                                        update_first (\<lambda>a. appt_id a = aid) (\<lambda>a. a\<lparr>status := Cancelled\<rparr>)
                                          (appointments usr)\<rparr>
                        in case user_save_error st usr' of
                             Some err \<Rightarrow> (Resp 500 ''Internal server error'' None, d1)
                           | None \<Rightarrow>
                              (Resp 200 ''Appointment cancelled successfully'' None,
                               d1\<lparr>users := save_user usr' (users d1)\<rparr>)))))))"

text \<open>
  \<open>updateAppointment\<close>. The body is a JSON object with string values; a status outside
  the schema's enum makes \<open>user.save()\<close> throw a validation error, which the handler
  answers with 500 and which leaves the stored document as it was.
\<close>

definition allowedUpdates :: "string list" where
  "allowedUpdates = [''status'', ''notes'']"

definition parse_status :: "string \<Rightarrow> appt_status option" where
  "parse_status s =
     (if s = ''scheduled'' then Some Scheduled
      else if s = ''confirmed'' then Some Confirmed
      else if s = ''completed'' then Some Completed
      else if s = ''cancelled'' then Some Cancelled
      else if s = ''no-show'' then Some NoShow
      else None)"

definition pick_updates :: "(string \<rightharpoonup> string) \<Rightarrow> (string \<rightharpoonup> string)" where
  "pick_updates updateData = (\<lambda>k. if k \<in> set allowedUpdates then updateData k else None)"

definition assign_notes :: "(string \<rightharpoonup> string) \<Rightarrow> appointment \<Rightarrow> appointment" where
  "assign_notes updates a =
     (case updates ''notes'' of None \<Rightarrow> a | Some n \<Rightarrow> a\<lparr>appt_notes := Some n\<rparr>)"

definition updateAppointment ::
  "db \<Rightarrow> oid \<Rightarrow> string \<Rightarrow> (string \<rightharpoonup> string) \<Rightarrow> appointment response \<times> db" where
  "updateAppointment d uid appointmentId' updateData =
     (case cast_oid appointmentId' of
        None \<Rightarrow> (Resp 400 ''Invalid appointment ID'' None, d)
      | Some aid \<Rightarrow>
         (let updates = pick_updates updateData in
          if list_all (\<lambda>k. updates k = None) allowedUpdates
          then (Resp 400 ''No valid fields to update'' None, d)
          else
            (case findById user_id uid (users d) of
               None \<Rightarrow> (Resp 404 ''User not found'' None, d)
             | Some usr \<Rightarrow>
                (case findById appt_id aid (appointments usr) of
                   None \<Rightarrow> (Resp 404 ''Appointment not found'' None, d)
                 | Some appt \<Rightarrow>
                    (case updates ''status'' of
                       None \<Rightarrow>
                         (let appt' = assign_notes updates appt;
                              usr' = usr\<lparr>appointments :=
                                       update_first (\<lambda>a. appt_id a = aid) (\<lambda>_. appt') (appointments usr)\<rparr>
                          in (Resp 200 ''Appointment updated successfully'' (Some appt'),
                              d\<lparr>users := save_user usr' (users d)\<rparr>))
                     | Some s \<Rightarrow>
                         (case parse_status s of
                            None \<Rightarrow> (Resp 500 ''Internal server error'' None, d)
                          | Some st \<Rightarrow>
                             (let appt' = assign_notes updates (appt\<lparr>status := st\<rparr>);
                                  usr' = usr\<lparr>appointments :=
                                           update_first (\<lambda>a. appt_id a = aid) (\<lambda>_. appt') (appointments usr)\<rparr>
                              in (Resp 200 ''Appointment updated successfully'' (Some appt'),
                                  d\<lparr>users := save_user usr' (users d)\<rparr>))))))))"

section \<open>addAppointment, one await at a time\<close>

text \<open>
  Between two \<open>await\<close>s a handler runs alone; at an \<open>await\<close> other requests may run.
  A request in flight is the handler's position with the documents it holds: each step
  performs the pending database operation and runs the handler up to its next \<open>await\<close>.
  An operation that throws ends the request with the answer 500.
\<close>

datatype booking =
    Received
  | HaveUser user
  | HaveSlot user slot
  | HaveDoctor user slot "doctor_doc option"
  | SavingSlot user slot doctor_doc hospital_doc
  | SavingUser user appointment
  | Responded "appointment response"

record booking_task =
  t_now :: int
  t_new_id :: oid
  t_uid :: oid
  t_body :: appointment_request
  t_at :: booking

text \<open>
  \<open>user.save()\<close> after a push onto \<open>user.appointments\<close> sends the pushed subdocument
  to the stored document of that identifier.
\<close>

definition push_appointment :: "oid \<Rightarrow> appointment \<Rightarrow> user list \<Rightarrow> user list" where
  "push_appointment uid appt us =
     update_first (\<lambda>v. user_id v = uid) (\<lambda>v. v\<lparr>appointments := appointments v @ [appt]\<rparr>) us"

definition booking_step :: "jsenv \<Rightarrow> storage \<Rightarrow> db \<Rightarrow> booking_task \<Rightarrow> db \<times> booking_task" where
  "booking_step env st d t =
     (let body = t_body t; uid = t_uid t;
          hospitalId' = the (cast_oid (the (req_hospitalId body)));
          doctorId' = the (cast_oid (the (req_doctorId body)));
          appointmentTime' = the (req_appointmentTime body);
          slotDate = startOfDay env (the (parseDate env (the (req_appointmentDate body))))
      in case t_at t of
           Received \<Rightarrow>
             (case validateAppointmentData env body of
                Inl msg \<Rightarrow> (d, t\<lparr>t_at := Responded (Resp 400 msg None)\<rparr>)
              | Inr _ \<Rightarrow>
                 (case throws st User_findById of
                    Some err \<Rightarrow> (d, t\<lparr>t_at := Responded (caught err)\<rparr>)
                  | None \<Rightarrow>
                 (case findById user_id uid (users d) of
                    None \<Rightarrow> (d, t\<lparr>t_at := Responded (Resp 404 ''User not found'' None)\<rparr>)
                  | Some usr \<Rightarrow> (d, t\<lparr>t_at := HaveUser usr\<rparr>))))
         | HaveUser usr \<Rightarrow>
             (case throws st AppointmentSlot_findOne of
                Some err \<Rightarrow> (d, t\<lparr>t_at := Responded (caught err)\<rparr>)
              | None \<Rightarrow>
             (case find (slot_query doctorId' hospitalId' slotDate appointmentTime') (slots d) of
                None \<Rightarrow>
                  (d, t\<lparr>t_at := Responded (Resp 400 ''Selected time slot is no longer available'' None)\<rparr>)
              | Some availableSlot \<Rightarrow> (d, t\<lparr>t_at := HaveSlot usr availableSlot\<rparr>)))
         | HaveSlot usr availableSlot \<Rightarrow>
             (case throws st Doctor_findById of
                Some err \<Rightarrow> (d, t\<lparr>t_at := Responded (caught err)\<rparr>)
              | None \<Rightarrow>
                 (d, t\<lparr>t_at := HaveDoctor usr availableSlot (findById doctor_id doctorId' (doctors d))\<rparr>))
         | HaveDoctor usr availableSlot doc' \<Rightarrow>
             (case throws st Hospital_findById of
                Some err \<Rightarrow> (d, t\<lparr>t_at := Responded (caught err)\<rparr>)
              | None \<Rightarrow>
             (case doc' of
                None \<Rightarrow> (d, t\<lparr>t_at := Responded (Resp 400 ''Doctor or hospital not found'' None)\<rparr>)
              | Some doc \<Rightarrow>
                 (case findById hospital_id hospitalId' (hospitals d) of
                    None \<Rightarrow> (d, t\<lparr>t_at := Responded (Resp 400 ''Doctor or hospital not found'' None)\<rparr>)
                  | Some hosp \<Rightarrow> (d, t\<lparr>t_at := SavingSlot usr availableSlot doc hosp\<rparr>))))
         | SavingSlot usr availableSlot doc hosp \<Rightarrow>
             (case slot_save_error st (book_slot uid availableSlot) of
                Some err \<Rightarrow> (d, t\<lparr>t_at := Responded (caught err)\<rparr>)
              | None \<Rightarrow>
                 (d\<lparr>slots := save_slot (slot_id availableSlot) uid (slots d)\<rparr>,
                  t\<lparr>t_at := SavingUser usr
                           (newAppointment (t_now t) (t_new_id t) body slotDate doc hosp availableSlot)\<rparr>))
         | SavingUser usr appt \<Rightarrow>
             (case user_save_error st (usr\<lparr>appointments := appointments usr @ [appt]\<rparr>) of
                Some err \<Rightarrow> (d, t\<lparr>t_at := Responded (caught err)\<rparr>)
              | None \<Rightarrow>
                 (d\<lparr>users := push_appointment uid appt (users d)\<rparr>,
                  t\<lparr>t_at := Responded
                           (Resp 201 ''Appointment booked successfully! It will be completed in 1 minute.''
                              (Some appt))\<rparr>))
         | Responded r \<Rightarrow> (d, t))"

text \<open>Requests in flight, run in the order of a schedule: each entry names the request that steps.\<close>

fun run ::
  "jsenv \<Rightarrow> storage \<Rightarrow> nat list \<Rightarrow> db \<times> booking_task list \<Rightarrow> db \<times> booking_task list" where
  "run env st [] s = s"
| "run env st (i # sched) (d, ts) =
     (if i < length ts
      then (case booking_step env st d (ts ! i) of (d', t') \<Rightarrow> run env st sched (d', ts[i := t']))
      else run env st sched (d, ts))"

definition new_task :: "int \<Rightarrow> oid \<Rightarrow> oid \<Rightarrow> appointment_request \<Rightarrow> booking_task" where
  "new_task now new_id uid body =
     \<lparr>t_now = now, t_new_id = new_id, t_uid = uid, t_body = body, t_at = Received\<rparr>"

section \<open>services/appointmentService.js\<close>

text \<open>
  \<open>Math.random\<close> is an injected source. One generation of a prescription makes the
  draws below; \<open>Math.floor(Math.random() * n)\<close> is the draw reduced to an index
  below \<open>n\<close>. The per-medication draws are indexed by the position of the medication.
\<close>

record draws =
  r_count :: nat
  r_shuffle :: "nat list"
  r_strength :: "nat \<Rightarrow> nat"
  r_dosage_frequency :: "nat \<Rightarrow> nat"
  r_diagnosis :: nat
  r_frequency :: "nat \<Rightarrow> nat"
  r_duration :: "nat \<Rightarrow> nat"
  r_instructions :: nat
  r_followUp :: nat

definition random_index :: "nat \<Rightarrow> nat \<Rightarrow> nat" where
  "random_index r n = r mod n"

text \<open>\<open>xs[Math.floor(Math.random() * xs.length)]\<close> on a non-empty array.\<close>

definition random_element :: "nat \<Rightarrow> 'a list \<Rightarrow> 'a" where
  "random_element r xs = xs ! random_index r (length xs)"

text \<open>
  \<open>[...xs].sort(() => 0.5 - Math.random())\<close>: some rearrangement of the array, fixed
  by the draws. Each draw picks the next element among those left.
\<close>

fun shuffle_by :: "nat list \<Rightarrow> 'a list \<Rightarrow> 'a list" where
  "shuffle_by [] xs = xs"
| "shuffle_by (r # rs) xs =
     (if xs = [] then []
      else (let i = random_index r (length xs)
            in xs ! i # shuffle_by rs (take i xs @ drop (Suc i) xs)))"

text \<open>
  The department table of \<open>generateDiagnosis\<close>. The service and the controller carry
  the same table except for one entry of Neurology, the parameter. Department names are
  taken not to be property names that every JavaScript object inherits.
\<close>

definition diagnoses :: "string \<Rightarrow> (string \<times> string list) list" where
  "diagnoses neuro =
     [(''Cardiology'', [''Hypertension'', ''Coronary artery disease'', ''Arrhythmia'',
                        ''Heart failure'', ''Chest pain'']),
      (''Dermatology'', [''Acne vulgaris'', ''Eczema'', ''Psoriasis'', ''Contact dermatitis'',
                         ''Skin infection'']),
      (''Neurology'', [''Migraine'', ''Tension headache'', neuro, ''Insomnia'', ''Anxiety disorder'']),
      (''Orthopedics'', [''Osteoarthritis'', ''Back pain'', ''Sprain'', ''Tendinitis'',
                         ''Fracture follow-up'']),
      (''Pediatrics'', [''Upper respiratory infection'', ''Ear infection'', ''Viral illness'',
                        ''Allergic rhinitis'', ''Asthma'']),
      (''Oncology'', [''Follow-up care'', ''Symptom management'', ''Treatment monitoring'',
                      ''Pain management'']),
      (''Gynecology'', [''Menstrual disorder'', ''UTI'', ''Vaginal infection'',
                        ''Contraception management'', ''Pregnancy follow-up'']),
      (''Psychiatry'', [''Anxiety disorder'', ''Depression'', ''Insomnia'', ''Stress management'',
                        ''Mood disorder'']),
      (''General'', [''General medical condition'', ''Follow-up examination'', ''Routine checkup'',
                     ''Health maintenance''])]"

definition generateDiagnosis :: "string \<Rightarrow> string \<Rightarrow> nat \<Rightarrow> string" where
  "generateDiagnosis neuro dept r =
     (let deptDiagnoses =
            (case map_of (diagnoses neuro) dept of
               Some l \<Rightarrow> l
             | None \<Rightarrow> the (map_of (diagnoses neuro) ''General''))
      in random_element r deptDiagnoses)"

definition generateDosage :: "string list \<Rightarrow> nat \<Rightarrow> nat \<Rightarrow> string" where
  "generateDosage strs r1 r2 =
     (if strs = [] then ''As directed''
      else (let randomStrength = random_element r1 strs;
                frequency' = random_element r2
                  [''once daily'', ''twice daily'', ''three times daily'', ''four times daily'',
                   ''as needed'']
            in randomStrength @ '' '' @ frequency'))"

definition generateMedicationInstructions :: "string \<Rightarrow> string" where
  "generateMedicationInstructions cat =
     (case map_of
        [(''antibiotic'', ''Complete the full course even if you feel better''),
         (''analgesic'', ''Take with food if stomach upset occurs''),
         (''anti-inflammatory'', ''Take with food or milk to avoid stomach irritation''),
         (''antihistamine'', ''May cause drowsiness - avoid driving''),
         (''cardiovascular'', ''Take at the same time every day''),
         (''gastrointestinal'', ''Take 30-60 minutes before meals''),
         (''respiratory'', ''Rinse mouth after using inhaler''),
         (''endocrine'', ''Take with food to reduce stomach upset''),
         (''vitamin'', ''Take with food for better absorption'')] cat of
        Some i \<Rightarrow> i
      | None \<Rightarrow> ''Take as directed by your physician'')"

text \<open>What is thrown: \<open>new Error(message)\<close>, or an error of the storage layer.\<close>

datatype exn = Error string | DuplicateKey | StorageError

text \<open>
  \<open>prescription.save()\<close> of a new document, under the unique index on
  \<open>appointmentId\<close> of model/Prescription.js.
\<close>

definition insert_prescription :: "prescription \<Rightarrow> prescription list \<Rightarrow> prescription list option" where
  "insert_prescription p ps =
     (if appointmentId p \<in> set (map appointmentId ps) then None else Some (ps @ [p]))"

definition service_medication :: "draws \<Rightarrow> nat \<times> medicine \<Rightarrow> medication" where
  "service_medication rnd km =
     (case km of (k, med) \<Rightarrow>
        \<lparr>name = med_name med,
         genericName = med_genericName med,
         dosage = generateDosage (strengths med) (r_strength rnd k) (r_dosage_frequency rnd k),
         frequency = ''As prescribed'',
         med_duration = ''7 days'',
         category = med_category med,
         instructions = generateMedicationInstructions (med_category med)\<rparr>)"

text \<open>
  \<open>generatePrescription(appointment, userId)\<close>. \<open>now\<close> is the clock, \<open>new_id\<close> the
  identifier of the new document. The result is the value returned or the error thrown,
  with the database.
\<close>

definition generatePrescription ::
  "int \<Rightarrow> oid \<Rightarrow> draws \<Rightarrow> db \<Rightarrow> appointment \<Rightarrow> oid \<Rightarrow> (exn + prescription) \<times> db" where
  "generatePrescription now new_id rnd d appt uid =
     (case find (\<lambda>p. appointmentId p = appt_id appt) (prescriptions d) of
        Some existingPrescription \<Rightarrow> (Inr existingPrescription, d)
      | None \<Rightarrow>
         (let medicineCount = random_index (r_count rnd) 3 + 1;
              allMedicines = filter isActive (medicines d)
          in if length allMedicines = 0
             then (Inl (Error ''No medicines available in database''), d)
             else
               (let shuffledMedicines = shuffle_by (r_shuffle rnd) allMedicines;
                    selectedMedicines = take medicineCount shuffledMedicines;
                    meds = map (service_medication rnd) (enumerate 0 selectedMedicines);
                    p = \<lparr>presc_id = new_id,
                         appointmentId = appt_id appt,
                         userId = uid,
                         presc_hospitalName = hospitalName appt,
                         presc_department = department appt,
                         presc_doctorName = doctorName appt,
                         presc_appointmentDate = appointmentDate appt,
                         presc_appointmentTime = appointmentTime appt,
                         diagnosis = generateDiagnosis ''Neurophy'' (department appt) (r_diagnosis rnd),
                         medications = meds,
                         presc_instructions = ''Complete the course and follow up if symptoms persist'',
                         followUpDate = now + 7 * 24 * 60 * 60 * 1000,
                         prescribedAt = now,
                         presc_status = Active\<rparr>
                in case insert_prescription p (prescriptions d) of
                     None \<Rightarrow> (Inl DuplicateKey, d)
                   | Some ps \<Rightarrow> (Inr p, d\<lparr>prescriptions := ps\<rparr>))))"

text \<open>
  What a sweep is run with: for each appointment the clock, the new identifier and the
  draws of its generation, and for each user whether \<open>user.save()\<close> succeeds.
\<close>

record sweep_env =
  clock :: "oid \<Rightarrow> int"
  fresh_id :: "oid \<Rightarrow> oid"
  rand :: "oid \<Rightarrow> draws"
  save_ok :: "oid \<Rightarrow> bool"

text \<open>
  The lines that a sweep writes to the console, by the call that writes them:
  \<open>Checking for appointments to expire...\<close>, \<open>Expiring appointment a for user u\<close>,
  \<open>Appointment was scheduled for: date at time\<close>, \<open>Error generating prescription:\<close>
  with the error (written by \<open>generatePrescription\<close> before it throws again),
  \<open>Generated prescription p for appointment a\<close>, \<open>Failed to generate prescription
  for appointment a:\<close> with the error, \<open>Saved user u with updated appointments\<close>,
  \<open>Expired n appointments\<close> and \<open>Error in expireAppointments:\<close> with the error.
\<close>

datatype console_line =
    Checking
  | Expiring oid oid
  | ScheduledFor int string
  | ErrorGenerating exn
  | Generated oid oid
  | FailedToGenerate oid exn
  | SavedUser oid
  | Expired nat
  | ErrorInExpire exn

text \<open>
  The inner loop of \<open>expireAppointments\<close>: the ledger, the database, the count and the
  lines written.
\<close>

fun expire_ledger ::
  "sweep_env \<Rightarrow> oid \<Rightarrow> appointment list \<Rightarrow> db
     \<Rightarrow> appointment list \<times> db \<times> nat \<times> console_line list" where
  "expire_ledger E uid [] d = ([], d, 0, [])"
| "expire_ledger E uid (a # as) d =
     (if status a = Confirmed
      then
        (let a1 = a\<lparr>status := Completed\<rparr>;
             (res, d1) = generatePrescription (clock E (appt_id a)) (fresh_id E (appt_id a))
                           (rand E (appt_id a)) d a1 uid;
             a2 = (case res of
                     Inr p \<Rightarrow> a1\<lparr>prescriptionId := Some (presc_id p)\<rparr>
                   | Inl err \<Rightarrow> a1);
             written = [Expiring (appt_id a) uid, ScheduledFor (appointmentDate a) (appointmentTime a)]
                       @ (case res of
                            Inr p \<Rightarrow> [Generated (presc_id p) (appt_id a)]
                          | Inl err \<Rightarrow> [ErrorGenerating err, FailedToGenerate (appt_id a) err]);
             (as', d2, n, out) = expire_ledger E uid as d1
         in (a2 # as', d2, Suc n, written @ out))
      else
        (let (as', d2, n, out) = expire_ledger E uid as d
         in (a # as', d2, n, out)))"

text \<open>
  The outer loop over the users found. A failing \<open>user.save()\<close> throws out of the
  loop.
\<close>

fun expire_users ::
  "sweep_env \<Rightarrow> user list \<Rightarrow> db \<Rightarrow> nat \<Rightarrow> (exn + nat) \<times> db \<times> console_line list" where
  "expire_users E [] d expiredCount = (Inr expiredCount, d, [])"
| "expire_users E (u # us) d expiredCount =
     (let (as', d1, n, written) = expire_ledger E (user_id u) (appointments u) d;
          shouldSave = (0 < n)
      in if shouldSave
         then (if save_ok E (user_id u)
               then (let (res, d2, out) =
                           expire_users E us
                             (d1\<lparr>users := save_user (u\<lparr>appointments := as'\<rparr>) (users d1)\<rparr>)
                             (expiredCount + n)
                     in (res, d2, written @ SavedUser (user_id u) # out))
               else (Inl StorageError, d1, written))
         else (let (res, d2, out) = expire_users E us d1 (expiredCount + n)
               in (res, d2, written @ out)))"

definition has_confirmed :: "user \<Rightarrow> bool" where
  "has_confirmed u = list_ex (\<lambda>a. status a = Confirmed) (appointments u)"

text \<open>
  \<open>expireAppointments\<close> with everything it does: the count returned or the error
  thrown (the outer \<open>catch\<close> logs and throws again), the database, and the console.
\<close>

definition expireAppointments_run :: "sweep_env \<Rightarrow> db \<Rightarrow> (exn + nat) \<times> db \<times> console_line list" where
  "expireAppointments_run E d =
     (case expire_users E (filter has_confirmed (users d)) d 0 of
        (Inr expiredCount, d', out) \<Rightarrow> (Inr expiredCount, d', Checking # out @ [Expired expiredCount])
      | (Inl err, d', out) \<Rightarrow> (Inl err, d', Checking # out @ [ErrorInExpire err]))"

text \<open>What \<open>expireAppointments\<close> returns or throws, with the database it leaves.\<close>

definition expireAppointments :: "sweep_env \<Rightarrow> db \<Rightarrow> (exn + nat) \<times> db" where
  "expireAppointments E d = (case expireAppointments_run E d of (res, d', out) \<Rightarrow> (res, d'))"

section \<open>controllers/prescriptionController.js\<close>

text \<open>
  The controller that the routes require as \<open>controllers/prescriptionController\<close>, with
  \<open>generatePrescriptionForAppointment\<close> and its generators. In the sources at hand its
  text follows the middleware in \<open>middleware/verifyJWT.js\<close>.
\<close>

definition generateFrequency :: "nat \<Rightarrow> string" where
  "generateFrequency r =
     random_element r
       [''Take with food'', ''Take on empty stomach'', ''Take with plenty of water'',
        ''Take at bedtime'', ''Take in the morning'', ''Take with meals'']"

definition generateDuration :: "nat \<Rightarrow> string" where
  "generateDuration r =
     random_element r
       [''7 days'', ''10 days'', ''14 days'', ''30 days'', ''As needed'', ''Until finished'', ''90 days'']"

definition generateInstructions :: "nat \<Rightarrow> string" where
  "generateInstructions r =
     random_element r
       [''Complete the full course of medication'', ''Return if symptoms worsen'',
        ''Avoid alcohol while taking this medication'', ''May cause drowsiness - avoid driving'',
        ''Take with plenty of water'', ''Store at room temperature away from moisture'',
        ''Follow up if no improvement in 3 days'', ''Maintain adequate hydration'',
        ''Avoid prolonged sun exposure'']"

definition followUpDays :: "nat list" where
  "followUpDays = [7, 14, 30, 60, 90]"

definition generateFollowUpDate :: "jsenv \<Rightarrow> int \<Rightarrow> nat \<Rightarrow> int" where
  "generateFollowUpDate env now r = addDays env now (random_element r followUpDays)"

definition controller_medication :: "draws \<Rightarrow> nat \<times> medicine \<Rightarrow> medication" where
  "controller_medication rnd km =
     (case km of (k, med) \<Rightarrow>
        \<lparr>name = med_name med,
         genericName = med_genericName med,
         dosage = generateDosage (strengths med) (r_strength rnd k) (r_dosage_frequency rnd k),
         frequency = generateFrequency (r_frequency rnd k),
         med_duration = generateDuration (r_duration rnd k),
         category = med_category med,
         instructions = generateMedicationInstructions (med_category med)\<rparr>)"

definition generatePrescriptionForAppointment ::
  "jsenv \<Rightarrow> int \<Rightarrow> oid \<Rightarrow> draws \<Rightarrow> db \<Rightarrow> oid \<Rightarrow> string \<Rightarrow> prescription response \<times> db" where
  "generatePrescriptionForAppointment env now new_id rnd d uid appointmentId' =
     (case cast_oid appointmentId' of
        None \<Rightarrow> (Resp 400 ''Invalid appointment ID'' None, d)
      | Some aid \<Rightarrow>
         (case findById user_id uid (users d) of
            None \<Rightarrow> (Resp 404 ''User not found'' None, d)
          | Some usr \<Rightarrow>
             (case findById appt_id aid (appointments usr) of
                None \<Rightarrow> (Resp 404 ''Appointment not found'' None, d)
              | Some appt \<Rightarrow>
                 if status appt \<noteq> Confirmed \<and> status appt \<noteq> Completed
                 then (Resp 400 ''Prescription can only be generated for confirmed or completed appointments''
                         None, d)
                 else
                   (case find (\<lambda>p. appointmentId p = aid) (prescriptions d) of
                      Some existingPrescription \<Rightarrow>
                        (Resp 400 ''Prescription already exists for this appointment'' None, d)
                    | None \<Rightarrow>
                       (let medicineCount = random_index (r_count rnd) 3 + 1;
                            allMedicines = filter isActive (medicines d)
                        in if length allMedicines = 0
                           then (Resp 500 ''No medicines available in database'' None, d)
                           else
                             (let shuffledMedicines = shuffle_by (r_shuffle rnd) allMedicines;
                                  selectedMedicines = take medicineCount shuffledMedicines;
                                  meds = map (controller_medication rnd) (enumerate 0 selectedMedicines);
                                  p = \<lparr>presc_id = new_id,
                                       appointmentId = aid,
                                       userId = uid,
                                       presc_hospitalName = hospitalName appt,
                                       presc_department = department appt,
                                       presc_doctorName = doctorName appt,
                                       presc_appointmentDate = appointmentDate appt,
                                       presc_appointmentTime = appointmentTime appt,
                                       diagnosis = generateDiagnosis ''Neuropathy'' (department appt)
                                                     (r_diagnosis rnd),
                                       medications = meds,
                                       presc_instructions = generateInstructions (r_instructions rnd),
                                       followUpDate = generateFollowUpDate env now (r_followUp rnd),
                                       prescribedAt = now,
                                       presc_status = Active\<rparr>
                              in case insert_prescription p (prescriptions d) of
                                   None \<Rightarrow> (Resp 500 ''Internal server error'' None, d)
                                 | Some ps \<Rightarrow>
                                    (let d1 = d\<lparr>prescriptions := ps\<rparr>;
                                         usr' = usr\<lparr>appointments :=
                                                  update_first (\<lambda>a. appt_id a = aid)
                                                    (\<lambda>a. a\<lparr>prescriptionId := Some new_id,
                                                            status := Completed\<rparr>)
                                                    (appointments usr)\<rparr>;
                                         d2 = d1\<lparr>users := save_user usr' (users d1)\<rparr>
                                     in (Resp 200 ''Prescription generated successfully'' (Some p),
                                         d2))))))))"

section \<open>scripts/seedData.js: slot generation\<close>

text \<open>\<open>n.toString().padStart(2, '0')\<close>\<close>

fun toString :: "nat \<Rightarrow> string" where
  "toString n =
     (if n < 10 then [char_of (48 + n)] else toString (n div 10) @ [char_of (48 + n mod 10)])"

declare toString.simps [simp del]

definition padStart2 :: "string \<Rightarrow> string" where
  "padStart2 s = replicate (2 - length s) (CHR ''0'') @ s"

definition hhmm :: "nat \<Rightarrow> nat \<Rightarrow> string" where
  "hhmm h m = padStart2 (toString h) @ '':'' @ padStart2 (toString m)"

text \<open>
  \<open>for (let minute = 0; minute < 60; minute += appointmentDuration)\<close>. The step is
  \<open>doctor.appointmentDuration || 30\<close>, never zero, which is what makes the loop end.
\<close>

function minute_loop :: "nat \<Rightarrow> nat \<Rightarrow> nat list" where
  "minute_loop dur minute =
     (if minute < 60 \<and> 0 < dur then minute # minute_loop dur (minute + dur) else [])"
  by pat_completeness auto
termination
  by (relation "measure (\<lambda>(dur, minute). 60 - minute)") auto

declare minute_loop.simps [simp del]

definition seed_slot :: "doctor_doc \<Rightarrow> int \<Rightarrow> nat \<Rightarrow> nat \<Rightarrow> slot" where
  "seed_slot doc slotDate hour minute =
     (let dur = default_duration (appointmentDuration doc);
          endMinute = minute + dur;
          endHourTime = (if 60 \<le> endMinute then hour + 1 else hour);
          endMinuteTime = endMinute mod 60
      in \<lparr>slot_id = 0,
          doctor = doctor_id doc,
          hospital = doctor_hospital doc,
          date = slotDate,
          startTime = hhmm hour minute,
          endTime = hhmm endHourTime endMinuteTime,
          duration = dur,
          isBooked = False,
          isAvailable = True,
          bookedBy = None\<rparr>)"

definition day_slots :: "jsenv \<Rightarrow> int \<Rightarrow> doctor_doc \<Rightarrow> nat \<Rightarrow> slot list" where
  "day_slots env startDate doc day =
     (let slotDate = startOfDay env (addDays env startDate day)
      in concat (map (\<lambda>hour. map (seed_slot doc slotDate hour)
                                (minute_loop (default_duration (appointmentDuration doc)) 0))
                     [9..<17]))"

definition appointmentSlots :: "jsenv \<Rightarrow> int \<Rightarrow> doctor_doc list \<Rightarrow> slot list" where
  "appointmentSlots env startDate docs =
     concat (map (\<lambda>doc. concat (map (day_slots env startDate doc) [0..<30])) docs)"

text \<open>\<open>insertMany\<close> stores each document under an identifier of its own.\<close>

definition insertMany :: "(nat \<Rightarrow> oid) \<Rightarrow> slot list \<Rightarrow> slot list" where
  "insertMany fresh xs = map (\<lambda>(k, s). s\<lparr>slot_id := fresh k\<rparr>) (enumerate 0 xs)"

section \<open>A small hospital\<close>

text \<open>
  One doctor with one half-hour slot on 2024-12-25 at 09:00 in one hospital, two
  patients, and a clock on UTC.
\<close>

definition example_env :: jsenv where
  "example_env =
     \<lparr>parseDate = (\<lambda>s. if s = ''2024-12-25'' then Some 1735117200000 else None),
      startOfDay = (\<lambda>t. t - t mod 86400000),
      addDays = (\<lambda>t n. t + int n * 86400000)\<rparr>"

text \<open>A storage in which no operation throws, and one in which saving a user does.\<close>

definition example_storage :: storage where
  "example_storage =
     \<lparr>throws = (\<lambda>op. None),
      slotValidationError = (\<lambda>s. ''AppointmentSlot validation failed''),
      userValidationError = (\<lambda>u. ''User validation failed'')\<rparr>"

definition example_failing_storage :: storage where
  "example_failing_storage =
     example_storage\<lparr>throws := (\<lambda>op. if op = User_save then Some ''connection lost'' else None)\<rparr>"

definition example_slot :: slot where
  "example_slot =
     \<lparr>slot_id = 80, doctor = 2, hospital = 1, date = 1735084800000,
      startTime = ''09:00'', endTime = ''09:30'', duration = 30,
      isBooked = False, isAvailable = True, bookedBy = None\<rparr>"

definition example_db :: db where
  "example_db =
     \<lparr>users = [\<lparr>user_id = 16, appointments = []\<rparr>, \<lparr>user_id = 17, appointments = []\<rparr>],
      slots = [example_slot],
      doctors = [\<lparr>doctor_id = 2, doctor_name = ''Dr. Daniel Harris'',
                  specialty = ''Cardiology'', doctor_hospital = 1, appointmentDuration = 30\<rparr>],
      hospitals = [\<lparr>hospital_id = 1, hospital_name = ''City General'',
                    hospital_location = ''Springfield''\<rparr>],
      medicines = [],
      prescriptions = []\<rparr>"

text \<open>The same hospital with a doctor whose specialty is the empty string.\<close>

definition example_blank_db :: db where
  "example_blank_db =
     example_db
       \<lparr>doctors := [\<lparr>doctor_id = 2, doctor_name = ''Dr. Daniel Harris'',
                     specialty = [], doctor_hospital = 1, appointmentDuration = 30\<rparr>]\<rparr>"

definition example_request :: appointment_request where
  "example_request =
     \<lparr>req_hospitalId = Some ''000000000000000000000001'',
      req_departmentId = Some ''000000000000000000000003'',
      req_doctorId = Some ''000000000000000000000002'',
      req_appointmentDate = Some ''2024-12-25'',
      req_appointmentTime = Some ''09:00''\<rparr>"

text \<open>The first patient's appointment, once booked at instant 5 under identifier 96.\<close>

definition example_appointment :: appointment where
  "example_appointment =
     \<lparr>appt_id = 96, hospitalId = 1, hospitalName = ''City General'', departmentId = 3,
      department = ''Cardiology'', doctorId = 2, doctorName = ''Dr. Daniel Harris'',
      appointmentDate = 1735084800000, appointmentTime = ''09:00'', location = ''Springfield'',
      status = Confirmed, createdAt = 5, actualStartTime = Some 5, actualEndTime = Some 1800005,
      slotId = Some 80, prescriptionId = None, appt_notes = None\<rparr>"

definition example_booked_db :: db where
  "example_booked_db =
     example_db
       \<lparr>users := [\<lparr>user_id = 16, appointments = [example_appointment]\<rparr>,
                  \<lparr>user_id = 17, appointments = []\<rparr>],
        slots := [example_slot\<lparr>isBooked := True, isAvailable := False, bookedBy := Some 16\<rparr>]\<rparr>"

text \<open>The same database after that patient has cancelled the appointment.\<close>

definition example_cancelled_db :: db where
  "example_cancelled_db =
     example_db
       \<lparr>users := [\<lparr>user_id = 16, appointments = [example_appointment\<lparr>status := Cancelled\<rparr>]\<rparr>,
                  \<lparr>user_id = 17, appointments = []\<rparr>]\<rparr>"

text \<open>
  For the sweep: a second patient with a confirmed appointment of their own, one active
  medicine in the catalog, fixed draws, and a sweep in which every save succeeds or in
  which the save of the first patient fails.
\<close>

definition example_second_appointment :: appointment where
  "example_second_appointment =
     example_appointment\<lparr>appt_id := 97, appointmentTime := ''09:30'', slotId := Some 81\<rparr>"

definition example_medicine :: medicine where
  "example_medicine =
     \<lparr>med_name = ''Amoxil'', med_genericName = ''Amoxicillin'', strengths = [''250mg'', ''500mg''],
      med_category = ''antibiotic'', isActive = True\<rparr>"

definition example_sweep_db :: db where
  "example_sweep_db =
     example_booked_db
       \<lparr>users := [\<lparr>user_id = 16, appointments = [example_appointment]\<rparr>,
                  \<lparr>user_id = 17, appointments = [example_second_appointment]\<rparr>],
        medicines := [example_medicine]\<rparr>"

definition example_draws :: draws where
  "example_draws =
     \<lparr>r_count = 0, r_shuffle = [], r_strength = (\<lambda>k. 1), r_dosage_frequency = (\<lambda>k. 1),
      r_diagnosis = 2, r_frequency = (\<lambda>k. 0), r_duration = (\<lambda>k. 0), r_instructions = 0,
      r_followUp = 1\<rparr>"

definition example_sweep_env :: sweep_env where
  "example_sweep_env =
     \<lparr>clock = (\<lambda>a. 1000), fresh_id = (\<lambda>a. a + 1000), rand = (\<lambda>a. example_draws),
      save_ok = (\<lambda>u. True)\<rparr>"

definition example_failing_env :: sweep_env where
  "example_failing_env = example_sweep_env\<lparr>save_ok := (\<lambda>u. u \<noteq> 16)\<rparr>"

text \<open>A sweep in which the save of the second patient fails.\<close>

definition example_late_failing_env :: sweep_env where
  "example_late_failing_env = example_sweep_env\<lparr>save_ok := (\<lambda>u. u \<noteq> 17)\<rparr>"

text \<open>
  The prescription that the service generates for the first appointment at instant 1000
  under identifier 1096 with those draws, and the database holding it.
\<close>

definition example_prescription :: prescription where
  "example_prescription =
     \<lparr>presc_id = 1096, appointmentId = 96, userId = 16,
      presc_hospitalName = ''City General'', presc_department = ''Cardiology'',
      presc_doctorName = ''Dr. Daniel Harris'', presc_appointmentDate = 1735084800000,
      presc_appointmentTime = ''09:00'', diagnosis = ''Arrhythmia'',
      medications =
        [\<lparr>name = ''Amoxil'', genericName = ''Amoxicillin'', dosage = ''500mg twice daily'',
          frequency = ''As prescribed'', med_duration = ''7 days'', category = ''antibiotic'',
          instructions = ''Complete the full course even if you feel better''\<rparr>],
      presc_instructions = ''Complete the course and follow up if symptoms persist'',
      followUpDate = 604801000, prescribedAt = 1000, presc_status = Active\<rparr>"

definition example_generated_db :: db where
  "example_generated_db = example_sweep_db\<lparr>prescriptions := [example_prescription]\<rparr>"

text \<open>A request body that sets the status back to confirmed.\<close>

definition example_update :: "string \<rightharpoonup> string" where
  "example_update = [''status'' \<mapsto> ''confirmed'']"

section \<open>The slot invariant\<close>

definition slot_inv :: "slot \<Rightarrow> bool" where
  "slot_inv s = ((isBooked s = (bookedBy s \<noteq> None)) \<and> ((bookedBy s \<noteq> None) = (\<not> isAvailable s)))"

section \<open>Vocabulary of the claims\<close>

text \<open>The slot a validated booking request asks for.\<close>

definition requested_slot :: "jsenv \<Rightarrow> appointment_request \<Rightarrow> slot \<Rightarrow> bool" where
  "requested_slot env body =
     slot_query (the (cast_oid (the (req_doctorId body))))
       (the (cast_oid (the (req_hospitalId body))))
       (startOfDay env (the (parseDate env (the (req_appointmentDate body)))))
       (the (req_appointmentTime body))"

text \<open>The operations that a booking and a cancellation await.\<close>

definition booking_operations :: "db_op list" where
  "booking_operations =
     [User_findById, AppointmentSlot_findOne, Doctor_findById, Hospital_findById,
      AppointmentSlot_save, User_save]"

definition cancelling_operations :: "db_op list" where
  "cancelling_operations = [User_findById, AppointmentSlot_findByIdAndUpdate, User_save]"

definition none_throws :: "storage \<Rightarrow> db_op list \<Rightarrow> bool" where
  "none_throws st ops = list_all (\<lambda>op. throws st op = None) ops"

text \<open>A slot that is free: available, not booked, without a claimant.\<close>

definition slot_free :: "slot \<Rightarrow> bool" where
  "slot_free s = (isAvailable s \<and> \<not> isBooked s \<and> bookedBy s = None)"

text \<open>Two appointments that differ at most in status and notes.\<close>

definition same_but_status_notes :: "appointment \<Rightarrow> appointment \<Rightarrow> bool" where
  "same_but_status_notes a a' = (a' = a\<lparr>status := status a', appt_notes := appt_notes a'\<rparr>)"

text \<open>
  The users of two databases, one by one: the same identifiers, every user but \<open>uid\<close>
  untouched, and the appointments of \<open>uid\<close> related one by one by \<open>R\<close>.
\<close>

definition ledgers_related ::
  "oid \<Rightarrow> (appointment \<Rightarrow> appointment \<Rightarrow> bool) \<Rightarrow> db \<Rightarrow> db \<Rightarrow> bool" where
  "ledgers_related uid R d d' =
     list_all2 (\<lambda>u u'. user_id u' = user_id u
                        \<and> (user_id u \<noteq> uid \<longrightarrow> u' = u)
                        \<and> list_all2 R (appointments u) (appointments u'))
       (users d) (users d')"

text \<open>
  What a sweep does to one stored appointment: a confirmed one becomes completed and either
  keeps its \<open>prescriptionId\<close> or gets that of a prescription stored for it, nothing else
  about it changes; any other appointment stays as it is.
\<close>

definition swept :: "db \<Rightarrow> appointment \<Rightarrow> appointment \<Rightarrow> bool" where
  "swept d' a a' =
     (if status a = Confirmed
      then a' = a\<lparr>status := Completed, prescriptionId := prescriptionId a'\<rparr>
           \<and> (prescriptionId a' = prescriptionId a
                \<or> list_ex (\<lambda>p. appointmentId p = appt_id a \<and> prescriptionId a' = Some (presc_id p))
                     (prescriptions d'))
      else a' = a)"

text \<open>
  \<open>generatePrescription\<close> throws for an appointment exactly when no prescription is
  stored for it and the catalog has no active medicine.
\<close>

definition generation_fails :: "db \<Rightarrow> appointment \<Rightarrow> bool" where
  "generation_fails d a =
     (find (\<lambda>p. appointmentId p = appt_id a) (prescriptions d) = None
      \<and> filter isActive (medicines d) = [])"

text \<open>
  What a sweep that starts in \<open>d\<close> and ends in \<open>d'\<close> does to one stored appointment: a
  confirmed one becomes completed; its \<open>prescriptionId\<close> is that of the prescription
  found for it in \<open>d'\<close>, unless generation fails for it, and then it is as before;
  nothing else about it changes. Any other appointment stays as it is.
\<close>

definition completed_by_sweep :: "db \<Rightarrow> db \<Rightarrow> appointment \<Rightarrow> appointment \<Rightarrow> bool" where
  "completed_by_sweep d d' a a' =
     (if status a = Confirmed
      then a' = a\<lparr>status := Completed, prescriptionId := prescriptionId a'\<rparr>
           \<and> (if generation_fails d a then prescriptionId a' = prescriptionId a
                else (case find (\<lambda>p. appointmentId p = appt_id a) (prescriptions d') of
                        None \<Rightarrow> False
                      | Some p \<Rightarrow> prescriptionId a' = Some (presc_id p)))
      else a' = a)"

text \<open>The stored ledger of user \<open>u\<close> in \<open>d'\<close> is the ledger of \<open>u\<close>, so completed.\<close>

definition ledger_completed :: "db \<Rightarrow> db \<Rightarrow> user \<Rightarrow> bool" where
  "ledger_completed d d' u =
     (case findById user_id (user_id u) (users d') of
        None \<Rightarrow> False
      | Some u' \<Rightarrow> list_all2 (completed_by_sweep d d') (appointments u) (appointments u'))"

text \<open>
  The lines \<open>Failed to generate prescription for appointment a\<close> that a sweep of the
  ledger \<open>as\<close> started in \<open>d\<close> owes the console: one for each confirmed appointment
  for which generation fails.
\<close>

definition failures_logged :: "db \<Rightarrow> appointment list \<Rightarrow> console_line list \<Rightarrow> bool" where
  "failures_logged d as out =
     list_all (\<lambda>a. status a = Confirmed \<and> generation_fails d a \<longrightarrow>
                     FailedToGenerate (appt_id a) (Error ''No medicines available in database'') \<in> set out)
       as"

definition confirmed_count :: "appointment list \<Rightarrow> nat" where
  "confirmed_count as = length (filter (\<lambda>a. status a = Confirmed) as)"

text \<open>The stored ledger of user \<open>u\<close> in \<open>d'\<close> is the swept ledger of \<open>u\<close>.\<close>

definition ledger_swept :: "db \<Rightarrow> user \<Rightarrow> bool" where
  "ledger_swept d' u =
     (case findById user_id (user_id u) (users d') of
        None \<Rightarrow> False
      | Some u' \<Rightarrow> list_all2 (swept d') (appointments u) (appointments u'))"

text \<open>The stored document of user \<open>u\<close> is the same in both databases.\<close>

definition ledger_untouched :: "db \<Rightarrow> db \<Rightarrow> user \<Rightarrow> bool" where
  "ledger_untouched d d' u =
     (findById user_id (user_id u) (users d') = findById user_id (user_id u) (users d))"

text \<open>The terminal statuses.\<close>

definition terminal :: "appointment \<Rightarrow> bool" where
  "terminal a = (status a = Completed \<or> status a = Cancelled)"

text \<open>
  A ledger and its later state: the later one is at least as long, and each appointment
  of the earlier one that satisfies \<open>T\<close> has the same status at the same position.
\<close>

definition kept :: "(appointment \<Rightarrow> bool) \<Rightarrow> appointment list \<Rightarrow> appointment list \<Rightarrow> bool" where
  "kept T as as' =
     (length as \<le> length as'
      \<and> list_all2 (\<lambda>a a'. T a \<longrightarrow> status a' = status a) as (take (length as) as'))"

text \<open>The same for every user stored in \<open>d\<close> and the user stored under that identifier in \<open>d'\<close>.\<close>

definition statuses_kept :: "(appointment \<Rightarrow> bool) \<Rightarrow> db \<Rightarrow> db \<Rightarrow> bool" where
  "statuses_kept T d d' =
     list_all (\<lambda>u. case findById user_id (user_id u) (users d') of
                     None \<Rightarrow> False
                   | Some u' \<Rightarrow> kept T (appointments u) (appointments u'))
       (users d)"

definition cancelled :: "appointment \<Rightarrow> bool" where
  "cancelled a = (status a = Cancelled)"

text \<open>The answer a request in flight has given, if any.\<close>

definition response_of :: "booking_task \<Rightarrow> appointment response option" where
  "response_of t = (case t_at t of Responded r \<Rightarrow> Some r | _ \<Rightarrow> None)"

section \<open>Lemmas about the slot store\<close>

lemma list_all_update_first:
  "list_all P xs \<Longrightarrow> (\<And>x. P x \<Longrightarrow> P (f x)) \<Longrightarrow> list_all P (update_first Q f xs)"
  by (induction xs) auto

lemma slot_inv_book_slot: "slot_inv (book_slot claimant s)"
  by (simp add: slot_inv_def book_slot_def)

lemma slot_inv_free_slot: "slot_inv (free_slot s)"
  by (simp add: slot_inv_def free_slot_def)

lemma slot_inv_seed_slot: "slot_inv (seed_slot doc slotDate hour minute)"
  by (simp add: slot_inv_def seed_slot_def Let_def)

lemma slot_inv_appointmentSlots: "list_all slot_inv (appointmentSlots env startDate docs)"
  by (auto simp: list_all_iff appointmentSlots_def day_slots_def Let_def slot_inv_seed_slot)

lemma slot_inv_slot_id: "slot_inv (s\<lparr>slot_id := i\<rparr>) = slot_inv s"
  by (simp add: slot_inv_def)

lemma slot_inv_enumerate:
  "list_all slot_inv xs \<Longrightarrow>
   list_all slot_inv (map (\<lambda>(k, s). s\<lparr>slot_id := fresh k\<rparr>) (enumerate n xs))"
  by (induction xs arbitrary: n) (simp_all add: slot_inv_slot_id)

lemma slot_inv_insertMany: "list_all slot_inv xs \<Longrightarrow> list_all slot_inv (insertMany fresh xs)"
  unfolding insertMany_def by (rule slot_inv_enumerate)

lemma slot_inv_save_slot: "list_all slot_inv ss \<Longrightarrow> list_all slot_inv (save_slot sid claimant ss)"
  unfolding save_slot_def by (rule list_all_update_first) (simp_all add: slot_inv_book_slot)

lemma slot_inv_release_slot: "list_all slot_inv ss \<Longrightarrow> list_all slot_inv (release_slot sid ss)"
  unfolding release_slot_def by (rule list_all_update_first) (simp_all add: slot_inv_free_slot)

lemma addAppointment_slots:
  "slots (snd (addAppointment env st now new_id d uid body)) = slots d
   \<or> (\<exists>sid. slots (snd (addAppointment env st now new_id d uid body)) = save_slot sid uid (slots d))"
  by (auto simp: addAppointment_def Let_def split: sum.splits option.splits)

lemma cancelAppointment_slots:
  "slots (snd (cancelAppointment st d uid aid)) = slots d
   \<or> (\<exists>sid. slots (snd (cancelAppointment st d uid aid)) = release_slot sid (slots d))"
  by (auto simp: cancelAppointment_def Let_def split: sum.splits option.splits)

section \<open>Lemmas about lookups and updates\<close>

lemma findById_update_first_same:
  "findById key i xs = Some x \<Longrightarrow> key (f x) = i \<Longrightarrow>
   findById key i (update_first (\<lambda>y. key y = i) f xs) = Some (f x)"
  by (induction xs) (auto simp: findById_def split: if_splits)

lemma findById_update_first_other:
  "j \<noteq> i \<Longrightarrow> (\<And>y. key y = i \<Longrightarrow> key (f y) = i) \<Longrightarrow>
   findById key j (update_first (\<lambda>y. key y = i) f xs) = findById key j xs"
  by (induction xs) (auto simp: findById_def)

lemma findById_None_update_first:
  "findById key i xs = None \<Longrightarrow> update_first (\<lambda>y. key y = i) f xs = xs"
  by (induction xs) (auto simp: findById_def split: if_splits)

lemma find_Some_key:
  "find P xs = Some x \<Longrightarrow> distinct (map key xs) \<Longrightarrow> findById key (key x) xs = Some x"
proof (induction xs)
  case Nil
  then show ?case by simp
next
  case (Cons y ys)
  show ?case
  proof (cases "P y")
    case True
    with Cons.prems show ?thesis by (simp add: findById_def)
  next
    case False
    with Cons.prems have x: "find P ys = Some x" and d: "distinct (map key ys)"
      and y: "key y \<notin> key ` set ys"
      by simp_all
    from x have "x \<in> set ys"
      by (auto simp: find_Some_iff)
    with y have "key y \<noteq> key x"
      by auto
    with Cons.IH [OF x d] show ?thesis
      by (simp add: findById_def)
  qed
qed

lemma find_Some_holds: "find P xs = Some x \<Longrightarrow> P x"
  by (auto simp: find_Some_iff)

lemma findById_append_fresh:
  "i \<notin> key ` set xs \<Longrightarrow> key x = i \<Longrightarrow> findById key i (xs @ [x]) = Some x"
  by (induction xs) (auto simp: findById_def)

lemma slot_id_book_slot: "slot_id (book_slot claimant s) = slot_id s"
  by (simp add: book_slot_def)

lemma slot_id_free_slot: "slot_id (free_slot s) = slot_id s"
  by (simp add: free_slot_def)

section \<open>Lemmas about booking\<close>

lemma addAppointment_created:
  assumes "validateAppointmentData env body = Inr dt"
    and "findById user_id uid (users d) = Some usr"
    and "find (requested_slot env body) (slots d) = Some sl"
    and "findById doctor_id (the (cast_oid (the (req_doctorId body)))) (doctors d) = Some doc"
    and "findById hospital_id (the (cast_oid (the (req_hospitalId body)))) (hospitals d) = Some hosp"
    and "appt = newAppointment now new_id body
                  (startOfDay env (the (parseDate env (the (req_appointmentDate body))))) doc hosp sl"
    and "throws st User_findById = None" and "throws st AppointmentSlot_findOne = None"
    and "throws st Doctor_findById = None" and "throws st Hospital_findById = None"
    and "slot_save_error st (book_slot uid sl) = None"
    and "user_save_error st (usr\<lparr>appointments := appointments usr @ [appt]\<rparr>) = None"
  shows "addAppointment env st now new_id d uid body =
           (Resp 201 ''Appointment booked successfully! It will be completed in 1 minute.'' (Some appt),
            d\<lparr>slots := save_slot (slot_id sl) uid (slots d),
              users := save_user (usr\<lparr>appointments := appointments usr @ [appt]\<rparr>) (users d)\<rparr>)"
  using assms by (simp add: addAppointment_def requested_slot_def Let_def)

lemma addAppointment_201:
  assumes "code (fst (addAppointment env st now new_id d uid body)) = 201"
  shows "\<exists>dt usr sl doc hosp.
           validateAppointmentData env body = Inr dt
           \<and> findById user_id uid (users d) = Some usr
           \<and> find (requested_slot env body) (slots d) = Some sl
           \<and> findById doctor_id (the (cast_oid (the (req_doctorId body)))) (doctors d) = Some doc
           \<and> findById hospital_id (the (cast_oid (the (req_hospitalId body)))) (hospitals d) = Some hosp
           \<and> throws st User_findById = None \<and> throws st AppointmentSlot_findOne = None
           \<and> throws st Doctor_findById = None \<and> throws st Hospital_findById = None
           \<and> slot_save_error st (book_slot uid sl) = None
           \<and> user_save_error st
                 (usr\<lparr>appointments := appointments usr
                          @ [newAppointment now new_id body
                               (startOfDay env (the (parseDate env (the (req_appointmentDate body)))))
                               doc hosp sl]\<rparr>) = None"
  using assms
  by (auto simp: addAppointment_def requested_slot_def Let_def caught_def
      split: sum.splits option.splits)

lemma addAppointment_not_201:
  assumes "code (fst (addAppointment env st now new_id d uid body)) \<noteq> 201"
  shows "users (snd (addAppointment env st now new_id d uid body)) = users d
         \<and> payload (fst (addAppointment env st now new_id d uid body)) = None
         \<and> code (fst (addAppointment env st now new_id d uid body)) \<in> {400, 404, 500}"
  using assms
  by (auto simp: addAppointment_def Let_def caught_def split: sum.splits option.splits)

lemma addAppointment_refused:
  assumes "code (fst (addAppointment env st now new_id d uid body)) \<in> {400, 404}"
  shows "snd (addAppointment env st now new_id d uid body) = d"
  using assms
  by (auto simp: addAppointment_def Let_def caught_def split: sum.splits option.splits)

lemma addAppointment_500:
  assumes "code (fst (addAppointment env st now new_id d uid body)) = 500"
  shows "snd (addAppointment env st now new_id d uid body) = d
         \<or> (\<exists>usr sl doc hosp.
               findById user_id uid (users d) = Some usr
               \<and> find (requested_slot env body) (slots d) = Some sl
               \<and> findById doctor_id (the (cast_oid (the (req_doctorId body)))) (doctors d) = Some doc
               \<and> findById hospital_id (the (cast_oid (the (req_hospitalId body)))) (hospitals d) = Some hosp
               \<and> slot_save_error st (book_slot uid sl) = None
               \<and> user_save_error st
                     (usr\<lparr>appointments := appointments usr
                              @ [newAppointment now new_id body
                                   (startOfDay env (the (parseDate env (the (req_appointmentDate body)))))
                                   doc hosp sl]\<rparr>) \<noteq> None
               \<and> snd (addAppointment env st now new_id d uid body)
                     = d\<lparr>slots := save_slot (slot_id sl) uid (slots d)\<rparr>)"
  using assms
  by (auto simp: addAppointment_def requested_slot_def Let_def caught_def
      split: sum.splits option.splits)

lemma addAppointment_slot_unavailable:
  assumes "validateAppointmentData env body = Inr dt"
    and "throws st User_findById = None"
    and "findById user_id uid (users d) = Some usr"
    and "throws st AppointmentSlot_findOne = None"
    and "find (requested_slot env body) (slots d) = None"
  shows "addAppointment env st now new_id d uid body =
           (Resp 400 ''Selected time slot is no longer available'' None, d)"
  using assms by (simp add: addAppointment_def requested_slot_def Let_def)

lemma addAppointment_ledger_fails:
  assumes "validateAppointmentData env body = Inr dt"
    and "findById user_id uid (users d) = Some usr"
    and "find (requested_slot env body) (slots d) = Some sl"
    and "findById doctor_id (the (cast_oid (the (req_doctorId body)))) (doctors d) = Some doc"
    and "findById hospital_id (the (cast_oid (the (req_hospitalId body)))) (hospitals d) = Some hosp"
    and "appt = newAppointment now new_id body
                  (startOfDay env (the (parseDate env (the (req_appointmentDate body))))) doc hosp sl"
    and "throws st User_findById = None" and "throws st AppointmentSlot_findOne = None"
    and "throws st Doctor_findById = None" and "throws st Hospital_findById = None"
    and "slot_save_error st (book_slot uid sl) = None"
    and "user_save_error st (usr\<lparr>appointments := appointments usr @ [appt]\<rparr>) = Some err"
  shows "addAppointment env st now new_id d uid body =
           (caught err, d\<lparr>slots := save_slot (slot_id sl) uid (slots d)\<rparr>)"
  using assms by (simp add: addAppointment_def requested_slot_def Let_def)

lemma validate_time:
  "validateAppointmentData env body = Inr dt \<Longrightarrow> the (req_appointmentTime body) \<noteq> []"
  by (auto simp: validateAppointmentData_def split: if_splits option.splits)

lemma addAppointment_succeeds:
  assumes v: "validateAppointmentData env body = Inr dt"
    and u: "findById user_id uid (users d) = Some usr"
    and s: "find (requested_slot env body) (slots d) = Some sl"
    and dc: "findById doctor_id (the (cast_oid (the (req_doctorId body)))) (doctors d) = Some doc"
    and h: "findById hospital_id (the (cast_oid (the (req_hospitalId body)))) (hospitals d) = Some hosp"
    and quiet: "none_throws st booking_operations"
    and slot: "slot_valid sl"
    and ledger: "list_all appointment_valid (appointments usr)"
    and names: "trim (hospital_name hosp) \<noteq> []" "trim (specialty doc) \<noteq> []" "trim (doctor_name doc) \<noteq> []"
  shows "code (fst (addAppointment env st now new_id d uid body)) = 201"
proof -
  define appt where "appt = newAppointment now new_id body
    (startOfDay env (the (parseDate env (the (req_appointmentDate body))))) doc hosp sl"
  from quiet have th: "throws st User_findById = None" "throws st AppointmentSlot_findOne = None"
      "throws st Doctor_findById = None" "throws st Hospital_findById = None"
    and ts: "throws st AppointmentSlot_save = None" and tu: "throws st User_save = None"
    by (simp_all add: none_throws_def booking_operations_def)
  from slot ts have sv: "slot_save_error st (book_slot uid sl) = None"
    by (simp add: slot_save_error_def slot_valid_def book_slot_def)
  from names validate_time [OF v] have "appointment_valid appt"
    by (simp add: appointment_valid_def appt_def newAppointment_def)
  with ledger tu have uv: "user_save_error st (usr\<lparr>appointments := appointments usr @ [appt]\<rparr>) = None"
    by (simp add: user_save_error_def)
  from addAppointment_created [OF v u s dc h appt_def th sv uv] show ?thesis
    by simp
qed

lemma addAppointment_ledger:
  assumes "findById user_id uid (users d) = Some usr"
    and "d' = d\<lparr>slots := ss, users := save_user (usr\<lparr>appointments := appointments usr @ [appt]\<rparr>) (users d)\<rparr>"
  shows "findById user_id uid (users d') = Some (usr\<lparr>appointments := appointments usr @ [appt]\<rparr>)"
    and "v \<noteq> uid \<Longrightarrow> findById user_id v (users d') = findById user_id v (users d)"
proof -
  from assms(1) have uid: "user_id usr = uid"
    by (auto simp: findById_def dest: find_Some_holds)
  with assms show "findById user_id uid (users d') = Some (usr\<lparr>appointments := appointments usr @ [appt]\<rparr>)"
    by (simp add: save_user_def findById_update_first_same)
  assume "v \<noteq> uid"
  with assms uid show "findById user_id v (users d') = findById user_id v (users d)"
    by (simp add: save_user_def findById_update_first_other)
qed

lemma save_slot_claims:
  assumes "find P ss = Some sl" and "distinct (map slot_id ss)"
  shows "findById slot_id (slot_id sl) (save_slot (slot_id sl) claimant ss) = Some (book_slot claimant sl)"
  unfolding save_slot_def
  by (rule findById_update_first_same) (simp_all add: find_Some_key [OF assms] slot_id_book_slot)

lemma save_slot_others:
  "t \<noteq> sid \<Longrightarrow> findById slot_id t (save_slot sid claimant ss) = findById slot_id t ss"
  unfolding save_slot_def
  by (rule findById_update_first_other) (simp_all add: slot_id_book_slot)

section \<open>Lemmas about cancellation\<close>

lemma cancelAppointment_not_found:
  assumes "cast_oid aid' = Some aid" and "throws st User_findById = None"
    and "findById user_id uid (users d) = Some usr"
    and "findById appt_id aid (appointments usr) = None"
  shows "cancelAppointment st d uid aid' = (Resp 404 ''Appointment not found'' None, d)"
  using assms by (simp add: cancelAppointment_def)

lemma cancelAppointment_already:
  assumes "cast_oid aid' = Some aid" and "throws st User_findById = None"
    and "findById user_id uid (users d) = Some usr"
    and "findById appt_id aid (appointments usr) = Some appt" and "status appt = Cancelled"
  shows "cancelAppointment st d uid aid' = (Resp 400 ''Appointment is already cancelled'' None, d)"
  using assms by (simp add: cancelAppointment_def)

lemma cancelAppointment_lookup_fails:
  assumes "cast_oid aid' = Some aid" and "throws st User_findById \<noteq> None"
  shows "cancelAppointment st d uid aid' = (Resp 500 ''Internal server error'' None, d)"
  using assms by (auto simp: cancelAppointment_def)

lemma cancelAppointment_release_fails:
  assumes "cast_oid aid' = Some aid" and "throws st User_findById = None"
    and "findById user_id uid (users d) = Some usr"
    and "findById appt_id aid (appointments usr) = Some appt" and "status appt \<noteq> Cancelled"
    and "slotId appt = Some sid" and "throws st AppointmentSlot_findByIdAndUpdate = Some err"
  shows "cancelAppointment st d uid aid' = (Resp 500 ''Internal server error'' None, d)"
  using assms by (simp add: cancelAppointment_def)

lemma cancelAppointment_save_fails:
  assumes "cast_oid aid' = Some aid" and "throws st User_findById = None"
    and "findById user_id uid (users d) = Some usr"
    and "findById appt_id aid (appointments usr) = Some appt" and "status appt \<noteq> Cancelled"
    and "slotId appt = None \<or> throws st AppointmentSlot_findByIdAndUpdate = None"
    and "user_save_error st
           (usr\<lparr>appointments :=
                  update_first (\<lambda>a. appt_id a = aid) (\<lambda>a. a\<lparr>status := Cancelled\<rparr>)
                    (appointments usr)\<rparr>) = Some err"
  shows "cancelAppointment st d uid aid' =
           (Resp 500 ''Internal server error'' None,
            d\<lparr>slots := (case slotId appt of None \<Rightarrow> slots d | Some sid \<Rightarrow> release_slot sid (slots d))\<rparr>)"
  using assms by (auto simp: cancelAppointment_def Let_def split: option.splits)

lemma cancelAppointment_done:
  assumes "cast_oid aid' = Some aid" and "throws st User_findById = None"
    and "findById user_id uid (users d) = Some usr"
    and "findById appt_id aid (appointments usr) = Some appt" and "status appt \<noteq> Cancelled"
    and "slotId appt = None \<or> throws st AppointmentSlot_findByIdAndUpdate = None"
    and "user_save_error st
           (usr\<lparr>appointments :=
                  update_first (\<lambda>a. appt_id a = aid) (\<lambda>a. a\<lparr>status := Cancelled\<rparr>)
                    (appointments usr)\<rparr>) = None"
  shows "cancelAppointment st d uid aid' =
           (Resp 200 ''Appointment cancelled successfully'' None,
            d\<lparr>slots := (case slotId appt of None \<Rightarrow> slots d | Some sid \<Rightarrow> release_slot sid (slots d)),
              users := save_user
                         (usr\<lparr>appointments :=
                                update_first (\<lambda>a. appt_id a = aid) (\<lambda>a. a\<lparr>status := Cancelled\<rparr>)
                                  (appointments usr)\<rparr>)
                         (users d)\<rparr>)"
  using assms by (auto simp: cancelAppointment_def Let_def split: option.splits)

lemma release_slot_found:
  "findById slot_id sid ss = Some sl \<Longrightarrow>
   findById slot_id sid (release_slot sid ss) = Some (free_slot sl)"
  unfolding release_slot_def
  by (rule findById_update_first_same) (auto simp: slot_id_free_slot findById_def dest: find_Some_holds)

lemma release_slot_absent: "findById slot_id sid ss = None \<Longrightarrow> release_slot sid ss = ss"
  unfolding release_slot_def by (rule findById_None_update_first)

lemma release_slot_others:
  "t \<noteq> sid \<Longrightarrow> findById slot_id t (release_slot sid ss) = findById slot_id t ss"
  unfolding release_slot_def
  by (rule findById_update_first_other) (simp_all add: slot_id_free_slot)

lemma released_slots:
  assumes "ss' = (case slotId appt of None \<Rightarrow> ss | Some sid \<Rightarrow> release_slot sid ss)"
  shows "case slotId appt of
          None \<Rightarrow> ss' = ss
        | Some sid \<Rightarrow>
            (\<forall>sl. findById slot_id sid ss = Some sl \<longrightarrow>
                  findById slot_id sid ss'
                    = Some (sl\<lparr>isBooked := False, isAvailable := True, bookedBy := None\<rparr>))
            \<and> (findById slot_id sid ss = None \<longrightarrow> ss' = ss)
            \<and> (\<forall>t. t \<noteq> sid \<longrightarrow> findById slot_id t ss' = findById slot_id t ss)"
proof (cases "slotId appt")
  case None
  with assms show ?thesis by simp
next
  case (Some sid)
  have "findById slot_id sid (release_slot sid ss)
          = Some (sl\<lparr>isBooked := False, isAvailable := True, bookedBy := None\<rparr>)"
    if "findById slot_id sid ss = Some sl" for sl
    using release_slot_found [OF that] by (simp add: free_slot_def)
  with Some assms show ?thesis
    by (simp add: release_slot_absent release_slot_others)
qed

lemma appointment_valid_status: "appointment_valid (a\<lparr>status := s\<rparr>) = appointment_valid a"
  by (simp add: appointment_valid_def)

lemma list_all_valid_update_first:
  "list_all appointment_valid (update_first P (\<lambda>a. a\<lparr>status := s\<rparr>) as) = list_all appointment_valid as"
  by (induction as) (simp_all add: appointment_valid_status)

lemma cancelAppointment_effect:
  assumes c: "cast_oid aid' = Some aid" and t: "throws st User_findById = None"
    and u: "findById user_id uid (users d) = Some usr"
    and a: "findById appt_id aid (appointments usr) = Some appt" and n: "status appt \<noteq> Cancelled"
    and rel: "slotId appt = None \<or> throws st AppointmentSlot_findByIdAndUpdate = None"
    and sv: "user_save_error st
               (usr\<lparr>appointments :=
                      update_first (\<lambda>a. appt_id a = aid) (\<lambda>a. a\<lparr>status := Cancelled\<rparr>)
                        (appointments usr)\<rparr>) = None"
    and r: "cancelAppointment st d uid aid' = (resp, d')"
  shows "code resp = 200
     \<and> (\<exists>usr'. findById user_id uid (users d') = Some usr'
           \<and> findById appt_id aid (appointments usr') = Some (appt\<lparr>status := Cancelled\<rparr>)
           \<and> (\<forall>b. b \<noteq> aid \<longrightarrow> findById appt_id b (appointments usr') = findById appt_id b (appointments usr)))
     \<and> (\<forall>v. v \<noteq> uid \<longrightarrow> findById user_id v (users d') = findById user_id v (users d))
     \<and> slots d' = (case slotId appt of None \<Rightarrow> slots d | Some sid \<Rightarrow> release_slot sid (slots d))"
proof -
  let ?usr' = "usr\<lparr>appointments :=
                   update_first (\<lambda>a. appt_id a = aid) (\<lambda>a. a\<lparr>status := Cancelled\<rparr>) (appointments usr)\<rparr>"
  from cancelAppointment_done [OF c t u a n rel sv] r
  have resp: "resp = Resp 200 ''Appointment cancelled successfully'' None"
    and d': "d' = d\<lparr>slots := (case slotId appt of None \<Rightarrow> slots d | Some sid \<Rightarrow> release_slot sid (slots d)),
                    users := save_user ?usr' (users d)\<rparr>"
    by simp_all
  from u have uid: "user_id usr = uid"
    by (auto simp: findById_def dest: find_Some_holds)
  have 1: "findById user_id uid (users d') = Some ?usr'"
    using u uid by (simp add: d' save_user_def findById_update_first_same)
  from a have aid: "appt_id appt = aid"
    by (auto simp: findById_def dest: find_Some_holds)
  have "findById appt_id aid
          (update_first (\<lambda>a. appt_id a = aid) (\<lambda>a. a\<lparr>status := Cancelled\<rparr>) (appointments usr))
        = Some (appt\<lparr>status := Cancelled\<rparr>)"
    by (rule findById_update_first_same [OF a]) (simp add: aid)
  then have 2: "findById appt_id aid (appointments ?usr') = Some (appt\<lparr>status := Cancelled\<rparr>)"
    by simp
  have "findById appt_id b
          (update_first (\<lambda>a. appt_id a = aid) (\<lambda>a. a\<lparr>status := Cancelled\<rparr>) (appointments usr))
        = findById appt_id b (appointments usr)" if "b \<noteq> aid" for b
    by (rule findById_update_first_other [OF that]) simp
  then have 3: "findById appt_id b (appointments ?usr') = findById appt_id b (appointments usr)"
    if "b \<noteq> aid" for b
    using that by simp
  have 4: "findById user_id v (users d') = findById user_id v (users d)" if "v \<noteq> uid" for v
    using that uid by (simp add: d' save_user_def findById_update_first_other)
  have 5: "slots d' = (case slotId appt of None \<Rightarrow> slots d | Some sid \<Rightarrow> release_slot sid (slots d))"
    by (simp add: d')
  from resp 1 2 3 4 5 show ?thesis
    by simp
qed

lemma user_save_error_cancelled:
  "user_save_error st
     (usr\<lparr>appointments := update_first P (\<lambda>a. a\<lparr>status := Cancelled\<rparr>) (appointments usr)\<rparr>) = None
   \<longleftrightarrow> list_all appointment_valid (appointments usr) \<and> throws st User_save = None"
  by (simp add: user_save_error_def list_all_valid_update_first)

lemma cancelAppointment_partial:
  assumes c: "cast_oid aid' = Some aid" and t: "throws st User_findById = None"
    and u: "findById user_id uid (users d) = Some usr"
    and a: "findById appt_id aid (appointments usr) = Some appt" and n: "status appt \<noteq> Cancelled"
    and rel: "slotId appt = None \<or> throws st AppointmentSlot_findByIdAndUpdate = None"
    and bad: "\<not> list_all appointment_valid (appointments usr) \<or> throws st User_save \<noteq> None"
    and r: "cancelAppointment st d uid aid' = (resp, d')"
  shows "resp = Resp 500 ''Internal server error'' None \<and> users d' = users d
     \<and> slots d' = (case slotId appt of None \<Rightarrow> slots d | Some sid \<Rightarrow> release_slot sid (slots d))"
proof -
  let ?usr' = "usr\<lparr>appointments :=
                   update_first (\<lambda>a. appt_id a = aid) (\<lambda>a. a\<lparr>status := Cancelled\<rparr>) (appointments usr)\<rparr>"
  from bad have "user_save_error st ?usr' \<noteq> None"
    by (simp only: user_save_error_cancelled) blast
  then obtain err where "user_save_error st ?usr' = Some err"
    by auto
  from cancelAppointment_save_fails [OF c t u a n rel this] r show ?thesis
    by simp
qed

lemma book_then_cancel:
  assumes b: "addAppointment env st now new_id d uid body = (resp1, d1)" and ok: "code resp1 = 201"
    and u: "findById user_id uid (users d) = Some usr"
    and fresh: "new_id \<notin> appt_id ` set (appointments usr)"
    and ids: "distinct (map slot_id (slots d))"
    and c: "cast_oid aid' = Some new_id"
    and quiet: "none_throws st' cancelling_operations"
    and r: "cancelAppointment st' d1 uid aid' = (resp2, d2)"
  shows "code resp2 = 200
     \<and> (\<exists>sl sl'. find (requested_slot env body) (slots d) = Some sl
           \<and> findById slot_id (slot_id sl) (slots d2) = Some sl'
           \<and> slot_free sl' \<and> requested_slot env body sl')"
proof -
  from b ok have ok': "code (fst (addAppointment env st now new_id d uid body)) = 201"
    by simp
  from addAppointment_201 [OF ok'] u obtain dt sl doc hosp where
    v: "validateAppointmentData env body = Inr dt"
    and s: "find (requested_slot env body) (slots d) = Some sl"
    and dc: "findById doctor_id (the (cast_oid (the (req_doctorId body)))) (doctors d) = Some doc"
    and h: "findById hospital_id (the (cast_oid (the (req_hospitalId body)))) (hospitals d) = Some hosp"
    and th: "throws st User_findById = None" "throws st AppointmentSlot_findOne = None"
      "throws st Doctor_findById = None" "throws st Hospital_findById = None"
    and sv: "slot_save_error st (book_slot uid sl) = None"
    and uv: "user_save_error st
                 (usr\<lparr>appointments := appointments usr
                          @ [newAppointment now new_id body
                               (startOfDay env (the (parseDate env (the (req_appointmentDate body)))))
                               doc hosp sl]\<rparr>) = None"
    by auto
  define appt where "appt = newAppointment now new_id body
    (startOfDay env (the (parseDate env (the (req_appointmentDate body))))) doc hosp sl"
  let ?usr1 = "usr\<lparr>appointments := appointments usr @ [appt]\<rparr>"
  from uv have uv': "user_save_error st ?usr1 = None"
    by (simp add: appt_def)
  from addAppointment_created [OF v u s dc h appt_def th sv uv'] b
  have d1: "d1 = d\<lparr>slots := save_slot (slot_id sl) uid (slots d),
                    users := save_user ?usr1 (users d)\<rparr>"
    by simp
  have u1: "findById user_id uid (users d1) = Some ?usr1"
    by (rule addAppointment_ledger(1) [OF u d1])
  have a1: "findById appt_id new_id (appointments ?usr1) = Some appt"
    using fresh by (simp add: findById_append_fresh appt_def newAppointment_def)
  have st: "status appt \<noteq> Cancelled" and sid: "slotId appt = Some (slot_id sl)"
    by (simp_all add: appt_def newAppointment_def)
  have booked: "findById slot_id (slot_id sl) (slots d1) = Some (book_slot uid sl)"
    using save_slot_claims [OF s ids] by (simp add: d1)
  from quiet have q: "throws st' User_findById = None"
    "slotId appt = None \<or> throws st' AppointmentSlot_findByIdAndUpdate = None"
    "throws st' User_save = None"
    by (simp_all add: none_throws_def cancelling_operations_def)
  from uv' have "list_all appointment_valid (appointments ?usr1)"
    by (simp add: user_save_error_def split: if_splits)
  with q(3) have sv2: "user_save_error st'
               (?usr1\<lparr>appointments :=
                      update_first (\<lambda>a. appt_id a = new_id) (\<lambda>a. a\<lparr>status := Cancelled\<rparr>)
                        (appointments ?usr1)\<rparr>) = None"
    by (simp add: user_save_error_def list_all_valid_update_first)
  from cancelAppointment_effect [OF c q(1) u1 a1 st q(2) sv2 r] sid
  have code: "code resp2 = 200" and rel: "slots d2 = release_slot (slot_id sl) (slots d1)"
    by simp_all
  from release_slot_found [OF booked] rel
  have freed: "findById slot_id (slot_id sl) (slots d2) = Some (free_slot (book_slot uid sl))"
    by simp
  let ?sl' = "free_slot (book_slot uid sl)"
  have free: "slot_free ?sl'"
    by (simp add: slot_free_def free_slot_def)
  from find_Some_holds [OF s] have again: "requested_slot env body ?sl'"
    by (simp add: requested_slot_def slot_query_def book_slot_def free_slot_def)
  from code s freed free again show ?thesis
    by blast
qed

section \<open>Lemmas about the update of an appointment\<close>

lemma list_all2_replace_found:
  "findById key i xs = Some x \<Longrightarrow> R x y \<Longrightarrow> (\<And>z. R z z) \<Longrightarrow>
   list_all2 R xs (update_first (\<lambda>v. key v = i) (\<lambda>_. y) xs)"
  by (induction xs) (auto simp: findById_def list_all2_refl split: if_splits)

lemma findById_key: "findById key i xs = Some x \<Longrightarrow> key x = i"
  by (auto simp: findById_def dest: find_Some_holds)

lemma ledgers_related_refl: "(\<And>a. R a a) \<Longrightarrow> ledgers_related uid R d d"
  by (simp add: ledgers_related_def list_all2_refl)

lemma ledgers_related_save_user:
  assumes u: "findById user_id uid (users d) = Some usr"
    and R: "list_all2 R (appointments usr) as'" and refl: "\<And>a. R a a"
    and us: "users d' = save_user (usr\<lparr>appointments := as'\<rparr>) (users d)"
  shows "ledgers_related uid R d d'"
proof -
  let ?U = "\<lambda>u u'. user_id u' = user_id u \<and> (user_id u \<noteq> uid \<longrightarrow> u' = u)
                     \<and> list_all2 R (appointments u) (appointments u')"
  from u have uid: "user_id usr = uid"
    by (rule findById_key)
  have "list_all2 ?U (users d) (update_first (\<lambda>v. user_id v = uid) (\<lambda>_. usr\<lparr>appointments := as'\<rparr>) (users d))"
    by (rule list_all2_replace_found [OF u]) (simp_all add: R uid refl list_all2_refl)
  with uid us show ?thesis
    by (simp add: ledgers_related_def save_user_def)
qed

lemma same_but_status_notes_refl: "same_but_status_notes a a"
  by (simp add: same_but_status_notes_def)

lemma updateAppointment_nothing_allowed:
  assumes "updateData ''status'' = None" and "updateData ''notes'' = None"
    and "cast_oid aid' = Some aid"
  shows "updateAppointment d uid aid' updateData = (Resp 400 ''No valid fields to update'' None, d)"
  using assms by (simp add: updateAppointment_def pick_updates_def allowedUpdates_def)

lemma updateAppointment_200:
  assumes "updateAppointment d uid aid' updateData = (resp, d')" and "code resp = 200"
  shows "\<exists>aid usr appt appt'.
          cast_oid aid' = Some aid \<and> payload resp = Some appt'
          \<and> findById user_id uid (users d) = Some usr
          \<and> findById appt_id aid (appointments usr) = Some appt
          \<and> same_but_status_notes appt appt'
          \<and> (case updateData ''status'' of None \<Rightarrow> status appt' = status appt
              | Some s \<Rightarrow> parse_status s = Some (status appt'))
          \<and> (case updateData ''notes'' of None \<Rightarrow> appt_notes appt' = appt_notes appt
              | Some n \<Rightarrow> appt_notes appt' = Some n)
          \<and> d' = d\<lparr>users := save_user
                      (usr\<lparr>appointments :=
                             update_first (\<lambda>a. appt_id a = aid) (\<lambda>_. appt') (appointments usr)\<rparr>)
                      (users d)\<rparr>"
  using assms
  by (auto simp: updateAppointment_def pick_updates_def allowedUpdates_def Let_def assign_notes_def
      same_but_status_notes_def split: option.splits if_splits)

lemma updateAppointment_not_200:
  assumes "updateAppointment d uid aid' updateData = (resp, d')" and "code resp \<noteq> 200"
  shows "d' = d"
  using assms
  by (auto simp: updateAppointment_def Let_def split: option.splits if_splits)

lemma updateAppointment_none:
  assumes r: "updateAppointment d uid aid' updateData = (resp, d')"
    and none: "updateData ''status'' = None \<and> updateData ''notes'' = None"
  shows "code resp = 400 \<and> d' = d \<and> (isValid aid' \<longrightarrow> message resp = ''No valid fields to update'')"
proof (cases "cast_oid aid'")
  case None
  with r show ?thesis
    by (auto simp: updateAppointment_def isValid_def)
next
  case (Some aid)
  from none have "updateData ''status'' = None" and "updateData ''notes'' = None"
    by simp_all
  from updateAppointment_nothing_allowed [OF this Some, of d uid] r show ?thesis
    by simp
qed

lemma pick_updates_cong:
  "other ''status'' = updateData ''status'' \<Longrightarrow> other ''notes'' = updateData ''notes'' \<Longrightarrow>
   pick_updates other = pick_updates updateData"
  by (auto simp: pick_updates_def allowedUpdates_def)

lemma updateAppointment_pick:
  "updateAppointment d uid aid' updateData = updateAppointment d uid aid' (pick_updates updateData)"
proof -
  have idem: "pick_updates (pick_updates updateData) = pick_updates updateData"
    by (auto simp: pick_updates_def)
  show ?thesis
    unfolding updateAppointment_def Let_def idem by (rule refl)
qed

lemma updateAppointment_ledgers:
  assumes r: "updateAppointment d uid aid' updateData = (resp, d')"
  shows "ledgers_related uid
           (\<lambda>a a'. same_but_status_notes a a' \<and> (cast_oid aid' \<noteq> Some (appt_id a) \<longrightarrow> a' = a)) d d'"
proof -
  let ?R = "\<lambda>a a'. same_but_status_notes a a' \<and> (cast_oid aid' \<noteq> Some (appt_id a) \<longrightarrow> a' = a)"
  have refl: "?R a a" for a
    by (simp add: same_but_status_notes_refl)
  show ?thesis
  proof (cases "code resp = 200")
    case False
    from updateAppointment_not_200 [OF r False] refl show ?thesis
      by (simp add: ledgers_related_refl)
  next
    case True
    from updateAppointment_200 [OF r True] obtain aid usr appt appt' where
      c: "cast_oid aid' = Some aid" and u: "findById user_id uid (users d) = Some usr"
      and a: "findById appt_id aid (appointments usr) = Some appt"
      and s: "same_but_status_notes appt appt'"
      and d': "d' = d\<lparr>users := save_user
                      (usr\<lparr>appointments :=
                             update_first (\<lambda>a. appt_id a = aid) (\<lambda>_. appt') (appointments usr)\<rparr>)
                      (users d)\<rparr>"
      by blast
    from a have "appt_id appt = aid"
      by (rule findById_key)
    with c s have "?R appt appt'"
      by simp
    with a have "list_all2 ?R (appointments usr)
                   (update_first (\<lambda>a. appt_id a = aid) (\<lambda>_. appt') (appointments usr))"
      using refl by (intro list_all2_replace_found) simp_all
    then show ?thesis
      using refl d' by (intro ledgers_related_save_user [OF u]) simp_all
  qed
qed

section \<open>Lemmas about prescription generation and the sweep\<close>

lemma find_appointmentId:
  "find (\<lambda>p. appointmentId p = i) ps = None \<longleftrightarrow> i \<notin> set (map appointmentId ps)"
  by (auto simp: find_None_iff)

lemma generatePrescription_result:
  assumes "generatePrescription now nid rnd d appt uid = (res, d')"
  shows "users d' = users d \<and> slots d' = slots d \<and> medicines d' = medicines d
     \<and> doctors d' = doctors d \<and> hospitals d' = hospitals d
     \<and> (case res of
          Inl e \<Rightarrow> d' = d \<and> filter isActive (medicines d) = []
                   \<and> find (\<lambda>p. appointmentId p = appt_id appt) (prescriptions d) = None
        | Inr p \<Rightarrow> appointmentId p = appt_id appt \<and> p \<in> set (prescriptions d')
                   \<and> (find (\<lambda>p. appointmentId p = appt_id appt) (prescriptions d) = Some p \<and> d' = d
                       \<or> find (\<lambda>p. appointmentId p = appt_id appt) (prescriptions d) = None
                         \<and> prescriptions d' = prescriptions d @ [p]
                         \<and> presc_id p = nid \<and> userId p = uid
                         \<and> followUpDate p = now + 604800000 \<and> prescribedAt p = now
                         \<and> filter isActive (medicines d) \<noteq> []))"
proof (cases "find (\<lambda>p. appointmentId p = appt_id appt) (prescriptions d)")
  case (Some p)
  with assms have "res = Inr p" "d' = d"
    by (simp_all add: generatePrescription_def)
  with Some show ?thesis
    by (auto simp: find_Some_iff)
next
  case None
  then have fresh: "appt_id appt \<notin> set (map appointmentId (prescriptions d))"
    by (simp add: find_appointmentId)
  show ?thesis
  proof (cases "filter isActive (medicines d) = []")
    case True
    with None assms show ?thesis
      by (auto simp: generatePrescription_def Let_def)
  next
    case False
    with None fresh assms show ?thesis
      by (auto simp: generatePrescription_def Let_def insert_prescription_def)
  qed
qed

lemma find_append_fresh: "find P ps = None \<Longrightarrow> P p \<Longrightarrow> find P (ps @ [p]) = Some p"
  by (induction ps) (auto split: if_splits)

lemma generatePrescription_existing:
  "find (\<lambda>q. appointmentId q = appt_id appt) (prescriptions d) = Some p \<Longrightarrow>
   generatePrescription now nid rnd d appt uid = (Inr p, d)"
  by (simp add: generatePrescription_def)

lemma generatePrescription_stored:
  assumes "generatePrescription now nid rnd d appt uid = (Inr p, d1)"
  shows "find (\<lambda>q. appointmentId q = appt_id appt) (prescriptions d1) = Some p"
proof -
  from generatePrescription_result [OF assms]
  have "appointmentId p = appt_id appt"
    and "find (\<lambda>q. appointmentId q = appt_id appt) (prescriptions d) = Some p \<and> d1 = d
         \<or> find (\<lambda>q. appointmentId q = appt_id appt) (prescriptions d) = None
           \<and> prescriptions d1 = prescriptions d @ [p]"
    by auto
  then show ?thesis
    by (auto simp: find_append_fresh)
qed

lemma generatePrescription_error:
  assumes "generatePrescription now nid rnd d appt uid = (Inl e, d')"
  shows "e = Error ''No medicines available in database''"
proof (cases "find (\<lambda>p. appointmentId p = appt_id appt) (prescriptions d)")
  case (Some p)
  with assms show ?thesis
    by (simp add: generatePrescription_def)
next
  case None
  then have fresh: "appt_id appt \<notin> set (map appointmentId (prescriptions d))"
    by (simp add: find_appointmentId)
  show ?thesis
  proof (cases "filter isActive (medicines d) = []")
    case True
    with None assms show ?thesis
      by (auto simp: generatePrescription_def Let_def)
  next
    case False
    with None fresh assms show ?thesis
      by (auto simp: generatePrescription_def Let_def insert_prescription_def)
  qed
qed

lemma swept_mono:
  assumes "swept d1 a a'" and "set (prescriptions d1) \<subseteq> set (prescriptions d2)"
  shows "swept d2 a a'"
proof (cases "status a = Confirmed")
  case False
  with assms show ?thesis
    by (simp add: swept_def)
next
  case True
  from assms(1) have 1: "a' = a\<lparr>status := Completed, prescriptionId := prescriptionId a'\<rparr>"
    and 2: "prescriptionId a' = prescriptionId a
            \<or> list_ex (\<lambda>p. appointmentId p = appt_id a \<and> prescriptionId a' = Some (presc_id p))
                 (prescriptions d1)"
    unfolding swept_def if_P [OF True] by blast+
  from 2 assms(2) have 3: "prescriptionId a' = prescriptionId a
            \<or> list_ex (\<lambda>p. appointmentId p = appt_id a \<and> prescriptionId a' = Some (presc_id p))
                 (prescriptions d2)"
    unfolding list_ex_iff by blast
  show ?thesis
    unfolding swept_def if_P [OF True] by (rule conjI [OF 1 3])
qed

lemma list_all2_swept_mono:
  "list_all2 (swept d1) as as' \<Longrightarrow> set (prescriptions d1) \<subseteq> set (prescriptions d2) \<Longrightarrow>
   list_all2 (swept d2) as as'"
  by (erule list_all2_mono) (rule swept_mono)

lemma expire_ledger_result:
  "expire_ledger E uid as d = (as', d', n, out) \<Longrightarrow>
     list_all2 (swept d') as as' \<and> n = confirmed_count as
     \<and> users d' = users d \<and> slots d' = slots d \<and> medicines d' = medicines d
     \<and> doctors d' = doctors d \<and> hospitals d' = hospitals d
     \<and> (\<exists>ps. prescriptions d' = prescriptions d @ ps)
     \<and> (filter isActive (medicines d) = [] \<longrightarrow> d' = d)"
proof (induction as arbitrary: d as' d' n out)
  case Nil
  then show ?case
    by (simp add: confirmed_count_def)
next
  case (Cons a as)
  show ?case
  proof (cases "status a = Confirmed")
    case False
    obtain as1 d1 n1 out1 where rest: "expire_ledger E uid as d = (as1, d1, n1, out1)"
      by (cases "expire_ledger E uid as d") auto
    with Cons.prems False have eq: "as' = a # as1" "d' = d1" "n = n1"
      by simp_all
    from Cons.IH [OF rest] False show ?thesis
      by (simp add: eq swept_def confirmed_count_def)
  next
    case True
    let ?a1 = "a\<lparr>status := Completed\<rparr>"
    obtain res d1 where gen: "generatePrescription (clock E (appt_id a)) (fresh_id E (appt_id a))
                           (rand E (appt_id a)) d ?a1 uid = (res, d1)"
      by (cases "generatePrescription (clock E (appt_id a)) (fresh_id E (appt_id a))
                           (rand E (appt_id a)) d ?a1 uid") auto
    obtain as1 d2 n1 out1 where rest: "expire_ledger E uid as d1 = (as1, d2, n1, out1)"
      by (cases "expire_ledger E uid as d1") auto
    let ?a2 = "case res of Inr p \<Rightarrow> ?a1\<lparr>prescriptionId := Some (presc_id p)\<rparr> | Inl err \<Rightarrow> ?a1"
    from Cons.prems True gen rest have eq: "as' = ?a2 # as1" "d' = d2" "n = Suc n1"
      by (simp_all add: Let_def)
    note g = generatePrescription_result [OF gen]
    note ih = Cons.IH [OF rest]
    from ih obtain ps2 where ps2: "prescriptions d2 = prescriptions d1 @ ps2"
      by blast
    have grow: "\<exists>ps. prescriptions d1 = prescriptions d @ ps"
      using g by (cases res) auto
    have head: "swept d2 a ?a2"
    proof (cases res)
      case (Inl e)
      with True show ?thesis
        by (simp add: swept_def)
    next
      case (Inr p)
      with g have "appointmentId p = appt_id a" and "p \<in> set (prescriptions d1)"
        by simp_all
      with ps2 True Inr show ?thesis
        by (auto simp: swept_def list_ex_iff)
    qed
    have empty: "d2 = d" if "filter isActive (medicines d) = []"
    proof -
      from that g have "d1 = d"
        by (cases res) auto
      with ih that show ?thesis
        by simp
    qed
    from ih g head grow ps2 True empty show ?thesis
      by (auto simp: eq confirmed_count_def)
  qed
qed

lemma find_prefix: "find P xs = Some x \<Longrightarrow> find P (xs @ ys) = Some x"
  by (induction xs) (auto split: if_splits)

lemma generation_fails_same:
  "medicines d1 = medicines d \<Longrightarrow>
   (filter isActive (medicines d) = [] \<longrightarrow> prescriptions d1 = prescriptions d) \<Longrightarrow>
   generation_fails d1 a = generation_fails d a"
  by (auto simp: generation_fails_def)

lemma completed_by_sweep_start:
  assumes "completed_by_sweep d1 d' a a'" and "medicines d1 = medicines d"
    and "filter isActive (medicines d) = [] \<longrightarrow> prescriptions d1 = prescriptions d"
  shows "completed_by_sweep d d' a a'"
proof -
  have "generation_fails d1 a = generation_fails d a"
    by (rule generation_fails_same [OF assms(2,3)])
  with assms(1) show ?thesis
    unfolding completed_by_sweep_def by (simp only:)
qed

lemma completed_by_sweep_grows:
  assumes "completed_by_sweep d d1 a a'" and "prescriptions d2 = prescriptions d1 @ ps"
  shows "completed_by_sweep d d2 a a'"
proof (cases "status a = Confirmed")
  case False
  with assms(1) show ?thesis
    by (simp add: completed_by_sweep_def)
next
  case True
  from assms(1) have 1: "a' = a\<lparr>status := Completed, prescriptionId := prescriptionId a'\<rparr>"
    and 2: "if generation_fails d a then prescriptionId a' = prescriptionId a
            else (case find (\<lambda>p. appointmentId p = appt_id a) (prescriptions d1) of
                    None \<Rightarrow> False
                  | Some p \<Rightarrow> prescriptionId a' = Some (presc_id p))"
    unfolding completed_by_sweep_def if_P [OF True] by blast+
  have 3: "if generation_fails d a then prescriptionId a' = prescriptionId a
            else (case find (\<lambda>p. appointmentId p = appt_id a) (prescriptions d2) of
                    None \<Rightarrow> False
                  | Some p \<Rightarrow> prescriptionId a' = Some (presc_id p))"
  proof (cases "generation_fails d a")
    case True
    with 2 show ?thesis by simp
  next
    case False
    with 2 obtain p where "find (\<lambda>p. appointmentId p = appt_id a) (prescriptions d1) = Some p"
      and "prescriptionId a' = Some (presc_id p)"
      by (auto split: option.splits)
    with assms(2) False show ?thesis
      by (simp add: find_prefix)
  qed
  show ?thesis
    unfolding completed_by_sweep_def if_P [OF True] by (rule conjI [OF 1 3])
qed

lemma completed_by_sweep_other: "status a \<noteq> Confirmed \<Longrightarrow> completed_by_sweep d d' a a"
  by (simp add: completed_by_sweep_def)

lemma list_all2_completed_unconfirmed:
  "confirmed_count as = 0 \<Longrightarrow> list_all2 (completed_by_sweep d d') as as"
  by (induction as) (auto simp: confirmed_count_def completed_by_sweep_other split: if_splits)

lemma failures_logged_mono:
  assumes "failures_logged d1 as out1" and "medicines d1 = medicines d"
    and "filter isActive (medicines d) = [] \<longrightarrow> prescriptions d1 = prescriptions d"
    and "set out1 \<subseteq> set out"
  shows "failures_logged d as out"
proof -
  have "generation_fails d1 a = generation_fails d a" for a
    by (rule generation_fails_same [OF assms(2,3)])
  with assms(1,4) show ?thesis
    by (auto simp: failures_logged_def list_all_iff)
qed

lemma failures_logged_unconfirmed: "confirmed_count as = 0 \<Longrightarrow> failures_logged d as out"
  by (auto simp: failures_logged_def list_all_iff confirmed_count_def filter_empty_conv)

lemma expire_ledger_completed:
  "expire_ledger E uid as d = (as', d', n, out) \<Longrightarrow>
     list_all2 (completed_by_sweep d d') as as' \<and> failures_logged d as out"
proof (induction as arbitrary: d as' d' n out)
  case Nil
  then show ?case
    by (simp add: failures_logged_def)
next
  case (Cons a as)
  show ?case
  proof (cases "status a = Confirmed")
    case False
    obtain as1 d1 n1 out1 where rest: "expire_ledger E uid as d = (as1, d1, n1, out1)"
      by (cases "expire_ledger E uid as d") auto
    with Cons.prems False have eq: "as' = a # as1" "d' = d1" "out = out1"
      by simp_all
    from Cons.IH [OF rest] False show ?thesis
      by (simp add: eq completed_by_sweep_other failures_logged_def)
  next
    case True
    let ?a1 = "a\<lparr>status := Completed\<rparr>"
    obtain res d1 where gen: "generatePrescription (clock E (appt_id a)) (fresh_id E (appt_id a))
                           (rand E (appt_id a)) d ?a1 uid = (res, d1)"
      by (cases "generatePrescription (clock E (appt_id a)) (fresh_id E (appt_id a))
                           (rand E (appt_id a)) d ?a1 uid") auto
    obtain as1 d2 n1 out1 where rest: "expire_ledger E uid as d1 = (as1, d2, n1, out1)"
      by (cases "expire_ledger E uid as d1") auto
    let ?a2 = "case res of Inr p \<Rightarrow> ?a1\<lparr>prescriptionId := Some (presc_id p)\<rparr> | Inl err \<Rightarrow> ?a1"
    let ?written = "[Expiring (appt_id a) uid, ScheduledFor (appointmentDate a) (appointmentTime a)]
                       @ (case res of
                            Inr p \<Rightarrow> [Generated (presc_id p) (appt_id a)]
                          | Inl err \<Rightarrow> [ErrorGenerating err, FailedToGenerate (appt_id a) err])"
    from Cons.prems True gen rest have eq: "as' = ?a2 # as1" "d' = d2" "out = ?written @ out1"
      by (simp_all add: Let_def)
    note g = generatePrescription_result [OF gen]
    from g have med: "medicines d1 = medicines d"
      by simp
    have same: "filter isActive (medicines d) = [] \<longrightarrow> prescriptions d1 = prescriptions d"
      using g by (cases res) auto
    from expire_ledger_result [OF rest] obtain ps2 where ps2: "prescriptions d2 = prescriptions d1 @ ps2"
      by blast
    note ih = Cons.IH [OF rest]
    from ih have "list_all2 (completed_by_sweep d1 d2) as as1"
      by simp
    then have tail: "list_all2 (completed_by_sweep d d2) as as1"
      by (rule list_all2_mono) (rule completed_by_sweep_start [OF _ med same])
    from ih have "failures_logged d1 as out1"
      by simp
    then have logs: "failures_logged d as out"
      by (rule failures_logged_mono [OF _ med same]) (auto simp: eq)
    have head: "completed_by_sweep d d2 a ?a2
                \<and> (generation_fails d a \<longrightarrow>
                      FailedToGenerate (appt_id a) (Error ''No medicines available in database'') \<in> set out)"
    proof (cases res)
      case (Inl e)
      with g have fails: "generation_fails d a"
        by (simp add: generation_fails_def)
      from gen Inl have "e = Error ''No medicines available in database''"
        by (auto dest: generatePrescription_error)
      with Inl have "FailedToGenerate (appt_id a) (Error ''No medicines available in database'') \<in> set out"
        by (simp add: eq)
      with fails True Inl show ?thesis
        by (simp add: completed_by_sweep_def)
    next
      case (Inr p)
      with g have works: "\<not> generation_fails d a"
        by (auto simp: generation_fails_def)
      from gen Inr have "find (\<lambda>q. appointmentId q = appt_id ?a1) (prescriptions d1) = Some p"
        by (auto dest: generatePrescription_stored)
      then have "find (\<lambda>q. appointmentId q = appt_id a) (prescriptions d2) = Some p"
        by (simp add: ps2 find_prefix)
      with works True Inr show ?thesis
        by (simp add: completed_by_sweep_def)
    qed
    from head tail logs True show ?thesis
      by (simp add: eq failures_logged_def)
  qed
qed

lemma save_user_ids: "map user_id (save_user u us) = map user_id us"
  unfolding save_user_def by (induction us) auto

lemma save_user_lookup_same:
  "findById user_id (user_id u) us = Some v \<Longrightarrow> findById user_id (user_id u) (save_user u us) = Some u"
  unfolding save_user_def by (rule findById_update_first_same) simp_all

lemma save_user_lookup_other:
  "i \<noteq> user_id u \<Longrightarrow> findById user_id i (save_user u us) = findById user_id i us"
  unfolding save_user_def by (rule findById_update_first_other) simp_all

lemma has_confirmed_count: "has_confirmed u \<longleftrightarrow> 0 < confirmed_count (appointments u)"
  by (auto simp: has_confirmed_def confirmed_count_def list_ex_iff filter_empty_conv)

lemma list_all2_swept_unconfirmed:
  "confirmed_count as = 0 \<Longrightarrow> list_all2 (swept d) as as"
  by (induction as) (auto simp: confirmed_count_def swept_def split: if_splits)

lemma list_all2_swept_same:
  "list_all2 (swept d) as as' \<Longrightarrow> confirmed_count as = 0 \<Longrightarrow> as' = as"
  by (induction as as' rule: list_all2_induct)
     (auto simp: swept_def confirmed_count_def split: if_splits)

lemma expire_users_ok:
  "distinct (map user_id us) \<Longrightarrow>
   (\<forall>u\<in>set us. findById user_id (user_id u) (users d) = Some u) \<Longrightarrow>
   (\<forall>u\<in>set us. has_confirmed u \<longrightarrow> save_ok E (user_id u)) \<Longrightarrow>
   expire_users E us d c = (res, d', out) \<Longrightarrow>
     res = Inr (c + sum_list (map (\<lambda>u. confirmed_count (appointments u)) us))
     \<and> map user_id (users d') = map user_id (users d)
     \<and> (\<forall>u\<in>set us. ledger_swept d' u)
     \<and> (\<forall>i. i \<notin> user_id ` set us \<longrightarrow> findById user_id i (users d') = findById user_id i (users d))
     \<and> (\<exists>ps. prescriptions d' = prescriptions d @ ps)
     \<and> slots d' = slots d \<and> medicines d' = medicines d
     \<and> (filter isActive (medicines d) = [] \<longrightarrow> prescriptions d' = prescriptions d)
     \<and> (\<forall>u\<in>set us. ledger_completed d d' u)
     \<and> (\<forall>u\<in>set us. failures_logged d (appointments u) out)"
proof (induction us arbitrary: d c res d' out)
  case Nil
  then show ?case by simp
next
  case (Cons u us)
  obtain as1 d1 n w where led: "expire_ledger E (user_id u) (appointments u) d = (as1, d1, n, w)"
    by (cases "expire_ledger E (user_id u) (appointments u) d") auto
  note l = expire_ledger_result [OF led]
  note lc = expire_ledger_completed [OF led]
  from l have n: "n = confirmed_count (appointments u)" and us1: "users d1 = users d"
    and sw1: "list_all2 (swept d1) (appointments u) as1"
    by simp_all
  from lc have comp1: "list_all2 (completed_by_sweep d d1) (appointments u) as1"
    and log1: "failures_logged d (appointments u) w"
    by simp_all
  from l obtain ps1 where ps1: "prescriptions d1 = prescriptions d @ ps1"
    by blast
  from Cons.prems(1) have dist: "distinct (map user_id us)" and notin: "user_id u \<notin> user_id ` set us"
    by simp_all
  from Cons.prems(2) have stored_u: "findById user_id (user_id u) (users d) = Some u"
    and stored: "\<forall>v\<in>set us. findById user_id (user_id v) (users d) = Some v"
    by simp_all
  from Cons.prems(3) have ok: "\<forall>v\<in>set us. has_confirmed v \<longrightarrow> save_ok E (user_id v)"
    by simp
  define d2 where "d2 = (if 0 < n then d1\<lparr>users := save_user (u\<lparr>appointments := as1\<rparr>) (users d1)\<rparr> else d1)"
  have saved: "save_ok E (user_id u)" if "0 < n"
    using that Cons.prems(3) n by (simp add: has_confirmed_count)
  obtain r2 d3 out2 where run: "expire_users E us d2 (c + n) = (r2, d3, out2)"
    by (cases "expire_users E us d2 (c + n)") auto
  from Cons.prems(4) led saved run have r2: "r2 = res" and d3: "d3 = d'"
    and out: "set w \<subseteq> set out" "set out2 \<subseteq> set out"
    by (auto simp: d2_def split: if_splits)
  note run' = run [unfolded r2 d3]
  have look_u: "findById user_id (user_id u) (users d2) = Some (u\<lparr>appointments := as1\<rparr>)"
  proof (cases "0 < n")
    case True
    with stored_u us1 save_user_lookup_same [of "u\<lparr>appointments := as1\<rparr>" "users d" u]
    show ?thesis
      by (simp add: d2_def)
  next
    case False
    with n have "confirmed_count (appointments u) = 0"
      by simp
    with sw1 have "as1 = appointments u"
      by (rule list_all2_swept_same)
    with False stored_u us1 show ?thesis
      by (simp add: d2_def)
  qed
  have look_other: "findById user_id i (users d2) = findById user_id i (users d)" if "i \<noteq> user_id u" for i
    using that us1 save_user_lookup_other [of i "u\<lparr>appointments := as1\<rparr>" "users d"]
    by (simp add: d2_def)
  have ids2: "map user_id (users d2) = map user_id (users d)"
    using us1 by (simp add: d2_def save_user_ids)
  have rest2: "prescriptions d2 = prescriptions d1" "slots d2 = slots d1" "medicines d2 = medicines d1"
    by (simp_all add: d2_def)
  have med2: "medicines d2 = medicines d"
    using l rest2 by simp
  have same2: "filter isActive (medicines d) = [] \<longrightarrow> prescriptions d2 = prescriptions d"
    using l rest2 by auto
  have stored2: "\<forall>v\<in>set us. findById user_id (user_id v) (users d2) = Some v"
  proof
    fix v assume v: "v \<in> set us"
    with notin have "user_id v \<noteq> user_id u"
      by (metis imageI)
    with look_other stored v show "findById user_id (user_id v) (users d2) = Some v"
      by simp
  qed
  note ih = Cons.IH [OF dist stored2 ok run']
  from ih obtain ps2 where ps2: "prescriptions d' = prescriptions d2 @ ps2"
    by blast
  have res: "res = Inr (c + sum_list (map (\<lambda>u. confirmed_count (appointments u)) (u # us)))"
    using ih n by simp
  have ids: "map user_id (users d') = map user_id (users d)"
    using ih ids2 by simp
  have keep_u: "findById user_id (user_id u) (users d') = Some (u\<lparr>appointments := as1\<rparr>)"
    using ih notin look_u by simp
  have "list_all2 (swept d') (appointments u) as1"
    by (rule list_all2_swept_mono [OF sw1]) (simp add: ps2 rest2)
  with keep_u have swept_u: "ledger_swept d' u"
    by (simp add: ledger_swept_def)
  have swept_all: "\<forall>v\<in>set (u # us). ledger_swept d' v"
    using ih swept_u by simp
  have others: "\<forall>i. i \<notin> user_id ` set (u # us) \<longrightarrow> findById user_id i (users d') = findById user_id i (users d)"
    using ih look_other by simp
  have grow: "\<exists>ps. prescriptions d' = prescriptions d @ ps"
    using ps1 ps2 rest2 by simp
  have frame: "slots d' = slots d \<and> medicines d' = medicines d"
    using ih l rest2 by simp
  have empty: "filter isActive (medicines d) = [] \<longrightarrow> prescriptions d' = prescriptions d"
    using ih l rest2 by auto
  have "list_all2 (completed_by_sweep d d') (appointments u) as1"
    using comp1 by (rule list_all2_mono) (rule completed_by_sweep_grows, assumption, simp add: ps2 rest2)
  with keep_u have completed_u: "ledger_completed d d' u"
    by (simp add: ledger_completed_def)
  have completed_tail: "ledger_completed d d' v" if v: "v \<in> set us" for v
  proof -
    from ih v have "ledger_completed d2 d' v"
      by simp
    then obtain v' where v': "findById user_id (user_id v) (users d') = Some v'"
      and c2: "list_all2 (completed_by_sweep d2 d') (appointments v) (appointments v')"
      by (auto simp: ledger_completed_def split: option.splits)
    from c2 have "list_all2 (completed_by_sweep d d') (appointments v) (appointments v')"
      by (rule list_all2_mono) (rule completed_by_sweep_start [OF _ med2 same2])
    with v' show ?thesis
      by (simp add: ledger_completed_def)
  qed
  have completed_all: "\<forall>v\<in>set (u # us). ledger_completed d d' v"
    using completed_u completed_tail by simp
  have logged_u: "failures_logged d (appointments u) out"
    using log1 out(1) by (intro failures_logged_mono [of d "appointments u" w d out]) simp_all
  have logged_tail: "failures_logged d (appointments v) out" if v: "v \<in> set us" for v
  proof -
    from ih v have "failures_logged d2 (appointments v) out2"
      by simp
    then show ?thesis
      by (rule failures_logged_mono [OF _ med2 same2 out(2)])
  qed
  have logged_all: "\<forall>v\<in>set (u # us). failures_logged d (appointments v) out"
    using logged_u logged_tail by simp
  from res ids swept_all others grow frame empty completed_all logged_all show ?case
    by blast
qed

lemma stored_lookup:
  "distinct (map user_id us) \<Longrightarrow> u \<in> set us \<Longrightarrow> findById user_id (user_id u) us = Some u"
  by (induction us) (auto simp: findById_def)

lemma swept_not_confirmed:
  assumes "swept d a a'"
  shows "status a' \<noteq> Confirmed"
proof (cases "status a = Confirmed")
  case False
  with assms show ?thesis by (simp add: swept_def)
next
  case True
  with assms have "a' = a\<lparr>status := Completed, prescriptionId := prescriptionId a'\<rparr>"
    unfolding swept_def by simp
  then have "status a' = status (a\<lparr>status := Completed, prescriptionId := prescriptionId a'\<rparr>)"
    by (rule arg_cong)
  then show ?thesis by simp
qed

lemma list_all2_swept_not_confirmed:
  "list_all2 (swept d) as as' \<Longrightarrow> a' \<in> set as' \<Longrightarrow> status a' \<noteq> Confirmed"
  by (induction as as' rule: list_all2_induct) (auto dest: swept_not_confirmed)

lemma confirmed_total:
  "sum_list (map (\<lambda>u. confirmed_count (appointments u)) (filter has_confirmed us))
     = sum_list (map (\<lambda>u. confirmed_count (appointments u)) us)"
  by (induction us) (auto simp: has_confirmed_count)


lemma expireAppointments_loop:
  "expireAppointments E d = (res, d') \<Longrightarrow>
   \<exists>lines. expire_users E (filter has_confirmed (users d)) d 0 = (res, d', lines)"
  by (auto simp: expireAppointments_def expireAppointments_run_def split: prod.splits sum.splits)

lemma expire_loop_ok:
  assumes dist: "distinct (map user_id (users d))"
    and ok: "\<forall>u\<in>set (users d). has_confirmed u \<longrightarrow> save_ok E (user_id u)"
    and run': "expire_users E (filter has_confirmed (users d)) d 0 = (res, d', out)"
  shows "res = Inr (sum_list (map (\<lambda>u. confirmed_count (appointments u)) (users d)))
     \<and> map user_id (users d') = map user_id (users d)
     \<and> (\<forall>u\<in>set (users d). ledger_swept d' u)
     \<and> (\<forall>u'\<in>set (users d'). \<forall>a'\<in>set (appointments u'). status a' \<noteq> Confirmed)
     \<and> (\<exists>ps. prescriptions d' = prescriptions d @ ps)
     \<and> slots d' = slots d \<and> medicines d' = medicines d
     \<and> (filter isActive (medicines d) = [] \<longrightarrow> prescriptions d' = prescriptions d)
     \<and> (\<forall>u\<in>set (users d). ledger_completed d d' u)
     \<and> (\<forall>u\<in>set (users d). failures_logged d (appointments u) out)"
proof -
  let ?us = "filter has_confirmed (users d)"
  have d1: "distinct (map user_id ?us)"
    using dist by (simp add: distinct_map_filter)
  have st: "\<forall>u\<in>set ?us. findById user_id (user_id u) (users d) = Some u"
    using dist by (simp add: stored_lookup)
  have ok': "\<forall>u\<in>set ?us. has_confirmed u \<longrightarrow> save_ok E (user_id u)"
    using ok by simp
  note r = expire_users_ok [OF d1 st ok' run']
  have count: "sum_list (map (\<lambda>u. confirmed_count (appointments u)) ?us)
                 = sum_list (map (\<lambda>u. confirmed_count (appointments u)) (users d))"
    by (rule confirmed_total)
  have res: "res = Inr (sum_list (map (\<lambda>u. confirmed_count (appointments u)) (users d)))"
    using r count by simp
  have ids: "map user_id (users d') = map user_id (users d)"
    using r by simp
  from r obtain ps where ps: "prescriptions d' = prescriptions d @ ps"
    by blast
  have frame: "slots d' = slots d \<and> medicines d' = medicines d
               \<and> (filter isActive (medicines d) = [] \<longrightarrow> prescriptions d' = prescriptions d)"
    using r by simp
  have untouched: "findById user_id (user_id u) (users d') = Some u"
    if u: "u \<in> set (users d)" and no: "\<not> has_confirmed u" for u
  proof -
    have "user_id u \<notin> user_id ` set ?us"
    proof
      assume "user_id u \<in> user_id ` set ?us"
      then obtain v where v: "v \<in> set (users d)" "has_confirmed v" "user_id v = user_id u"
        by auto
      with dist u have "v = u"
        by (metis stored_lookup option.inject)
      with v no show False by simp
    qed
    with r have "findById user_id (user_id u) (users d') = findById user_id (user_id u) (users d)"
      by simp
    with stored_lookup [OF dist u] show ?thesis
      by simp
  qed
  have swept_all: "ledger_swept d' u" if u: "u \<in> set (users d)" for u
  proof (cases "has_confirmed u")
    case True
    with u r show ?thesis by simp
  next
    case False
    from False have "list_all2 (swept d') (appointments u) (appointments u)"
      by (intro list_all2_swept_unconfirmed) (simp add: has_confirmed_count)
    with untouched [OF u False] show ?thesis
      by (simp add: ledger_swept_def)
  qed
  have completed_all: "ledger_completed d d' u" if u: "u \<in> set (users d)" for u
  proof (cases "has_confirmed u")
    case True
    with u r show ?thesis by simp
  next
    case False
    from False have "list_all2 (completed_by_sweep d d') (appointments u) (appointments u)"
      by (intro list_all2_completed_unconfirmed) (simp add: has_confirmed_count)
    with untouched [OF u False] show ?thesis
      by (simp add: ledger_completed_def)
  qed
  have logged_all: "failures_logged d (appointments u) out" if u: "u \<in> set (users d)" for u
  proof (cases "has_confirmed u")
    case True
    with u r show ?thesis by simp
  next
    case False
    then show ?thesis
      by (intro failures_logged_unconfirmed) (simp add: has_confirmed_count)
  qed
  have none_left: "status a' \<noteq> Confirmed" if u': "u' \<in> set (users d')" and a': "a' \<in> set (appointments u')" for u' a'
  proof -
    from u' have "user_id u' \<in> set (map user_id (users d'))"
      by simp
    with ids obtain u where u: "u \<in> set (users d)" and same: "user_id u = user_id u'"
      by auto
    from dist ids have "distinct (map user_id (users d'))"
      by simp
    from stored_lookup [OF this u'] same swept_all [OF u]
    have "list_all2 (swept d') (appointments u) (appointments u')"
      by (simp add: ledger_swept_def)
    then show ?thesis
      using a' by (rule list_all2_swept_not_confirmed)
  qed
  from res ids swept_all none_left ps frame completed_all logged_all show ?thesis
    by blast
qed

lemma expireAppointments_ok:
  assumes dist: "distinct (map user_id (users d))"
    and ok: "\<forall>u\<in>set (users d). has_confirmed u \<longrightarrow> save_ok E (user_id u)"
    and run: "expireAppointments E d = (res, d')"
  shows "res = Inr (sum_list (map (\<lambda>u. confirmed_count (appointments u)) (users d)))
     \<and> map user_id (users d') = map user_id (users d)
     \<and> (\<forall>u\<in>set (users d). ledger_swept d' u)
     \<and> (\<forall>u'\<in>set (users d'). \<forall>a'\<in>set (appointments u'). status a' \<noteq> Confirmed)
     \<and> (\<exists>ps. prescriptions d' = prescriptions d @ ps)
     \<and> slots d' = slots d \<and> medicines d' = medicines d
     \<and> (filter isActive (medicines d) = [] \<longrightarrow> prescriptions d' = prescriptions d)"
proof -
  from expireAppointments_loop [OF run] obtain lines where
    "expire_users E (filter has_confirmed (users d)) d 0 = (res, d', lines)"
    by blast
  from expire_loop_ok [OF dist ok this] show ?thesis
    by blast
qed

lemma expire_users_append:
  "expire_users E (us @ vs) d c =
     (case expire_users E us d c of
        (Inr c', d1, out) \<Rightarrow> (case expire_users E vs d1 c' of (res, d2, out') \<Rightarrow> (res, d2, out @ out'))
      | (Inl e, d1, out) \<Rightarrow> (Inl e, d1, out))"
  by (induction us arbitrary: d c) (auto simp: Let_def split: prod.splits sum.splits)

lemma expire_users_save_fails:
  assumes "has_confirmed u" and "\<not> save_ok E (user_id u)"
  shows "\<exists>d1 out. expire_users E (u # vs) d c = (Inl StorageError, d1, out) \<and> users d1 = users d
                 \<and> (\<exists>ps. prescriptions d1 = prescriptions d @ ps)"
proof -
  obtain as1 d1 n w where led: "expire_ledger E (user_id u) (appointments u) d = (as1, d1, n, w)"
    by (cases "expire_ledger E (user_id u) (appointments u) d") auto
  from expire_ledger_result [OF led] assms(1) have "0 < n" and "users d1 = users d"
    and "\<exists>ps. prescriptions d1 = prescriptions d @ ps"
    by (simp_all add: has_confirmed_count)
  with led assms(2) show ?thesis
    by simp
qed

lemma expireAppointments_save_fails:
  assumes dist: "distinct (map user_id (users d))"
    and split: "filter has_confirmed (users d) = pre @ u # post"
    and ok: "\<forall>v\<in>set pre. save_ok E (user_id v)"
    and fail: "\<not> save_ok E (user_id u)"
    and run: "expireAppointments E d = (res, d')"
  shows "res = Inl StorageError
     \<and> (\<forall>v\<in>set pre. ledger_swept d' v)
     \<and> (\<forall>v\<in>set (u # post). ledger_untouched d d' v)"
proof -
  have d1: "distinct (map user_id (pre @ u # post))"
    using dist split by (metis distinct_map_filter)
  have "set (filter has_confirmed (users d)) = set (pre @ u # post)"
    by (simp only: split)
  then have mem: "set (pre @ u # post) \<subseteq> set (users d)" and conf: "has_confirmed u"
    by auto
  obtain r1 dm out1 where pre: "expire_users E pre d 0 = (r1, dm, out1)"
    by (cases "expire_users E pre d 0") auto
  have dpre: "distinct (map user_id pre)"
    using d1 by simp
  have st: "\<forall>v\<in>set pre. findById user_id (user_id v) (users d) = Some v"
    using dist mem by (auto simp: stored_lookup)
  have ok': "\<forall>v\<in>set pre. has_confirmed v \<longrightarrow> save_ok E (user_id v)"
    using ok by simp
  note r = expire_users_ok [OF dpre st ok' pre]
  from r obtain c' where r1: "r1 = Inr c'"
    by blast
  from expire_users_save_fails [OF conf fail, of post dm c'] obtain d2 out2 where
    fails: "expire_users E (u # post) dm c' = (Inl StorageError, d2, out2)" and us2: "users d2 = users dm"
    and grow: "\<exists>ps. prescriptions d2 = prescriptions dm @ ps"
    by blast
  from expireAppointments_loop [OF run] obtain lines where
    "expire_users E (filter has_confirmed (users d)) d 0 = (res, d', lines)"
    by blast
  with split pre r1 fails have res: "res = Inl StorageError" and d': "d' = d2"
    by (simp_all add: expire_users_append)
  have swept_pre: "ledger_swept d' v" if "v \<in> set pre" for v
  proof -
    from r that have "ledger_swept dm v"
      by simp
    then have "case findById user_id (user_id v) (users dm) of None \<Rightarrow> False
               | Some u' \<Rightarrow> list_all2 (swept dm) (appointments v) (appointments u')"
      by (simp add: ledger_swept_def)
    moreover have "set (prescriptions dm) \<subseteq> set (prescriptions d2)"
      using grow by auto
    ultimately show ?thesis
      using us2 d' by (auto simp: ledger_swept_def split: option.splits intro: list_all2_swept_mono)
  qed
  have untouched: "ledger_untouched d d' v" if "v \<in> set (u # post)" for v
  proof -
    from that d1 have "user_id v \<notin> user_id ` set pre"
      by auto
    with r have "findById user_id (user_id v) (users dm) = findById user_id (user_id v) (users d)"
      by simp
    with us2 d' show ?thesis
      by (simp add: ledger_untouched_def)
  qed
  from res swept_pre untouched show ?thesis
    by blast
qed

lemma generate_manual_exists:
  assumes "cast_oid aid' = Some aid" and "findById user_id uid (users d) = Some usr"
    and "findById appt_id aid (appointments usr) = Some appt"
    and "status appt = Confirmed \<or> status appt = Completed"
    and "find (\<lambda>p. appointmentId p = aid) (prescriptions d) = Some p"
  shows "generatePrescriptionForAppointment env now nid rnd d uid aid' =
           (Resp 400 ''Prescription already exists for this appointment'' None, d)"
  using assms by (auto simp: generatePrescriptionForAppointment_def)

lemma generate_manual_not_200:
  assumes "generatePrescriptionForAppointment env now nid rnd d uid aid' = (resp, d')"
    and "code resp \<noteq> 200"
  shows "d' = d"
  using assms
  by (auto simp: generatePrescriptionForAppointment_def Let_def split: option.splits if_splits)

lemma generate_manual_200:
  assumes run: "generatePrescriptionForAppointment env now nid rnd d uid aid' = (resp, d')"
    and ok: "code resp = 200"
  shows "\<exists>aid usr appt p.
           cast_oid aid' = Some aid \<and> findById user_id uid (users d) = Some usr
           \<and> findById appt_id aid (appointments usr) = Some appt
           \<and> (status appt = Confirmed \<or> status appt = Completed)
           \<and> find (\<lambda>p. appointmentId p = aid) (prescriptions d) = None
           \<and> payload resp = Some p \<and> presc_id p = nid \<and> appointmentId p = aid \<and> userId p = uid
           \<and> prescribedAt p = now \<and> followUpDate p = generateFollowUpDate env now (r_followUp rnd)
           \<and> d' = d\<lparr>prescriptions := prescriptions d @ [p],
                     users := save_user
                       (usr\<lparr>appointments :=
                              update_first (\<lambda>a. appt_id a = aid)
                                (\<lambda>a. a\<lparr>prescriptionId := Some nid, status := Completed\<rparr>)
                                (appointments usr)\<rparr>)
                       (users d)\<rparr>"
proof -
  from run ok obtain aid where c: "cast_oid aid' = Some aid"
    by (cases "cast_oid aid'") (auto simp: generatePrescriptionForAppointment_def)
  from run ok c obtain usr where u: "findById user_id uid (users d) = Some usr"
    by (cases "findById user_id uid (users d)") (auto simp: generatePrescriptionForAppointment_def)
  from run ok c u obtain appt where a: "findById appt_id aid (appointments usr) = Some appt"
    by (cases "findById appt_id aid (appointments usr)") (auto simp: generatePrescriptionForAppointment_def)
  from run ok c u a have st: "status appt = Confirmed \<or> status appt = Completed"
    by (auto simp: generatePrescriptionForAppointment_def split: if_splits)
  from run ok c u a st have f: "find (\<lambda>p. appointmentId p = aid) (prescriptions d) = None"
    by (cases "find (\<lambda>p. appointmentId p = aid) (prescriptions d)")
       (auto simp: generatePrescriptionForAppointment_def)
  then have fresh: "aid \<notin> set (map appointmentId (prescriptions d))"
    by (simp add: find_appointmentId)
  from run ok c u a st f have m: "filter isActive (medicines d) \<noteq> []"
    by (auto simp: generatePrescriptionForAppointment_def Let_def split: if_splits)
  from run c u a st f m fresh show ?thesis
    by (auto simp: generatePrescriptionForAppointment_def Let_def insert_prescription_def)
qed

lemma generatePrescription_distinct:
  assumes "distinct (map appointmentId (prescriptions d))"
    and "generatePrescription now nid rnd d appt uid = (res, d1)"
  shows "distinct (map appointmentId (prescriptions d1))"
proof (cases res)
  case (Inl e)
  with generatePrescription_result [OF assms(2)] assms(1) show ?thesis
    by simp
next
  case (Inr p)
  with generatePrescription_result [OF assms(2)]
  have "d1 = d \<or> find (\<lambda>q. appointmentId q = appt_id appt) (prescriptions d) = None
           \<and> prescriptions d1 = prescriptions d @ [p] \<and> appointmentId p = appt_id appt"
    by auto
  with assms(1) show ?thesis
    by (auto simp: find_appointmentId)
qed

lemma generate_manual_distinct:
  assumes "distinct (map appointmentId (prescriptions d))"
    and "generatePrescriptionForAppointment env now nid rnd d uid aid' = (resp, d2)"
  shows "distinct (map appointmentId (prescriptions d2))"
proof (cases "code resp = 200")
  case False
  with generate_manual_not_200 [OF assms(2)] assms(1) show ?thesis
    by simp
next
  case True
  from generate_manual_200 [OF assms(2) True] obtain aid p us where
    "find (\<lambda>p. appointmentId p = aid) (prescriptions d) = None" "appointmentId p = aid"
    "d2 = d\<lparr>prescriptions := prescriptions d @ [p], users := us\<rparr>"
    by blast
  with assms(1) show ?thesis
    by (auto simp: find_appointmentId)
qed

lemma generate_manual_twice:
  assumes run: "generatePrescriptionForAppointment env now nid rnd d uid aid' = (resp, d2)"
    and ok: "code resp = 200"
  shows "generatePrescriptionForAppointment env now' nid' rnd' d2 uid aid' =
           (Resp 400 ''Prescription already exists for this appointment'' None, d2)"
proof -
  from generate_manual_200 [OF run ok] obtain aid usr appt p where
    c: "cast_oid aid' = Some aid" and u: "findById user_id uid (users d) = Some usr"
    and a: "findById appt_id aid (appointments usr) = Some appt"
    and f: "find (\<lambda>p. appointmentId p = aid) (prescriptions d) = None" and p: "appointmentId p = aid"
    and d2: "d2 = d\<lparr>prescriptions := prescriptions d @ [p],
                     users := save_user
                       (usr\<lparr>appointments :=
                              update_first (\<lambda>a. appt_id a = aid)
                                (\<lambda>a. a\<lparr>prescriptionId := Some nid, status := Completed\<rparr>)
                                (appointments usr)\<rparr>)
                       (users d)\<rparr>"
    by blast
  let ?as = "update_first (\<lambda>a. appt_id a = aid)
               (\<lambda>a. a\<lparr>prescriptionId := Some nid, status := Completed\<rparr>) (appointments usr)"
  let ?usr = "usr\<lparr>appointments := ?as\<rparr>"
  let ?appt = "appt\<lparr>prescriptionId := Some nid, status := Completed\<rparr>"
  from u have uid: "user_id usr = uid"
    by (rule findById_key)
  from a have aid: "appt_id appt = aid"
    by (rule findById_key)
  have u2: "findById user_id uid (users d2) = Some ?usr"
    using save_user_lookup_same [of ?usr "users d" usr] u uid by (simp add: d2)
  have "findById appt_id aid ?as = Some ?appt"
    by (rule findById_update_first_same [OF a]) (simp add: aid)
  then have a2: "findById appt_id aid (appointments ?usr) = Some ?appt"
    by simp
  have st: "status ?appt = Confirmed \<or> status ?appt = Completed"
    by simp
  have f2: "find (\<lambda>p. appointmentId p = aid) (prescriptions d2) = Some p"
    using f p by (simp add: d2 find_append_fresh)
  show ?thesis
    by (rule generate_manual_exists [OF c u2 a2 st f2])
qed

lemma generate_manual_existing:
  assumes "cast_oid aid' = Some aid" and "find (\<lambda>q. appointmentId q = aid) (prescriptions d) = Some p"
  shows "snd (generatePrescriptionForAppointment env now nid rnd d uid aid') = d
     \<and> code (fst (generatePrescriptionForAppointment env now nid rnd d uid aid')) \<noteq> 200"
  using assms
  by (auto simp: generatePrescriptionForAppointment_def split: option.splits)

lemma updateAppointment_sets_status:
  assumes c: "cast_oid aid' = Some aid" and u: "findById user_id uid (users d) = Some usr"
    and a: "findById appt_id aid (appointments usr) = Some appt"
    and s: "updateData ''status'' = Some s" and p: "parse_status s = Some st"
  shows "code (fst (updateAppointment d uid aid' updateData)) = 200
     \<and> (\<exists>usr' appt'.
           findById user_id uid (users (snd (updateAppointment d uid aid' updateData))) = Some usr'
           \<and> findById appt_id aid (appointments usr') = Some appt'
           \<and> status appt' = st)"
proof -
  let ?appt' = "assign_notes (pick_updates updateData) (appt\<lparr>status := st\<rparr>)"
  let ?usr' = "usr\<lparr>appointments := update_first (\<lambda>a. appt_id a = aid) (\<lambda>_. ?appt') (appointments usr)\<rparr>"
  from s have picked: "pick_updates updateData ''status'' = Some s"
    by (simp add: pick_updates_def allowedUpdates_def)
  with c u a p have run: "updateAppointment d uid aid' updateData =
      (Resp 200 ''Appointment updated successfully'' (Some ?appt'), d\<lparr>users := save_user ?usr' (users d)\<rparr>)"
    by (simp add: updateAppointment_def Let_def allowedUpdates_def)
  from a have aid: "appt_id appt = aid"
    by (rule findById_key)
  from u have uid: "user_id usr = uid"
    by (rule findById_key)
  have st: "status ?appt' = st" and id': "appt_id ?appt' = aid"
    by (simp_all add: assign_notes_def aid split: option.splits)
  have "findById appt_id aid (update_first (\<lambda>a. appt_id a = aid) (\<lambda>_. ?appt') (appointments usr)) = Some ?appt'"
    by (rule findById_update_first_same [OF a]) (rule id')
  then have found: "findById appt_id aid (appointments ?usr') = Some ?appt'"
    by simp
  have stored: "findById user_id uid (users (d\<lparr>users := save_user ?usr' (users d)\<rparr>)) = Some ?usr'"
    using save_user_lookup_same [of ?usr' "users d" usr] u uid by simp
  from run stored found st show ?thesis
    by (simp only: fst_conv snd_conv response.sel) blast
qed

section \<open>Lemmas about statuses that stay\<close>

lemma kept_refl: "kept T as as"
  by (simp add: kept_def list_all2_refl)

lemma kept_append: "kept T as (as @ xs)"
  by (simp add: kept_def list_all2_refl)

lemma length_update_first: "length (update_first P f xs) = length xs"
  by (induction xs) auto

lemma update_first_found:
  "findById key i xs = Some x \<Longrightarrow>
   update_first (\<lambda>v. key v = i) f xs = update_first (\<lambda>v. key v = i) (\<lambda>_. f x) xs"
  by (induction xs) (auto simp: findById_def split: if_splits)

lemma kept_update_found:
  assumes "findById appt_id i as = Some x" and "T x \<longrightarrow> status (f x) = status x"
  shows "kept T as (update_first (\<lambda>a. appt_id a = i) f as)"
proof -
  have "list_all2 (\<lambda>a a'. T a \<longrightarrow> status a' = status a) as
          (update_first (\<lambda>a. appt_id a = i) (\<lambda>_. f x) as)"
    by (rule list_all2_replace_found [OF assms(1)]) (simp_all add: assms(2))
  then have "kept T as (update_first (\<lambda>a. appt_id a = i) (\<lambda>_. f x) as)"
    by (simp add: kept_def length_update_first)
  then show ?thesis
    by (subst update_first_found [OF assms(1)])
qed

lemma kept_swept: "list_all2 (swept d') as as' \<Longrightarrow> kept terminal as as'"
proof -
  assume sw: "list_all2 (swept d') as as'"
  then have len: "length as = length as'"
    by (rule list_all2_lengthD)
  have "status a' = status a" if "swept d' a a'" "terminal a" for a a'
    using that by (auto simp: swept_def terminal_def split: if_splits)
  with sw have "list_all2 (\<lambda>a a'. terminal a \<longrightarrow> status a' = status a) as as'"
    by (auto elim!: list_all2_mono)
  with len show ?thesis
    by (simp add: kept_def)
qed

lemma statuses_kept_same_users:
  "distinct (map user_id (users d)) \<Longrightarrow> users d' = users d \<Longrightarrow> statuses_kept T d d'"
  by (simp add: statuses_kept_def list_all_iff stored_lookup kept_refl)

lemma statuses_kept_save_user:
  assumes dist: "distinct (map user_id (users d))"
    and u: "findById user_id uid (users d) = Some usr"
    and k: "kept T (appointments usr) as'"
    and d': "users d' = save_user (usr\<lparr>appointments := as'\<rparr>) (users d)"
  shows "statuses_kept T d d'"
proof -
  from u have uid: "user_id usr = uid"
    by (rule findById_key)
  have "case findById user_id (user_id v) (users d') of None \<Rightarrow> False
        | Some u' \<Rightarrow> kept T (appointments v) (appointments u')" if v: "v \<in> set (users d)" for v
  proof (cases "user_id v = uid")
    case True
    with stored_lookup [OF dist v] u have "v = usr"
      by simp
    moreover have "findById user_id uid (users d') = Some (usr\<lparr>appointments := as'\<rparr>)"
      using save_user_lookup_same [of "usr\<lparr>appointments := as'\<rparr>" "users d" usr] u uid by (simp add: d')
    ultimately show ?thesis
      using k uid by simp
  next
    case False
    with uid have "findById user_id (user_id v) (users d') = findById user_id (user_id v) (users d)"
      by (simp add: d' save_user_lookup_other)
    with stored_lookup [OF dist v] show ?thesis
      by (simp add: kept_refl)
  qed
  then show ?thesis
    by (simp add: statuses_kept_def list_all_iff)
qed

lemma expire_users_any:
  "distinct (map user_id us) \<Longrightarrow>
   (\<forall>u\<in>set us. findById user_id (user_id u) (users d) = Some u) \<Longrightarrow>
   expire_users E us d c = (res, d', out) \<Longrightarrow>
     (\<forall>u\<in>set us. ledger_swept d' u \<or> ledger_untouched d d' u)
     \<and> (\<forall>i. i \<notin> user_id ` set us \<longrightarrow> findById user_id i (users d') = findById user_id i (users d))
     \<and> (\<exists>ps. prescriptions d' = prescriptions d @ ps)"
proof (induction us arbitrary: d c res d' out)
  case Nil
  then show ?case by simp
next
  case (Cons u us)
  obtain as1 d1 n w where led: "expire_ledger E (user_id u) (appointments u) d = (as1, d1, n, w)"
    by (cases "expire_ledger E (user_id u) (appointments u) d") auto
  note l = expire_ledger_result [OF led]
  from l have n: "n = confirmed_count (appointments u)" and us1: "users d1 = users d"
    and sw1: "list_all2 (swept d1) (appointments u) as1"
    by simp_all
  from l obtain ps1 where ps1: "prescriptions d1 = prescriptions d @ ps1"
    by blast
  show ?case
  proof (cases "0 < n \<and> \<not> save_ok E (user_id u)")
    case True
    with Cons.prems(3) led have "d' = d1"
      by simp
    with us1 ps1 show ?thesis
      by (simp add: ledger_untouched_def)
  next
    case False
    from Cons.prems(1) have dist: "distinct (map user_id us)" and notin: "user_id u \<notin> user_id ` set us"
      by simp_all
    from Cons.prems(2) have stored_u: "findById user_id (user_id u) (users d) = Some u"
      and stored: "\<forall>v\<in>set us. findById user_id (user_id v) (users d) = Some v"
      by simp_all
    define d2 where "d2 = (if 0 < n then d1\<lparr>users := save_user (u\<lparr>appointments := as1\<rparr>) (users d1)\<rparr> else d1)"
    obtain r2 d3 out2 where run2: "expire_users E us d2 (c + n) = (r2, d3, out2)"
      by (cases "expire_users E us d2 (c + n)") auto
    from Cons.prems(3) led False run2 have "r2 = res" and "d3 = d'"
      by (auto simp: d2_def split: if_splits)
    with run2 have run: "expire_users E us d2 (c + n) = (res, d', out2)"
      by simp
    have look_u: "findById user_id (user_id u) (users d2) = Some (u\<lparr>appointments := as1\<rparr>)"
    proof (cases "0 < n")
      case True
      with stored_u us1 save_user_lookup_same [of "u\<lparr>appointments := as1\<rparr>" "users d" u]
      show ?thesis
        by (simp add: d2_def)
    next
      case False
      with n have "confirmed_count (appointments u) = 0"
        by simp
      with sw1 have "as1 = appointments u"
        by (rule list_all2_swept_same)
      with False stored_u us1 show ?thesis
        by (simp add: d2_def)
    qed
    have look_other: "findById user_id i (users d2) = findById user_id i (users d)" if "i \<noteq> user_id u" for i
      using that us1 save_user_lookup_other [of i "u\<lparr>appointments := as1\<rparr>" "users d"]
      by (simp add: d2_def)
    have rest2: "prescriptions d2 = prescriptions d1"
      by (simp add: d2_def)
    have stored2: "\<forall>v\<in>set us. findById user_id (user_id v) (users d2) = Some v"
    proof
      fix v assume v: "v \<in> set us"
      with notin have "user_id v \<noteq> user_id u"
        by (metis imageI)
      with look_other stored v show "findById user_id (user_id v) (users d2) = Some v"
        by simp
    qed
    note ih = Cons.IH [OF dist stored2 run]
    from ih obtain ps2 where ps2: "prescriptions d' = prescriptions d2 @ ps2"
      by blast
    have keep_u: "findById user_id (user_id u) (users d') = Some (u\<lparr>appointments := as1\<rparr>)"
      using ih notin look_u by simp
    have "list_all2 (swept d') (appointments u) as1"
      by (rule list_all2_swept_mono [OF sw1]) (simp add: ps2 rest2)
    with keep_u have swept_u: "ledger_swept d' u"
      by (simp add: ledger_swept_def)
    have tail: "ledger_swept d' v \<or> ledger_untouched d d' v" if v: "v \<in> set us" for v
    proof -
      from v notin have "user_id v \<noteq> user_id u"
        by (metis imageI)
      with look_other have "findById user_id (user_id v) (users d2) = findById user_id (user_id v) (users d)"
        by simp
      with ih v show ?thesis
        by (auto simp: ledger_untouched_def)
    qed
    have others: "\<forall>i. i \<notin> user_id ` set (u # us) \<longrightarrow> findById user_id i (users d') = findById user_id i (users d)"
      using ih look_other by simp
    have grow: "\<exists>ps. prescriptions d' = prescriptions d @ ps"
      using ps1 ps2 rest2 by simp
    from swept_u tail others grow show ?thesis
      by auto
  qed
qed

lemma expireAppointments_kept:
  assumes dist: "distinct (map user_id (users d))"
  shows "statuses_kept terminal d (snd (expireAppointments E d))"
proof -
  let ?us = "filter has_confirmed (users d)"
  let ?d' = "snd (expireAppointments E d)"
  have d1: "distinct (map user_id ?us)"
    using dist by (simp add: distinct_map_filter)
  have st: "\<forall>u\<in>set ?us. findById user_id (user_id u) (users d) = Some u"
    using dist by (simp add: stored_lookup)
  have "expireAppointments E d = (fst (expireAppointments E d), ?d')"
    by simp
  from expireAppointments_loop [OF this] obtain lines where
    run: "expire_users E ?us d 0 = (fst (expireAppointments E d), ?d', lines)"
    by blast
  note r = expire_users_any [OF d1 st run]
  have "case findById user_id (user_id u) (users ?d') of None \<Rightarrow> False
        | Some u' \<Rightarrow> kept terminal (appointments u) (appointments u')" if u: "u \<in> set (users d)" for u
  proof -
    have "ledger_swept ?d' u \<or> ledger_untouched d ?d' u"
    proof (cases "has_confirmed u")
      case True
      with u r show ?thesis by simp
    next
      case False
      have "user_id u \<notin> user_id ` set ?us"
      proof
        assume "user_id u \<in> user_id ` set ?us"
        then obtain v where v: "v \<in> set (users d)" "has_confirmed v" "user_id v = user_id u"
          by auto
        with dist u have "v = u"
          by (metis stored_lookup option.inject)
        with v False show False by simp
      qed
      with r show ?thesis
        by (simp add: ledger_untouched_def)
    qed
    then show ?thesis
    proof
      assume "ledger_swept ?d' u"
      then show ?thesis
        by (auto simp: ledger_swept_def split: option.splits intro: kept_swept)
    next
      assume "ledger_untouched d ?d' u"
      with stored_lookup [OF dist u] show ?thesis
        by (simp add: ledger_untouched_def kept_refl)
    qed
  qed
  then show ?thesis
    by (simp add: statuses_kept_def list_all_iff)
qed

lemma addAppointment_kept:
  assumes dist: "distinct (map user_id (users d))"
  shows "statuses_kept T d (snd (addAppointment env st now new_id d uid body))"
proof (cases "code (fst (addAppointment env st now new_id d uid body)) = 201")
  case False
  from addAppointment_not_201 [OF False] dist show ?thesis
    by (simp add: statuses_kept_same_users)
next
  case True
  from addAppointment_201 [OF True] obtain dt usr sl doc hosp where
    v: "validateAppointmentData env body = Inr dt"
    and u: "findById user_id uid (users d) = Some usr"
    and s: "find (requested_slot env body) (slots d) = Some sl"
    and dc: "findById doctor_id (the (cast_oid (the (req_doctorId body)))) (doctors d) = Some doc"
    and h: "findById hospital_id (the (cast_oid (the (req_hospitalId body)))) (hospitals d) = Some hosp"
    and th: "throws st User_findById = None" "throws st AppointmentSlot_findOne = None"
      "throws st Doctor_findById = None" "throws st Hospital_findById = None"
    and sv: "slot_save_error st (book_slot uid sl) = None"
    and uv: "user_save_error st
                 (usr\<lparr>appointments := appointments usr
                          @ [newAppointment now new_id body
                               (startOfDay env (the (parseDate env (the (req_appointmentDate body)))))
                               doc hosp sl]\<rparr>) = None"
    by blast
  define appt where "appt = newAppointment now new_id body
    (startOfDay env (the (parseDate env (the (req_appointmentDate body))))) doc hosp sl"
  from uv have uv': "user_save_error st (usr\<lparr>appointments := appointments usr @ [appt]\<rparr>) = None"
    by (simp add: appt_def)
  from addAppointment_created [OF v u s dc h appt_def th sv uv']
  have "users (snd (addAppointment env st now new_id d uid body))
          = save_user (usr\<lparr>appointments := appointments usr @ [appt]\<rparr>) (users d)"
    by simp
  with dist u show ?thesis
    by (intro statuses_kept_save_user [where usr = usr and as' = "appointments usr @ [appt]"])
       (simp_all add: kept_append)
qed

lemma cancelAppointment_shape:
  "users (snd (cancelAppointment st d uid aid')) = users d
   \<or> (\<exists>aid usr appt.
         findById user_id uid (users d) = Some usr
         \<and> findById appt_id aid (appointments usr) = Some appt
         \<and> status appt \<noteq> Cancelled
         \<and> users (snd (cancelAppointment st d uid aid'))
             = save_user
                 (usr\<lparr>appointments :=
                        update_first (\<lambda>a. appt_id a = aid) (\<lambda>a. a\<lparr>status := Cancelled\<rparr>)
                          (appointments usr)\<rparr>)
                 (users d))"
  by (auto simp: cancelAppointment_def Let_def split: option.splits sum.splits)

lemma cancelAppointment_kept:
  assumes dist: "distinct (map user_id (users d))"
  shows "statuses_kept cancelled d (snd (cancelAppointment st d uid aid'))"
  using cancelAppointment_shape [of st d uid aid']
proof (elim disjE exE conjE)
  assume "users (snd (cancelAppointment st d uid aid')) = users d"
  with dist show ?thesis
    by (simp add: statuses_kept_same_users)
next
  fix aid usr appt
  assume u: "findById user_id uid (users d) = Some usr"
    and a: "findById appt_id aid (appointments usr) = Some appt"
    and n: "status appt \<noteq> Cancelled"
    and us: "users (snd (cancelAppointment st d uid aid'))
             = save_user
                 (usr\<lparr>appointments :=
                        update_first (\<lambda>a. appt_id a = aid) (\<lambda>a. a\<lparr>status := Cancelled\<rparr>)
                          (appointments usr)\<rparr>)
                 (users d)"
  have "kept cancelled (appointments usr)
          (update_first (\<lambda>a. appt_id a = aid) (\<lambda>a. a\<lparr>status := Cancelled\<rparr>) (appointments usr))"
    by (rule kept_update_found [OF a]) (simp add: cancelled_def n)
  with dist u us show ?thesis
    by (intro statuses_kept_save_user [where usr = usr]) simp_all
qed

lemma generate_manual_kept:
  assumes dist: "distinct (map user_id (users d))"
  shows "statuses_kept terminal d (snd (generatePrescriptionForAppointment env now nid rnd d uid aid'))"
proof (cases "code (fst (generatePrescriptionForAppointment env now nid rnd d uid aid')) = 200")
  case False
  have "generatePrescriptionForAppointment env now nid rnd d uid aid'
          = (fst (generatePrescriptionForAppointment env now nid rnd d uid aid'),
             snd (generatePrescriptionForAppointment env now nid rnd d uid aid'))"
    by simp
  from generate_manual_not_200 [OF this False] dist show ?thesis
    by (simp add: statuses_kept_same_users)
next
  case True
  have "generatePrescriptionForAppointment env now nid rnd d uid aid'
          = (fst (generatePrescriptionForAppointment env now nid rnd d uid aid'),
             snd (generatePrescriptionForAppointment env now nid rnd d uid aid'))"
    by simp
  from generate_manual_200 [OF this True] obtain aid usr appt p where
    u: "findById user_id uid (users d) = Some usr"
    and a: "findById appt_id aid (appointments usr) = Some appt"
    and st: "status appt = Confirmed \<or> status appt = Completed"
    and d': "snd (generatePrescriptionForAppointment env now nid rnd d uid aid')
               = d\<lparr>prescriptions := prescriptions d @ [p],
                     users := save_user
                       (usr\<lparr>appointments :=
                              update_first (\<lambda>a. appt_id a = aid)
                                (\<lambda>a. a\<lparr>prescriptionId := Some nid, status := Completed\<rparr>)
                                (appointments usr)\<rparr>)
                       (users d)\<rparr>"
    by blast
  have "kept terminal (appointments usr)
          (update_first (\<lambda>a. appt_id a = aid)
             (\<lambda>a. a\<lparr>prescriptionId := Some nid, status := Completed\<rparr>) (appointments usr))"
    using st by (intro kept_update_found [OF a]) (auto simp: terminal_def)
  with dist u d' show ?thesis
    by (intro statuses_kept_save_user [where usr = usr]) simp_all
qed

section \<open>Lemmas about requests in flight\<close>

lemma push_appointment_stored:
  "findById user_id uid us = Some usr \<Longrightarrow>
   push_appointment uid appt us = save_user (usr\<lparr>appointments := appointments usr @ [appt]\<rparr>) us"
proof -
  assume u: "findById user_id uid us = Some usr"
  then have "user_id usr = uid"
    by (rule findById_key)
  then show ?thesis
    unfolding push_appointment_def save_user_def
    by (subst update_first_found [OF u]) simp
qed

text \<open>A request that runs alone through its six steps is \<open>addAppointment\<close>.\<close>

lemma run_alone:
  "run env st [0, 0, 0, 0, 0, 0] (d, [new_task now new_id uid body]) =
     (snd (addAppointment env st now new_id d uid body),
      [(new_task now new_id uid body)\<lparr>t_at := Responded (fst (addAppointment env st now new_id d uid body))\<rparr>])"
  by (auto simp: booking_step_def addAppointment_def new_task_def Let_def push_appointment_stored
      split: sum.splits option.splits)

section \<open>The small hospital, evaluated\<close>

lemmas example_simps =
  addAppointment_def validateAppointmentData_def example_env_def example_request_def
  falsy_def isValid_def cast_oid_def hex_digit_def is_digit_def example_db_def
  example_slot_def findById_def slot_query_def Let_def save_slot_def save_user_def
  book_slot_def newAppointment_def default_duration_def cancelAppointment_def
  release_slot_def free_slot_def example_appointment_def example_booked_db_def
  requested_slot_def example_cancelled_db_def example_storage_def example_failing_storage_def
  example_blank_db_def slot_save_error_def user_save_error_def slot_valid_def
  appointment_valid_def trim_def is_space_def caught_def

lemma example_validation: "validateAppointmentData example_env example_request = Inr 1735117200000"
  by (simp add: example_simps)

lemma example_booking:
  "addAppointment example_env example_storage 5 96 example_db 16 example_request =
     (Resp 201 ''Appointment booked successfully! It will be completed in 1 minute.''
        (Some example_appointment), example_booked_db)"
  by (simp add: example_simps)

lemma example_second_booking:
  "find (requested_slot example_env example_request) (slots example_booked_db) = None"
  by (simp add: example_simps)

lemma example_cast: "cast_oid ''000000000000000000000060'' = Some 96"
  "cast_oid ''000000000000000000000061'' = Some 97"
  by (simp_all add: cast_oid_def hex_digit_def)

lemma example_cancel:
  "cancelAppointment example_storage example_booked_db 16 ''000000000000000000000060'' =
     (Resp 200 ''Appointment cancelled successfully'' None, example_cancelled_db)"
  by (simp add: example_simps)

lemmas sweep_simps =
  expireAppointments_def expireAppointments_run_def has_confirmed_def example_sweep_db_def
  example_booked_db_def example_db_def
  example_appointment_def example_second_appointment_def example_medicine_def example_draws_def
  example_sweep_env_def example_failing_env_def example_late_failing_env_def
  generatePrescription_def Let_def
  insert_prescription_def random_index_def random_element_def service_medication_def
  generateDosage_def generateDiagnosis_def diagnoses_def generateMedicationInstructions_def
  save_user_def example_slot_def

lemma example_generation:
  "generatePrescription 1000 1096 example_draws example_sweep_db example_appointment 16 =
     (Inr example_prescription, example_generated_db)"
  by (simp add: sweep_simps example_prescription_def example_generated_db_def)

section \<open>Claims\<close>

text \<open>
  C1. The slot claim of a booking is not one conditional update: the handler reads the
  slot with the filter available and unbooked, and writes the slot in a later step. Two
  bookings of the same slot by two users, each of which has read the slot before the
  other writes it, are both answered 201; both users get a confirmed appointment on the
  slot, and the slot keeps the claimant that wrote last. So it is not the case that
  exactly one of the claims succeeds.
\<close>

theorem concurrent_claims_both_succeed:
  "map (map_option code \<circ> response_of)
     (snd (run example_env example_storage [0, 0, 1, 1, 0, 0, 0, 0, 1, 1, 1, 1]
             (example_db, [new_task 5 96 16 example_request, new_task 6 97 17 example_request])))
     = [Some 201, Some 201]
   \<and> slots (fst (run example_env example_storage [0, 0, 1, 1, 0, 0, 0, 0, 1, 1, 1, 1]
             (example_db, [new_task 5 96 16 example_request, new_task 6 97 17 example_request])))
       = [example_slot\<lparr>isBooked := True, isAvailable := False, bookedBy := Some 17\<rparr>]
   \<and> map (map slotId \<circ> appointments)
         (users (fst (run example_env example_storage [0, 0, 1, 1, 0, 0, 0, 0, 1, 1, 1, 1]
             (example_db, [new_task 5 96 16 example_request, new_task 6 97 17 example_request]))))
       = [[Some 80], [Some 80]]"
  by (simp add: booking_step_def new_task_def push_appointment_def response_of_def example_simps)

text \<open>
  C4. After slot creation by the seed script, after the claim made by a booking and after
  the release made by a cancellation, every slot has its three fields in agreement:
  \<open>isBooked\<close> holds exactly when \<open>bookedBy\<close> is set, exactly when \<open>isAvailable\<close> does
  not hold. The seed creates only such slots, and booking and cancelling keep every slot
  of the store so.
\<close>

theorem slot_fields_agree:
  "list_all slot_inv (insertMany fresh (appointmentSlots env startDate docs))
   \<and> (list_all slot_inv (slots d) \<longrightarrow>
        list_all slot_inv (slots (snd (addAppointment env st now new_id d uid body)))
        \<and> list_all slot_inv (slots (snd (cancelAppointment st' d uid aid))))"
proof (intro conjI impI)
  show "list_all slot_inv (insertMany fresh (appointmentSlots env startDate docs))"
    by (rule slot_inv_insertMany) (rule slot_inv_appointmentSlots)
next
  assume inv: "list_all slot_inv (slots d)"
  from addAppointment_slots [of env st now new_id d uid body] inv
  show "list_all slot_inv (slots (snd (addAppointment env st now new_id d uid body)))"
    by (auto simp: slot_inv_save_slot)
  from cancelAppointment_slots [of st' d uid aid] inv
  show "list_all slot_inv (slots (snd (cancelAppointment st' d uid aid)))"
    by (auto simp: slot_inv_release_slot)
qed

theorem slot_fields_agree_witness:
  "list_all slot_inv (slots example_db)
   \<and> code (fst (addAppointment example_env example_storage 5 96 example_db 16 example_request)) = 201
   \<and> list_all slot_inv
       (slots (snd (addAppointment example_env example_storage 5 96 example_db 16 example_request)))
   \<and> list_all slot_inv (slots (snd (cancelAppointment example_storage
         (snd (addAppointment example_env example_storage 5 96 example_db 16 example_request)) 16
         ''000000000000000000000060'')))"
proof -
  let ?booked = "snd (addAppointment example_env example_storage 5 96 example_db 16 example_request)"
  have free: "list_all slot_inv (slots example_db)"
    by (simp add: example_db_def example_slot_def slot_inv_def)
  have created: "code (fst (addAppointment example_env example_storage 5 96 example_db 16 example_request)) = 201"
    by (simp add: example_simps)
  from free slot_fields_agree [where d = example_db and env = example_env and st = example_storage
      and now = 5 and new_id = 96 and uid = 16 and body = example_request]
  have claimed: "list_all slot_inv (slots ?booked)"
    by blast
  from claimed slot_fields_agree [where d = ?booked and st' = example_storage and uid = 16
      and aid = "''000000000000000000000060''"]
  have "list_all slot_inv (slots (snd (cancelAppointment example_storage ?booked 16
          ''000000000000000000000060'')))"
    by blast
  with free created claimed show ?thesis
    by blast
qed

text \<open>
  C3 as stated fails: a booking can claim the slot and create no appointment. Here the
  doctor's specialty is the empty string, so the new appointment has no department and
  \<open>user.save()\<close> rejects the ledger after \<open>availableSlot.save()\<close> has written the
  slot. The request is answered 500, the slot is booked by the patient, and no ledger has
  an appointment.
\<close>

theorem booking_partial_counterexample:
  "code (fst (addAppointment example_env example_storage 5 96 example_blank_db 16 example_request)) = 500
   \<and> slots (snd (addAppointment example_env example_storage 5 96 example_blank_db 16 example_request))
       = [example_slot\<lparr>isBooked := True, isAvailable := False, bookedBy := Some 16\<rparr>]
   \<and> map appointments
         (users (snd (addAppointment example_env example_storage 5 96 example_blank_db 16 example_request)))
       = [[], []]"
  by (simp add: example_simps)

text \<open>
  C3, amended. A booking is answered 201, 400, 404 or 500. It is answered 201 only when
  the request passes validation, the user, the doctor and the hospital exist and the
  requested slot is found available and unbooked; it has then claimed that slot for the
  user and appended exactly one new appointment to the user's ledger, with status
  confirmed and \<open>slotId\<close> the claimed slot, leaving every other ledger as it was. Any
  other answer returns no appointment and leaves every ledger as it was. An answer 400 or
  404 leaves the whole database unchanged; when the slot is not available the answer is
  400 "Selected time slot is no longer available". A valid request by an existing user
  for a free slot of an existing doctor and hospital is answered 201 when no operation
  throws, the slot and the ledger fit their schemas and the names of the hospital and the
  doctor and the doctor's specialty are not blank. Booking is not all-or-nothing under
  failure: an answer 500 leaves the database unchanged or with the slot claimed and
  nothing else changed, and the second happens exactly when the save of the ledger fails
  after the save of the slot.
\<close>

theorem booking_by_answer:
  assumes "addAppointment env st now new_id d uid body = (resp, d')"
  shows "code resp \<in> {201, 400, 404, 500}
     \<and> (code resp = 201 \<longrightarrow>
            (\<exists>dt usr sl doc hosp appt.
               validateAppointmentData env body = Inr dt
               \<and> findById user_id uid (users d) = Some usr
               \<and> findById doctor_id (the (cast_oid (the (req_doctorId body)))) (doctors d) = Some doc
               \<and> findById hospital_id (the (cast_oid (the (req_hospitalId body)))) (hospitals d) = Some hosp
               \<and> find (requested_slot env body) (slots d) = Some sl
               \<and> payload resp = Some appt
               \<and> appt_id appt = new_id \<and> status appt = Confirmed \<and> slotId appt = Some (slot_id sl)
               \<and> findById user_id uid (users d') = Some (usr\<lparr>appointments := appointments usr @ [appt]\<rparr>)
               \<and> (\<forall>v. v \<noteq> uid \<longrightarrow> findById user_id v (users d') = findById user_id v (users d))
               \<and> (distinct (map slot_id (slots d)) \<longrightarrow>
                    findById slot_id (slot_id sl) (slots d')
                      = Some (sl\<lparr>isBooked := True, isAvailable := False, bookedBy := Some uid\<rparr>))
               \<and> (\<forall>t. t \<noteq> slot_id sl \<longrightarrow> findById slot_id t (slots d') = findById slot_id t (slots d))
               \<and> prescriptions d' = prescriptions d))
     \<and> (code resp \<noteq> 201 \<longrightarrow> payload resp = None \<and> users d' = users d)
     \<and> (code resp \<in> {400, 404} \<longrightarrow> d' = d)
     \<and> ((\<exists>dt usr. validateAppointmentData env body = Inr dt
                    \<and> findById user_id uid (users d) = Some usr)
          \<and> throws st User_findById = None \<and> throws st AppointmentSlot_findOne = None
          \<and> find (requested_slot env body) (slots d) = None \<longrightarrow>
          resp = Resp 400 ''Selected time slot is no longer available'' None \<and> d' = d)
     \<and> (code resp = 500 \<longrightarrow>
            d' = d
            \<or> (\<exists>usr sl doc hosp.
                  findById user_id uid (users d) = Some usr
                  \<and> find (requested_slot env body) (slots d) = Some sl
                  \<and> findById doctor_id (the (cast_oid (the (req_doctorId body)))) (doctors d) = Some doc
                  \<and> findById hospital_id (the (cast_oid (the (req_hospitalId body)))) (hospitals d) = Some hosp
                  \<and> slot_save_error st (book_slot uid sl) = None
                  \<and> user_save_error st
                        (usr\<lparr>appointments := appointments usr
                                 @ [newAppointment now new_id body
                                      (startOfDay env (the (parseDate env (the (req_appointmentDate body)))))
                                      doc hosp sl]\<rparr>) \<noteq> None
                  \<and> d' = d\<lparr>slots := save_slot (slot_id sl) uid (slots d)\<rparr>))
     \<and> (\<forall>dt usr sl doc hosp.
            validateAppointmentData env body = Inr dt
            \<and> findById user_id uid (users d) = Some usr
            \<and> find (requested_slot env body) (slots d) = Some sl
            \<and> findById doctor_id (the (cast_oid (the (req_doctorId body)))) (doctors d) = Some doc
            \<and> findById hospital_id (the (cast_oid (the (req_hospitalId body)))) (hospitals d) = Some hosp
            \<and> none_throws st booking_operations
            \<and> slot_valid sl \<and> list_all appointment_valid (appointments usr)
            \<and> trim (hospital_name hosp) \<noteq> [] \<and> trim (specialty doc) \<noteq> []
            \<and> trim (doctor_name doc) \<noteq> [] \<longrightarrow>
            code resp = 201)
     \<and> (\<forall>dt usr sl doc hosp err.
            validateAppointmentData env body = Inr dt
            \<and> findById user_id uid (users d) = Some usr
            \<and> find (requested_slot env body) (slots d) = Some sl
            \<and> findById doctor_id (the (cast_oid (the (req_doctorId body)))) (doctors d) = Some doc
            \<and> findById hospital_id (the (cast_oid (the (req_hospitalId body)))) (hospitals d) = Some hosp
            \<and> throws st User_findById = None \<and> throws st AppointmentSlot_findOne = None
            \<and> throws st Doctor_findById = None \<and> throws st Hospital_findById = None
            \<and> slot_save_error st (book_slot uid sl) = None
            \<and> user_save_error st
                  (usr\<lparr>appointments := appointments usr
                           @ [newAppointment now new_id body
                                (startOfDay env (the (parseDate env (the (req_appointmentDate body)))))
                                doc hosp sl]\<rparr>) = Some err \<longrightarrow>
            resp = Resp 500 (''Internal server error: '' @ err) None
            \<and> d' = d\<lparr>slots := save_slot (slot_id sl) uid (slots d)\<rparr>)"
proof -
  from assms have answer: "fst (addAppointment env st now new_id d uid body) = resp"
    and after: "snd (addAppointment env st now new_id d uid body) = d'"
    by simp_all
  have codes: "code resp \<in> {201, 400, 404, 500}"
    using addAppointment_not_201 [of env st now new_id d uid body] answer by auto
  have created: "\<exists>dt usr sl doc hosp appt.
               validateAppointmentData env body = Inr dt
               \<and> findById user_id uid (users d) = Some usr
               \<and> findById doctor_id (the (cast_oid (the (req_doctorId body)))) (doctors d) = Some doc
               \<and> findById hospital_id (the (cast_oid (the (req_hospitalId body)))) (hospitals d) = Some hosp
               \<and> find (requested_slot env body) (slots d) = Some sl
               \<and> payload resp = Some appt
               \<and> appt_id appt = new_id \<and> status appt = Confirmed \<and> slotId appt = Some (slot_id sl)
               \<and> findById user_id uid (users d') = Some (usr\<lparr>appointments := appointments usr @ [appt]\<rparr>)
               \<and> (\<forall>v. v \<noteq> uid \<longrightarrow> findById user_id v (users d') = findById user_id v (users d))
               \<and> (distinct (map slot_id (slots d)) \<longrightarrow>
                    findById slot_id (slot_id sl) (slots d')
                      = Some (sl\<lparr>isBooked := True, isAvailable := False, bookedBy := Some uid\<rparr>))
               \<and> (\<forall>t. t \<noteq> slot_id sl \<longrightarrow> findById slot_id t (slots d') = findById slot_id t (slots d))
               \<and> prescriptions d' = prescriptions d"
    if "code resp = 201"
  proof -
    from that answer have ok: "code (fst (addAppointment env st now new_id d uid body)) = 201"
      by simp
    from addAppointment_201 [OF ok] obtain dt usr sl doc hosp where
      v: "validateAppointmentData env body = Inr dt"
      and u: "findById user_id uid (users d) = Some usr"
      and s: "find (requested_slot env body) (slots d) = Some sl"
      and dc: "findById doctor_id (the (cast_oid (the (req_doctorId body)))) (doctors d) = Some doc"
      and h: "findById hospital_id (the (cast_oid (the (req_hospitalId body)))) (hospitals d) = Some hosp"
      and th: "throws st User_findById = None" "throws st AppointmentSlot_findOne = None"
        "throws st Doctor_findById = None" "throws st Hospital_findById = None"
      and sv: "slot_save_error st (book_slot uid sl) = None"
      and uv: "user_save_error st
                 (usr\<lparr>appointments := appointments usr
                          @ [newAppointment now new_id body
                               (startOfDay env (the (parseDate env (the (req_appointmentDate body)))))
                               doc hosp sl]\<rparr>) = None"
      by blast
    define appt where "appt = newAppointment now new_id body
      (startOfDay env (the (parseDate env (the (req_appointmentDate body))))) doc hosp sl"
    from uv have uv': "user_save_error st (usr\<lparr>appointments := appointments usr @ [appt]\<rparr>) = None"
      by (simp add: appt_def)
    from addAppointment_created [OF v u s dc h appt_def th sv uv'] assms
    have resp: "resp = Resp 201 ''Appointment booked successfully! It will be completed in 1 minute.'' (Some appt)"
      and d': "d' = d\<lparr>slots := save_slot (slot_id sl) uid (slots d),
                      users := save_user (usr\<lparr>appointments := appointments usr @ [appt]\<rparr>) (users d)\<rparr>"
      by simp_all
    have fields: "appt_id appt = new_id \<and> status appt = Confirmed \<and> slotId appt = Some (slot_id sl)"
      by (simp add: appt_def newAppointment_def)
    have claimed: "findById slot_id (slot_id sl) (slots d')
                     = Some (sl\<lparr>isBooked := True, isAvailable := False, bookedBy := Some uid\<rparr>)"
      if "distinct (map slot_id (slots d))"
      using save_slot_claims [OF s that, of uid] by (simp add: d' book_slot_def)
    have others: "findById slot_id t (slots d') = findById slot_id t (slots d)" if "t \<noteq> slot_id sl" for t
      using that by (simp add: d' save_slot_others)
    have presc: "prescriptions d' = prescriptions d"
      by (simp add: d')
    from v u s dc h resp fields addAppointment_ledger [OF u d'] claimed others presc
    show ?thesis
      by (intro exI [of _ dt] exI [of _ usr] exI [of _ sl] exI [of _ doc] exI [of _ hosp] exI [of _ appt]) simp
  qed
  have failed: "payload resp = None \<and> users d' = users d" if "code resp \<noteq> 201"
    using that addAppointment_not_201 [of env st now new_id d uid body] answer after by simp
  have refused: "d' = d" if "code resp \<in> {400, 404}"
    using that addAppointment_refused [of env st now new_id d uid body] answer after by simp
  have unavailable: "resp = Resp 400 ''Selected time slot is no longer available'' None \<and> d' = d"
    if "(\<exists>dt usr. validateAppointmentData env body = Inr dt
                    \<and> findById user_id uid (users d) = Some usr)
          \<and> throws st User_findById = None \<and> throws st AppointmentSlot_findOne = None
          \<and> find (requested_slot env body) (slots d) = None"
  proof -
    from that obtain dt usr where "validateAppointmentData env body = Inr dt"
      "throws st User_findById = None" "findById user_id uid (users d) = Some usr"
      "throws st AppointmentSlot_findOne = None" "find (requested_slot env body) (slots d) = None"
      by blast
    from addAppointment_slot_unavailable [OF this, of now new_id] assms show ?thesis
      by simp
  qed
  have failed500: "d' = d
            \<or> (\<exists>usr sl doc hosp.
                  findById user_id uid (users d) = Some usr
                  \<and> find (requested_slot env body) (slots d) = Some sl
                  \<and> findById doctor_id (the (cast_oid (the (req_doctorId body)))) (doctors d) = Some doc
                  \<and> findById hospital_id (the (cast_oid (the (req_hospitalId body)))) (hospitals d) = Some hosp
                  \<and> slot_save_error st (book_slot uid sl) = None
                  \<and> user_save_error st
                        (usr\<lparr>appointments := appointments usr
                                 @ [newAppointment now new_id body
                                      (startOfDay env (the (parseDate env (the (req_appointmentDate body)))))
                                      doc hosp sl]\<rparr>) \<noteq> None
                  \<and> d' = d\<lparr>slots := save_slot (slot_id sl) uid (slots d)\<rparr>)"
    if "code resp = 500"
  proof -
    from that answer have "code (fst (addAppointment env st now new_id d uid body)) = 500"
      by simp
    from addAppointment_500 [OF this] show ?thesis
      unfolding after .
  qed
  have booked: "code resp = 201"
    if "validateAppointmentData env body = Inr dt
            \<and> findById user_id uid (users d) = Some usr
            \<and> find (requested_slot env body) (slots d) = Some sl
            \<and> findById doctor_id (the (cast_oid (the (req_doctorId body)))) (doctors d) = Some doc
            \<and> findById hospital_id (the (cast_oid (the (req_hospitalId body)))) (hospitals d) = Some hosp
            \<and> none_throws st booking_operations
            \<and> slot_valid sl \<and> list_all appointment_valid (appointments usr)
            \<and> trim (hospital_name hosp) \<noteq> [] \<and> trim (specialty doc) \<noteq> []
            \<and> trim (doctor_name doc) \<noteq> []" for dt usr sl doc hosp
  proof -
    from that have "validateAppointmentData env body = Inr dt"
      "findById user_id uid (users d) = Some usr"
      "find (requested_slot env body) (slots d) = Some sl"
      "findById doctor_id (the (cast_oid (the (req_doctorId body)))) (doctors d) = Some doc"
      "findById hospital_id (the (cast_oid (the (req_hospitalId body)))) (hospitals d) = Some hosp"
      "none_throws st booking_operations" "slot_valid sl" "list_all appointment_valid (appointments usr)"
      "trim (hospital_name hosp) \<noteq> []" "trim (specialty doc) \<noteq> []" "trim (doctor_name doc) \<noteq> []"
      by simp_all
    from addAppointment_succeeds [OF this, of now new_id] answer show ?thesis
      by simp
  qed
  have partial: "resp = Resp 500 (''Internal server error: '' @ err) None
            \<and> d' = d\<lparr>slots := save_slot (slot_id sl) uid (slots d)\<rparr>"
    if "validateAppointmentData env body = Inr dt
            \<and> findById user_id uid (users d) = Some usr
            \<and> find (requested_slot env body) (slots d) = Some sl
            \<and> findById doctor_id (the (cast_oid (the (req_doctorId body)))) (doctors d) = Some doc
            \<and> findById hospital_id (the (cast_oid (the (req_hospitalId body)))) (hospitals d) = Some hosp
            \<and> throws st User_findById = None \<and> throws st AppointmentSlot_findOne = None
            \<and> throws st Doctor_findById = None \<and> throws st Hospital_findById = None
            \<and> slot_save_error st (book_slot uid sl) = None
            \<and> user_save_error st
                  (usr\<lparr>appointments := appointments usr
                           @ [newAppointment now new_id body
                                (startOfDay env (the (parseDate env (the (req_appointmentDate body)))))
                                doc hosp sl]\<rparr>) = Some err" for dt usr sl doc hosp err
  proof -
    from that have "validateAppointmentData env body = Inr dt"
      "findById user_id uid (users d) = Some usr"
      "find (requested_slot env body) (slots d) = Some sl"
      "findById doctor_id (the (cast_oid (the (req_doctorId body)))) (doctors d) = Some doc"
      "findById hospital_id (the (cast_oid (the (req_hospitalId body)))) (hospitals d) = Some hosp"
      "newAppointment now new_id body
         (startOfDay env (the (parseDate env (the (req_appointmentDate body))))) doc hosp sl
       = newAppointment now new_id body
           (startOfDay env (the (parseDate env (the (req_appointmentDate body))))) doc hosp sl"
      "throws st User_findById = None" "throws st AppointmentSlot_findOne = None"
      "throws st Doctor_findById = None" "throws st Hospital_findById = None"
      "slot_save_error st (book_slot uid sl) = None"
      "user_save_error st
                  (usr\<lparr>appointments := appointments usr
                           @ [newAppointment now new_id body
                                (startOfDay env (the (parseDate env (the (req_appointmentDate body)))))
                                doc hosp sl]\<rparr>) = Some err"
      by simp_all
    from addAppointment_ledger_fails [OF this] assms show ?thesis
      by (simp add: caught_def)
  qed
  show ?thesis
    apply (intro conjI impI allI)
    subgoal by (rule codes)
    subgoal by (rule created)
    subgoal using failed by blast
    subgoal using failed by blast
    subgoal by (rule refused)
    subgoal using unavailable by blast
    subgoal using unavailable by blast
    subgoal by (rule failed500)
    subgoal for dt usr sl doc hosp by (rule booked)
    subgoal for dt usr sl doc hosp err using partial [of dt usr sl doc hosp err] by blast
    subgoal for dt usr sl doc hosp err using partial [of dt usr sl doc hosp err] by blast
    done
qed

theorem booking_by_answer_witness:
  "addAppointment example_env example_storage 5 96 example_db 16 example_request =
     (Resp 201 ''Appointment booked successfully! It will be completed in 1 minute.''
        (Some example_appointment), example_booked_db)
   \<and> (\<exists>usr. findById user_id 16 (users example_booked_db)
               = Some (usr\<lparr>appointments := appointments usr @ [example_appointment]\<rparr>))
   \<and> findById slot_id 80 (slots example_booked_db)
       = Some (example_slot\<lparr>isBooked := True, isAvailable := False, bookedBy := Some 16\<rparr>)
   \<and> addAppointment example_env example_storage 6 97 example_booked_db 17 example_request =
       (Resp 400 ''Selected time slot is no longer available'' None, example_booked_db)
   \<and> addAppointment example_env example_storage 5 96 example_blank_db 16 example_request =
       (Resp 500 ''Internal server error: User validation failed'' None,
        example_blank_db\<lparr>slots := [example_slot\<lparr>isBooked := True, isAvailable := False,
                                                 bookedBy := Some 16\<rparr>]\<rparr>)"
proof -
  let ?fresh_user = "\<lparr>user_id = 16, appointments = []\<rparr>"
  let ?doc = "\<lparr>doctor_id = 2, doctor_name = ''Dr. Daniel Harris'',
                specialty = ''Cardiology'', doctor_hospital = 1, appointmentDuration = 30\<rparr>"
  let ?blank = "\<lparr>doctor_id = 2, doctor_name = ''Dr. Daniel Harris'',
                  specialty = [], doctor_hospital = 1, appointmentDuration = 30\<rparr>"
  let ?hosp = "\<lparr>hospital_id = 1, hospital_name = ''City General'', hospital_location = ''Springfield''\<rparr>"
  let ?first = "addAppointment example_env example_storage 5 96 example_db 16 example_request"
  have ids: "distinct (map slot_id (slots example_db))"
    by (simp add: example_db_def)
  have sl: "find (requested_slot example_env example_request) (slots example_db) = Some example_slot"
    by (simp add: example_simps)
  have run: "?first = (fst ?first, snd ?first)"
    by simp
  note T = booking_by_answer [OF run]
  have pre: "validateAppointmentData example_env example_request = Inr 1735117200000
            \<and> findById user_id 16 (users example_db) = Some ?fresh_user
            \<and> find (requested_slot example_env example_request) (slots example_db) = Some example_slot
            \<and> findById doctor_id (the (cast_oid (the (req_doctorId example_request)))) (doctors example_db)
                = Some ?doc
            \<and> findById hospital_id (the (cast_oid (the (req_hospitalId example_request)))) (hospitals example_db)
                = Some ?hosp
            \<and> none_throws example_storage booking_operations
            \<and> slot_valid example_slot \<and> list_all appointment_valid (appointments ?fresh_user)
            \<and> trim (hospital_name ?hosp) \<noteq> [] \<and> trim (specialty ?doc) \<noteq> []
            \<and> trim (doctor_name ?doc) \<noteq> []"
    by (simp add: example_simps none_throws_def booking_operations_def)
  note positive = T [THEN conjunct2, THEN conjunct2, THEN conjunct2, THEN conjunct2, THEN conjunct2,
      THEN conjunct2, THEN conjunct1, rule_format, OF pre]
  from T [THEN conjunct2, THEN conjunct1] positive obtain usr sl' appt where
    got: "find (requested_slot example_env example_request) (slots example_db) = Some sl'"
      "payload (fst ?first) = Some appt"
      "findById user_id 16 (users (snd ?first)) = Some (usr\<lparr>appointments := appointments usr @ [appt]\<rparr>)"
      "distinct (map slot_id (slots example_db)) \<longrightarrow>
         findById slot_id (slot_id sl') (slots (snd ?first))
           = Some (sl'\<lparr>isBooked := True, isAvailable := False, bookedBy := Some 16\<rparr>)"
    by blast
  from got ids sl example_booking
  have first: "(\<exists>usr. findById user_id 16 (users example_booked_db)
               = Some (usr\<lparr>appointments := appointments usr @ [example_appointment]\<rparr>))
     \<and> findById slot_id 80 (slots example_booked_db)
       = Some (example_slot\<lparr>isBooked := True, isAvailable := False, bookedBy := Some 16\<rparr>)"
    by (auto simp: example_slot_def)
  let ?second = "addAppointment example_env example_storage 6 97 example_booked_db 17 example_request"
  have usr: "findById user_id 17 (users example_booked_db) = Some \<lparr>user_id = 17, appointments = []\<rparr>"
    by (simp add: example_simps)
  have quiet: "throws example_storage User_findById = None"
    "throws example_storage AppointmentSlot_findOne = None"
    "throws example_storage Doctor_findById = None" "throws example_storage Hospital_findById = None"
    by (simp_all add: example_storage_def)
  have "?second = (fst ?second, snd ?second)"
    by simp
  from booking_by_answer [OF this, THEN conjunct2, THEN conjunct2, THEN conjunct2, THEN conjunct2,
      THEN conjunct1]
    example_validation usr example_second_booking quiet
  have second: "?second = (Resp 400 ''Selected time slot is no longer available'' None, example_booked_db)"
    by (simp add: prod_eq_iff)
  let ?third = "addAppointment example_env example_storage 5 96 example_blank_db 16 example_request"
  have bad: "validateAppointmentData example_env example_request = Inr 1735117200000
            \<and> findById user_id 16 (users example_blank_db) = Some ?fresh_user
            \<and> find (requested_slot example_env example_request) (slots example_blank_db) = Some example_slot
            \<and> findById doctor_id (the (cast_oid (the (req_doctorId example_request)))) (doctors example_blank_db)
                = Some ?blank
            \<and> findById hospital_id (the (cast_oid (the (req_hospitalId example_request))))
                  (hospitals example_blank_db) = Some ?hosp
            \<and> throws example_storage User_findById = None
            \<and> throws example_storage AppointmentSlot_findOne = None
            \<and> throws example_storage Doctor_findById = None
            \<and> throws example_storage Hospital_findById = None
            \<and> slot_save_error example_storage (book_slot 16 example_slot) = None
            \<and> user_save_error example_storage
                  (?fresh_user\<lparr>appointments := appointments ?fresh_user
                           @ [newAppointment 5 96 example_request
                                (startOfDay example_env
                                   (the (parseDate example_env (the (req_appointmentDate example_request)))))
                                ?blank ?hosp example_slot]\<rparr>) = Some ''User validation failed''"
    by (simp add: example_simps)
  have "?third = (fst ?third, snd ?third)"
    by simp
  from booking_by_answer [OF this, THEN conjunct2, THEN conjunct2, THEN conjunct2, THEN conjunct2,
      THEN conjunct2, THEN conjunct2, THEN conjunct2, rule_format, OF bad]
  have third: "?third =
       (Resp 500 ''Internal server error: User validation failed'' None,
        example_blank_db\<lparr>slots := [example_slot\<lparr>isBooked := True, isAvailable := False,
                                                 bookedBy := Some 16\<rparr>]\<rparr>)"
    by (simp add: prod_eq_iff example_simps)
  from example_booking first second third show ?thesis
    by blast
qed

text \<open>
  C7 as stated fails: a cancellation of a confirmed appointment can release the slot and
  leave the appointment confirmed. Here \<open>user.save()\<close> throws after
  \<open>findByIdAndUpdate\<close> has written the slot: the request is answered 500, the slot is
  free, and the appointment is still confirmed in the ledger.
\<close>

theorem cancel_partial_counterexample:
  "code (fst (cancelAppointment example_failing_storage example_booked_db 16 ''000000000000000000000060''))
     = 500
   \<and> slots (snd (cancelAppointment example_failing_storage example_booked_db 16
                    ''000000000000000000000060'')) = [example_slot]
   \<and> map (map status \<circ> appointments)
         (users (snd (cancelAppointment example_failing_storage example_booked_db 16
                        ''000000000000000000000060''))) = [[Confirmed], []]"
  by (simp add: example_simps)

text \<open>
  C7, amended. For an existing user and a well-formed appointment identifier, cancelling
  answers 404 "Appointment not found" when the ledger has no such appointment and 400
  "Appointment is already cancelled" when its status is cancelled, in both cases as an
  error that leaves the database unchanged; if the lookup of the user throws, the answer
  is 500 and nothing has changed. Otherwise it first releases the referenced slot and
  then saves the ledger. If the release throws, the answer is 500 and nothing
  has changed. If it does not, the referenced slot is written back to unbooked, available
  and unclaimed (nothing happens to the slots when the appointment has no \<open>slotId\<close> or
  the slot is gone) and the other users are left alone; then, when the ledger fits the
  schema and its save does not throw, the answer is 200 and the status of that
  appointment is cancelled, with the other appointments left alone; and when the save of
  the ledger fails, the answer is 500 and the ledger is as before, with the slot already
  released. Booking a slot and then cancelling the new appointment, with no operation of
  the cancellation throwing, is answered 200 and leaves that slot free and matching the
  same request again.
\<close>

theorem cancel_errors_and_release:
  "(cast_oid aid' = Some aid \<and> throws st User_findById = None
      \<and> findById user_id uid (users d) = Some usr
      \<and> cancelAppointment st d uid aid' = (resp, d') \<longrightarrow>
      (findById appt_id aid (appointments usr) = None \<longrightarrow>
         resp = Resp 404 ''Appointment not found'' None \<and> d' = d)
      \<and> (\<forall>appt. findById appt_id aid (appointments usr) = Some appt \<longrightarrow>
            (status appt = Cancelled \<longrightarrow>
               resp = Resp 400 ''Appointment is already cancelled'' None \<and> d' = d)
            \<and> (status appt \<noteq> Cancelled \<longrightarrow>
                 (slotId appt \<noteq> None \<and> throws st AppointmentSlot_findByIdAndUpdate \<noteq> None \<longrightarrow>
                    resp = Resp 500 ''Internal server error'' None \<and> d' = d)
                 \<and> (slotId appt = None \<or> throws st AppointmentSlot_findByIdAndUpdate = None \<longrightarrow>
                      (case slotId appt of
                         None \<Rightarrow> slots d' = slots d
                       | Some sid \<Rightarrow>
                           (\<forall>sl. findById slot_id sid (slots d) = Some sl \<longrightarrow>
                                 findById slot_id sid (slots d')
                                   = Some (sl\<lparr>isBooked := False, isAvailable := True, bookedBy := None\<rparr>))
                           \<and> (findById slot_id sid (slots d) = None \<longrightarrow> slots d' = slots d)
                           \<and> (\<forall>t. t \<noteq> sid \<longrightarrow>
                                 findById slot_id t (slots d') = findById slot_id t (slots d)))
                      \<and> (\<forall>v. v \<noteq> uid \<longrightarrow> findById user_id v (users d') = findById user_id v (users d))
                      \<and> (list_all appointment_valid (appointments usr) \<and> throws st User_save = None \<longrightarrow>
                           code resp = 200
                           \<and> (\<exists>usr'. findById user_id uid (users d') = Some usr'
                                 \<and> findById appt_id aid (appointments usr')
                                     = Some (appt\<lparr>status := Cancelled\<rparr>)
                                 \<and> (\<forall>b. b \<noteq> aid \<longrightarrow>
                                       findById appt_id b (appointments usr')
                                         = findById appt_id b (appointments usr))))
                      \<and> (\<not> list_all appointment_valid (appointments usr) \<or> throws st User_save \<noteq> None \<longrightarrow>
                           resp = Resp 500 ''Internal server error'' None \<and> users d' = users d)))))
   \<and> (addAppointment env st_book now new_id d uid body = (answer_book, d_booked)
        \<and> code answer_book = 201
        \<and> findById user_id uid (users d) = Some usr
        \<and> new_id \<notin> appt_id ` set (appointments usr)
        \<and> distinct (map slot_id (slots d))
        \<and> cast_oid new_id' = Some new_id
        \<and> none_throws st_cancel cancelling_operations
        \<and> cancelAppointment st_cancel d_booked uid new_id' = (answer_cancel, d_cancelled) \<longrightarrow>
        code answer_cancel = 200
        \<and> (\<exists>sl sl'. find (requested_slot env body) (slots d) = Some sl
              \<and> findById slot_id (slot_id sl) (slots d_cancelled) = Some sl'
              \<and> slot_free sl' \<and> requested_slot env body sl'))
   \<and> (cast_oid aid' = Some aid \<and> throws st User_findById \<noteq> None
        \<and> cancelAppointment st d uid aid' = (resp, d') \<longrightarrow>
        resp = Resp 500 ''Internal server error'' None \<and> d' = d)"
proof -
  have lost: "resp = Resp 500 ''Internal server error'' None \<and> d' = d"
    if "cast_oid aid' = Some aid" "throws st User_findById \<noteq> None"
      "cancelAppointment st d uid aid' = (resp, d')"
    using that cancelAppointment_lookup_fails [of aid' aid st d uid] by simp
  have absent: "resp = Resp 404 ''Appointment not found'' None \<and> d' = d"
    if "cast_oid aid' = Some aid" "throws st User_findById = None"
      "findById user_id uid (users d) = Some usr" "cancelAppointment st d uid aid' = (resp, d')"
      "findById appt_id aid (appointments usr) = None"
    using that cancelAppointment_not_found [of aid' aid st uid d usr] by simp
  have already: "resp = Resp 400 ''Appointment is already cancelled'' None \<and> d' = d"
    if "cast_oid aid' = Some aid" "throws st User_findById = None"
      "findById user_id uid (users d) = Some usr" "cancelAppointment st d uid aid' = (resp, d')"
      "findById appt_id aid (appointments usr) = Some appt" "status appt = Cancelled" for appt
    using that cancelAppointment_already [of aid' aid st uid d usr appt] by simp
  have stuck: "resp = Resp 500 ''Internal server error'' None \<and> d' = d"
    if "cast_oid aid' = Some aid" "throws st User_findById = None"
      "findById user_id uid (users d) = Some usr" "cancelAppointment st d uid aid' = (resp, d')"
      "findById appt_id aid (appointments usr) = Some appt" "status appt \<noteq> Cancelled"
      "slotId appt \<noteq> None \<and> throws st AppointmentSlot_findByIdAndUpdate \<noteq> None" for appt
  proof -
    from that(7) obtain sid err where "slotId appt = Some sid"
      "throws st AppointmentSlot_findByIdAndUpdate = Some err"
      by auto
    from cancelAppointment_release_fails [OF that(1,2,3,5,6) this] that(4) show ?thesis
      by simp
  qed
  have released: "slots d' = (case slotId appt of None \<Rightarrow> slots d | Some sid \<Rightarrow> release_slot sid (slots d))
      \<and> (\<forall>v. v \<noteq> uid \<longrightarrow> findById user_id v (users d') = findById user_id v (users d))
      \<and> (list_all appointment_valid (appointments usr) \<and> throws st User_save = None \<longrightarrow>
           code resp = 200
           \<and> (\<exists>usr'. findById user_id uid (users d') = Some usr'
                 \<and> findById appt_id aid (appointments usr') = Some (appt\<lparr>status := Cancelled\<rparr>)
                 \<and> (\<forall>b. b \<noteq> aid \<longrightarrow>
                       findById appt_id b (appointments usr') = findById appt_id b (appointments usr))))
      \<and> (\<not> list_all appointment_valid (appointments usr) \<or> throws st User_save \<noteq> None \<longrightarrow>
           resp = Resp 500 ''Internal server error'' None \<and> users d' = users d)"
    if "cast_oid aid' = Some aid" "throws st User_findById = None"
      "findById user_id uid (users d) = Some usr" "cancelAppointment st d uid aid' = (resp, d')"
      "findById appt_id aid (appointments usr) = Some appt" "status appt \<noteq> Cancelled"
      "slotId appt = None \<or> throws st AppointmentSlot_findByIdAndUpdate = None" for appt
  proof (cases "list_all appointment_valid (appointments usr) \<and> throws st User_save = None")
    case True
    then have "user_save_error st
               (usr\<lparr>appointments :=
                      update_first (\<lambda>a. appt_id a = aid) (\<lambda>a. a\<lparr>status := Cancelled\<rparr>)
                        (appointments usr)\<rparr>) = None"
      by (simp only: user_save_error_cancelled)
    from cancelAppointment_effect [OF that(1,2,3,5,6,7) this that(4)] True show ?thesis
      by simp
  next
    case False
    then have bad: "\<not> list_all appointment_valid (appointments usr) \<or> throws st User_save \<noteq> None"
      by simp
    from cancelAppointment_partial [OF that(1,2,3,5,6,7) bad that(4)] False show ?thesis
      by simp
  qed
  have slots_released: "case slotId appt of
                         None \<Rightarrow> slots d' = slots d
                       | Some sid \<Rightarrow>
                           (\<forall>sl. findById slot_id sid (slots d) = Some sl \<longrightarrow>
                                 findById slot_id sid (slots d')
                                   = Some (sl\<lparr>isBooked := False, isAvailable := True, bookedBy := None\<rparr>))
                           \<and> (findById slot_id sid (slots d) = None \<longrightarrow> slots d' = slots d)
                           \<and> (\<forall>t. t \<noteq> sid \<longrightarrow>
                                 findById slot_id t (slots d') = findById slot_id t (slots d))"
    if "cast_oid aid' = Some aid" "throws st User_findById = None"
      "findById user_id uid (users d) = Some usr" "cancelAppointment st d uid aid' = (resp, d')"
      "findById appt_id aid (appointments usr) = Some appt" "status appt \<noteq> Cancelled"
      "slotId appt = None \<or> throws st AppointmentSlot_findByIdAndUpdate = None" for appt
    by (rule released_slots) (rule released [OF that, THEN conjunct1])
  show ?thesis
    apply (intro conjI impI allI; (elim conjE)?)
    subgoal using absent by blast
    subgoal using absent by blast
    subgoal for appt using already [of appt] by blast
    subgoal for appt using already [of appt] by blast
    subgoal for appt using stuck [of appt] by blast
    subgoal for appt using stuck [of appt] by blast
    subgoal for appt by (rule slots_released)
    subgoal for appt v using released [of appt] by blast
    subgoal for appt using released [of appt] by blast
    subgoal for appt using released [of appt] by blast
    subgoal for appt using released [of appt] by blast
    subgoal for appt using released [of appt] by blast
    subgoal using book_then_cancel [of env st_book now new_id d uid body answer_book d_booked usr
          new_id' st_cancel answer_cancel d_cancelled] by blast
    subgoal using book_then_cancel [of env st_book now new_id d uid body answer_book d_booked usr
          new_id' st_cancel answer_cancel d_cancelled] by blast
    subgoal using lost by blast
    subgoal using lost by blast
    done
qed

theorem cancel_errors_and_release_witness:
  "cancelAppointment example_storage example_booked_db 16 ''000000000000000000000060'' =
     (Resp 200 ''Appointment cancelled successfully'' None, example_cancelled_db)
   \<and> cancelAppointment example_storage example_cancelled_db 16 ''000000000000000000000060'' =
       (Resp 400 ''Appointment is already cancelled'' None, example_cancelled_db)
   \<and> cancelAppointment example_storage example_booked_db 16 ''000000000000000000000061'' =
       (Resp 404 ''Appointment not found'' None, example_booked_db)
   \<and> (\<exists>sl'. findById slot_id 80 (slots example_cancelled_db) = Some sl' \<and> slot_free sl')
   \<and> fst (cancelAppointment example_failing_storage example_booked_db 16 ''000000000000000000000060'')
       = Resp 500 ''Internal server error'' None
   \<and> users (snd (cancelAppointment example_failing_storage example_booked_db 16
                    ''000000000000000000000060'')) = users example_booked_db"
proof -
  let ?u = "\<lparr>user_id = 16, appointments = [example_appointment]\<rparr>"
  let ?u' = "\<lparr>user_id = 16, appointments = [example_appointment\<lparr>status := Cancelled\<rparr>]\<rparr>"
  let ?fresh_user = "\<lparr>user_id = 16, appointments = []\<rparr>"
  have u: "findById user_id 16 (users example_booked_db) = Some ?u"
    by (simp add: example_simps)
  have u': "findById user_id 16 (users example_cancelled_db) = Some ?u'"
    by (simp add: example_simps)
  have absent: "findById appt_id 97 (appointments ?u) = None"
    by (simp add: example_simps)
  have present: "findById appt_id 96 (appointments ?u') = Some (example_appointment\<lparr>status := Cancelled\<rparr>)"
    by (simp add: example_simps)
  have confirmed: "findById appt_id 96 (appointments ?u) = Some example_appointment"
    by (simp add: example_simps)
  have quiet: "throws example_storage User_findById = None"
    by (simp add: example_storage_def)
  have sl: "find (requested_slot example_env example_request) (slots example_db) = Some example_slot"
    by (simp add: example_simps)
  let ?again = "cancelAppointment example_storage example_cancelled_db 16 ''000000000000000000000060''"
  have "cast_oid ''000000000000000000000060'' = Some 96 \<and> throws example_storage User_findById = None
      \<and> findById user_id 16 (users example_cancelled_db) = Some ?u' \<and> ?again = (fst ?again, snd ?again)"
    using example_cast u' quiet by simp
  from cancel_errors_and_release [THEN conjunct1, THEN mp, OF this, THEN conjunct2, THEN spec, THEN mp,
      OF present, THEN conjunct1]
  have again: "?again = (Resp 400 ''Appointment is already cancelled'' None, example_cancelled_db)"
    by (simp add: prod_eq_iff)
  let ?missing = "cancelAppointment example_storage example_booked_db 16 ''000000000000000000000061''"
  have "cast_oid ''000000000000000000000061'' = Some 97 \<and> throws example_storage User_findById = None
      \<and> findById user_id 16 (users example_booked_db) = Some ?u \<and> ?missing = (fst ?missing, snd ?missing)"
    using example_cast u quiet by simp
  from cancel_errors_and_release [THEN conjunct1, THEN mp, OF this, THEN conjunct1] absent
  have missing: "?missing = (Resp 404 ''Appointment not found'' None, example_booked_db)"
    by (simp add: prod_eq_iff)
  let ?failing = "cancelAppointment example_failing_storage example_booked_db 16 ''000000000000000000000060''"
  have "cast_oid ''000000000000000000000060'' = Some 96
      \<and> throws example_failing_storage User_findById = None
      \<and> findById user_id 16 (users example_booked_db) = Some ?u \<and> ?failing = (fst ?failing, snd ?failing)"
    using example_cast u by (simp add: example_failing_storage_def example_storage_def)
  note F = cancel_errors_and_release [THEN conjunct1, THEN mp, OF this, THEN conjunct2, THEN spec, THEN mp,
      OF confirmed, THEN conjunct2]
  have live: "status example_appointment \<noteq> Cancelled"
    and rel: "slotId example_appointment = None
              \<or> throws example_failing_storage AppointmentSlot_findByIdAndUpdate = None"
    and bad: "\<not> list_all appointment_valid (appointments ?u)
              \<or> throws example_failing_storage User_save \<noteq> None"
    by (simp_all add: example_appointment_def example_failing_storage_def example_storage_def)
  from F [THEN mp, OF live, THEN conjunct2, THEN mp, OF rel, THEN conjunct2, THEN conjunct2,
      THEN conjunct2, THEN mp, OF bad]
  have failing: "fst ?failing = Resp 500 ''Internal server error'' None
                 \<and> users (snd ?failing) = users example_booked_db"
    by simp
  let ?created = "Resp 201 ''Appointment booked successfully! It will be completed in 1 minute.''
                    (Some example_appointment)"
  let ?cancelled = "Resp 200 ''Appointment cancelled successfully'' None :: unit response"
  have pre: "addAppointment example_env example_storage 5 96 example_db 16 example_request
               = (?created, example_booked_db)
        \<and> code ?created = 201
        \<and> findById user_id 16 (users example_db) = Some ?fresh_user
        \<and> 96 \<notin> appt_id ` set (appointments ?fresh_user)
        \<and> distinct (map slot_id (slots example_db))
        \<and> cast_oid ''000000000000000000000060'' = Some 96
        \<and> none_throws example_storage cancelling_operations
        \<and> cancelAppointment example_storage example_booked_db 16 ''000000000000000000000060''
            = (?cancelled, example_cancelled_db)"
    using example_booking example_cancel example_cast
    by (simp add: example_db_def findById_def none_throws_def cancelling_operations_def example_storage_def)
  from cancel_errors_and_release [THEN conjunct2, THEN conjunct1, THEN mp, OF pre]
  obtain sl' sl'' where "find (requested_slot example_env example_request) (slots example_db) = Some sl'"
    and "findById slot_id (slot_id sl') (slots example_cancelled_db) = Some sl''" and "slot_free sl''"
    by blast
  with sl have released: "\<exists>sl'. findById slot_id 80 (slots example_cancelled_db) = Some sl' \<and> slot_free sl'"
    by (auto simp: example_slot_def)
  from example_cancel again missing released failing show ?thesis
    by blast
qed

text \<open>
  C10. An update of an appointment changes at most the status and the notes of the
  appointment it names: in the ledger of the requesting user every appointment keeps all
  its other fields, every appointment with another identifier is unchanged, and every
  other user, the slots and the prescriptions are unchanged. Fields of the body other
  than \<open>status\<close> and \<open>notes\<close> have no effect on the answer or on the database. A body
  with neither of the two is answered 400 and nothing is written. An answer 200 returns
  the appointment with the status and notes that the body gave.
\<close>

theorem update_changes_status_and_notes_only:
  assumes "updateAppointment d uid aid' updateData = (resp, d')"
  shows "ledgers_related uid
           (\<lambda>a a'. same_but_status_notes a a' \<and> (cast_oid aid' \<noteq> Some (appt_id a) \<longrightarrow> a' = a)) d d'
         \<and> slots d' = slots d \<and> prescriptions d' = prescriptions d \<and> doctors d' = doctors d
         \<and> hospitals d' = hospitals d \<and> medicines d' = medicines d
         \<and> (\<forall>other. other ''status'' = updateData ''status'' \<and> other ''notes'' = updateData ''notes''
                \<longrightarrow> updateAppointment d uid aid' other = (resp, d'))
         \<and> (updateData ''status'' = None \<and> updateData ''notes'' = None \<longrightarrow>
              code resp = 400 \<and> d' = d
              \<and> (isValid aid' \<longrightarrow> message resp = ''No valid fields to update''))
         \<and> (code resp = 200 \<longrightarrow>
              (\<exists>usr appt appt'.
                 findById user_id uid (users d) = Some usr
                 \<and> findById appt_id (the (cast_oid aid')) (appointments usr) = Some appt
                 \<and> payload resp = Some appt'
                 \<and> same_but_status_notes appt appt'
                 \<and> (case updateData ''status'' of None \<Rightarrow> status appt' = status appt
                     | Some s \<Rightarrow> parse_status s = Some (status appt'))
                 \<and> (case updateData ''notes'' of None \<Rightarrow> appt_notes appt' = appt_notes appt
                     | Some n \<Rightarrow> appt_notes appt' = Some n)))"
proof (intro conjI allI impI)
  show "ledgers_related uid
           (\<lambda>a a'. same_but_status_notes a a' \<and> (cast_oid aid' \<noteq> Some (appt_id a) \<longrightarrow> a' = a)) d d'"
    by (rule updateAppointment_ledgers [OF assms])
next
  have "slots d' = slots d \<and> prescriptions d' = prescriptions d \<and> doctors d' = doctors d
    \<and> hospitals d' = hospitals d \<and> medicines d' = medicines d"
  proof (cases "code resp = 200")
    case False
    from updateAppointment_not_200 [OF assms False] show ?thesis by simp
  next
    case True
    from updateAppointment_200 [OF assms True] obtain us where "d' = d\<lparr>users := us\<rparr>"
      by blast
    then show ?thesis by simp
  qed
  then show "slots d' = slots d" "prescriptions d' = prescriptions d" "doctors d' = doctors d"
    "hospitals d' = hospitals d" "medicines d' = medicines d"
    by simp_all
next
  fix other
  assume "other ''status'' = updateData ''status'' \<and> other ''notes'' = updateData ''notes''"
  then have same: "pick_updates other = pick_updates updateData"
    by (intro pick_updates_cong) simp_all
  have "updateAppointment d uid aid' other = updateAppointment d uid aid' (pick_updates other)"
    by (rule updateAppointment_pick)
  also have "\<dots> = updateAppointment d uid aid' (pick_updates updateData)"
    by (simp only: same)
  also have "\<dots> = updateAppointment d uid aid' updateData"
    by (rule updateAppointment_pick [symmetric])
  also note assms
  finally show "updateAppointment d uid aid' other = (resp, d')" .
next
  assume none: "updateData ''status'' = None \<and> updateData ''notes'' = None"
  from updateAppointment_none [OF assms] none
  show "code resp = 400" "d' = d"
    by simp_all
  assume "isValid aid'"
  with updateAppointment_none [OF assms] none
  show "message resp = ''No valid fields to update''"
    by simp
next
  assume ok: "code resp = 200"
  from updateAppointment_200 [OF assms ok] obtain aid usr appt appt' where
    "cast_oid aid' = Some aid" "payload resp = Some appt'"
    "findById user_id uid (users d) = Some usr" "findById appt_id aid (appointments usr) = Some appt"
    "same_but_status_notes appt appt'"
    "case updateData ''status'' of None \<Rightarrow> status appt' = status appt
            | Some s \<Rightarrow> parse_status s = Some (status appt')"
    "case updateData ''notes'' of None \<Rightarrow> appt_notes appt' = appt_notes appt
            | Some n \<Rightarrow> appt_notes appt' = Some n"
    by blast
  then show "\<exists>usr appt appt'.
                 findById user_id uid (users d) = Some usr
                 \<and> findById appt_id (the (cast_oid aid')) (appointments usr) = Some appt
                 \<and> payload resp = Some appt'
                 \<and> same_but_status_notes appt appt'
                 \<and> (case updateData ''status'' of None \<Rightarrow> status appt' = status appt
                     | Some s \<Rightarrow> parse_status s = Some (status appt'))
                 \<and> (case updateData ''notes'' of None \<Rightarrow> appt_notes appt' = appt_notes appt
                     | Some n \<Rightarrow> appt_notes appt' = Some n)"
    by (intro exI [of _ usr] exI [of _ appt] exI [of _ appt']) simp
qed

theorem update_changes_status_and_notes_only_witness:
  "updateAppointment example_booked_db 16 ''000000000000000000000060''
     [''notes'' \<mapsto> ''fasting'', ''doctorName'' \<mapsto> ''Dr. Nobody''] =
     (Resp 200 ''Appointment updated successfully''
        (Some (example_appointment\<lparr>appt_notes := Some ''fasting''\<rparr>)),
      example_booked_db
        \<lparr>users := [\<lparr>user_id = 16, appointments = [example_appointment\<lparr>appt_notes := Some ''fasting''\<rparr>]\<rparr>,
                   \<lparr>user_id = 17, appointments = []\<rparr>]\<rparr>)
   \<and> updateAppointment example_booked_db 16 ''000000000000000000000060'' [''notes'' \<mapsto> ''fasting''] =
       updateAppointment example_booked_db 16 ''000000000000000000000060''
         [''notes'' \<mapsto> ''fasting'', ''doctorName'' \<mapsto> ''Dr. Nobody'']
   \<and> code (fst (updateAppointment example_booked_db 16 ''000000000000000000000060''
                   [''doctorName'' \<mapsto> ''Dr. Nobody''])) = 400
   \<and> snd (updateAppointment example_booked_db 16 ''000000000000000000000060''
                   [''doctorName'' \<mapsto> ''Dr. Nobody'']) = example_booked_db"
proof -
  let ?both = "[''notes'' \<mapsto> ''fasting'', ''doctorName'' \<mapsto> ''Dr. Nobody'']"
  let ?notes = "[''notes'' \<mapsto> ''fasting'']"
  let ?name = "[''doctorName'' \<mapsto> ''Dr. Nobody'']"
  let ?resp = "Resp 200 ''Appointment updated successfully''
        (Some (example_appointment\<lparr>appt_notes := Some ''fasting''\<rparr>))"
  let ?d' = "example_booked_db
        \<lparr>users := [\<lparr>user_id = 16, appointments = [example_appointment\<lparr>appt_notes := Some ''fasting''\<rparr>]\<rparr>,
                   \<lparr>user_id = 17, appointments = []\<rparr>]\<rparr>"
  have run: "updateAppointment example_booked_db 16 ''000000000000000000000060'' ?both = (?resp, ?d')"
    by (simp add: updateAppointment_def example_cast pick_updates_def allowedUpdates_def Let_def
        assign_notes_def example_booked_db_def findById_def save_user_def example_appointment_def)
  have keys: "?notes ''status'' = ?both ''status'' \<and> ?notes ''notes'' = ?both ''notes''"
    by simp
  from update_changes_status_and_notes_only [OF run]
  have "\<forall>other. other ''status'' = ?both ''status'' \<and> other ''notes'' = ?both ''notes''
          \<longrightarrow> updateAppointment example_booked_db 16 ''000000000000000000000060'' other = (?resp, ?d')"
    by (elim conjE)
  with keys have ignored: "updateAppointment example_booked_db 16 ''000000000000000000000060'' ?notes = (?resp, ?d')"
    by blast
  have none: "?name ''status'' = None \<and> ?name ''notes'' = None"
    by simp
  let ?r = "updateAppointment example_booked_db 16 ''000000000000000000000060'' ?name"
  have "?r = (fst ?r, snd ?r)"
    by simp
  from update_changes_status_and_notes_only [OF this]
  have "?name ''status'' = None \<and> ?name ''notes'' = None \<longrightarrow>
          code (fst ?r) = 400 \<and> snd ?r = example_booked_db
          \<and> (isValid ''000000000000000000000060'' \<longrightarrow> message (fst ?r) = ''No valid fields to update'')"
    by (elim conjE)
  with none have refused: "code (fst ?r) = 400 \<and> snd ?r = example_booked_db"
    by blast
  from run ignored refused show ?thesis
    by (simp only: simp_thms)
qed




text \<open>
  C8 as stated fails: when saving the first patient's ledger fails, the sweep throws and
  the second patient's confirmed appointment is not processed.
\<close>

theorem sweep_abort_counterexample:
  "fst (expireAppointments example_failing_env example_sweep_db) = Inl StorageError
   \<and> users (snd (expireAppointments example_failing_env example_sweep_db))
       = [\<lparr>user_id = 16, appointments = [example_appointment]\<rparr>,
          \<lparr>user_id = 17, appointments = [example_second_appointment]\<rparr>]
   \<and> status example_second_appointment = Confirmed"
  by (simp add: sweep_simps)

text \<open>
  C8, amended. A failed prescription generation never stops a sweep: when every save of a
  ledger succeeds the sweep returns normally and has swept the ledger of every patient.
  A storage failure saving one patient's ledger aborts the run: the sweep throws the
  error to its caller, the patients before that one in the order of the query have been
  swept and saved, and that patient and every patient after keep their stored ledgers
  unchanged.
\<close>

theorem sweep_stops_at_failed_save:
  assumes "distinct (map user_id (users d))" and "expireAppointments E d = (res, d')"
  shows "((\<forall>u\<in>set (users d). has_confirmed u \<longrightarrow> save_ok E (user_id u)) \<longrightarrow>
            (\<exists>n. res = Inr n) \<and> (\<forall>u\<in>set (users d). ledger_swept d' u))
     \<and> (\<forall>pre u post.
           filter has_confirmed (users d) = pre @ u # post
           \<and> (\<forall>v\<in>set pre. save_ok E (user_id v)) \<and> \<not> save_ok E (user_id u) \<longrightarrow>
           res = Inl StorageError
           \<and> (\<forall>v\<in>set pre. ledger_swept d' v)
           \<and> (\<forall>v\<in>set (u # post). ledger_untouched d d' v))"
proof (intro conjI allI impI)
  assume ok: "\<forall>u\<in>set (users d). has_confirmed u \<longrightarrow> save_ok E (user_id u)"
  from expireAppointments_ok [OF assms(1) ok assms(2)]
  show "\<exists>n. res = Inr n" and "\<forall>u\<in>set (users d). ledger_swept d' u"
    by simp_all
next
  fix pre u post
  assume "filter has_confirmed (users d) = pre @ u # post
           \<and> (\<forall>v\<in>set pre. save_ok E (user_id v)) \<and> \<not> save_ok E (user_id u)"
  then have split: "filter has_confirmed (users d) = pre @ u # post"
    and ok: "\<forall>v\<in>set pre. save_ok E (user_id v)" and fail: "\<not> save_ok E (user_id u)"
    by simp_all
  from expireAppointments_save_fails [OF assms(1) split ok fail assms(2)]
  show "res = Inl StorageError" and "\<forall>v\<in>set pre. ledger_swept d' v"
    and "\<forall>v\<in>set (u # post). ledger_untouched d d' v"
    by simp_all
qed

theorem sweep_stops_at_failed_save_witness:
  "fst (expireAppointments example_failing_env example_sweep_db) = Inl StorageError
   \<and> ledger_untouched example_sweep_db (snd (expireAppointments example_failing_env example_sweep_db))
       \<lparr>user_id = 17, appointments = [example_second_appointment]\<rparr>
   \<and> (\<exists>n. fst (expireAppointments example_sweep_env example_sweep_db) = Inr n)
   \<and> ledger_swept (snd (expireAppointments example_sweep_env example_sweep_db))
       \<lparr>user_id = 17, appointments = [example_second_appointment]\<rparr>"
proof -
  let ?u = "\<lparr>user_id = 16, appointments = [example_appointment]\<rparr>"
  let ?v = "\<lparr>user_id = 17, appointments = [example_second_appointment]\<rparr>"
  let ?bad = "expireAppointments example_failing_env example_sweep_db"
  let ?good = "expireAppointments example_sweep_env example_sweep_db"
  have dist: "distinct (map user_id (users example_sweep_db))"
    by (simp add: example_sweep_db_def)
  have us: "users example_sweep_db = [?u, ?v]"
    by (simp add: example_sweep_db_def)
  have split: "filter has_confirmed (users example_sweep_db) = [] @ ?u # [?v]"
    by (simp add: us has_confirmed_def example_appointment_def example_second_appointment_def)
  have fail: "(\<forall>w\<in>set []. save_ok example_failing_env (user_id w))
                \<and> \<not> save_ok example_failing_env (user_id ?u)"
    by (simp add: example_failing_env_def)
  have "?bad = (fst ?bad, snd ?bad)"
    by simp
  from sweep_stops_at_failed_save [OF dist this]
  have "\<forall>pre u post.
           filter has_confirmed (users example_sweep_db) = pre @ u # post
           \<and> (\<forall>v\<in>set pre. save_ok example_failing_env (user_id v))
           \<and> \<not> save_ok example_failing_env (user_id u) \<longrightarrow>
           fst ?bad = Inl StorageError
           \<and> (\<forall>v\<in>set pre. ledger_swept (snd ?bad) v)
           \<and> (\<forall>v\<in>set (u # post). ledger_untouched example_sweep_db (snd ?bad) v)"
    by (elim conjE)
  with split fail have bad: "fst ?bad = Inl StorageError
    \<and> (\<forall>v\<in>set (?u # [?v]). ledger_untouched example_sweep_db (snd ?bad) v)"
    by blast
  have ok: "\<forall>u\<in>set (users example_sweep_db). has_confirmed u \<longrightarrow> save_ok example_sweep_env (user_id u)"
    by (simp add: example_sweep_env_def)
  have "?good = (fst ?good, snd ?good)"
    by simp
  from sweep_stops_at_failed_save [OF dist this] ok
  have good: "(\<exists>n. fst ?good = Inr n) \<and> (\<forall>u\<in>set (users example_sweep_db). ledger_swept (snd ?good) u)"
    by blast
  from bad good us show ?thesis
    by simp
qed

text \<open>
  C6. Prescriptions are created at most once per appointment. When a prescription is
  already stored for the appointment, the service returns that prescription and the
  manual endpoint creates nothing (it answers 400 "Prescription already exists for this
  appointment" once the appointment is found eligible); in both cases the database is
  unchanged. So generating twice through the service returns the original, and
  generating twice through the endpoint fails the second time. Neither path ever leaves
  two stored prescriptions with the same \<open>appointmentId\<close>.
\<close>

theorem prescription_exactly_once:
  assumes "distinct (map appointmentId (prescriptions d))"
  shows "(find (\<lambda>q. appointmentId q = appt_id appt) (prescriptions d) = Some p \<longrightarrow>
            generatePrescription now nid rnd d appt uid = (Inr p, d))
     \<and> (generatePrescription now nid rnd d appt uid = (Inr p, d1) \<longrightarrow>
            generatePrescription now' nid' rnd' d1 appt uid' = (Inr p, d1))
     \<and> distinct (map appointmentId (prescriptions (snd (generatePrescription now nid rnd d appt uid))))
     \<and> (cast_oid aid' = Some aid \<and> find (\<lambda>q. appointmentId q = aid) (prescriptions d) = Some p \<longrightarrow>
            snd (generatePrescriptionForAppointment env now nid rnd d uid aid') = d
            \<and> code (fst (generatePrescriptionForAppointment env now nid rnd d uid aid')) \<noteq> 200
            \<and> (findById user_id uid (users d) = Some usr
                 \<and> findById appt_id aid (appointments usr) = Some a
                 \<and> (status a = Confirmed \<or> status a = Completed) \<longrightarrow>
                 generatePrescriptionForAppointment env now nid rnd d uid aid' =
                   (Resp 400 ''Prescription already exists for this appointment'' None, d)))
     \<and> (generatePrescriptionForAppointment env now nid rnd d uid aid' = (resp, d2) \<and> code resp = 200 \<longrightarrow>
            generatePrescriptionForAppointment env now' nid' rnd' d2 uid aid' =
              (Resp 400 ''Prescription already exists for this appointment'' None, d2))
     \<and> distinct (map appointmentId
           (prescriptions (snd (generatePrescriptionForAppointment env now nid rnd d uid aid'))))"
proof (intro conjI impI)
  assume "find (\<lambda>q. appointmentId q = appt_id appt) (prescriptions d) = Some p"
  then show "generatePrescription now nid rnd d appt uid = (Inr p, d)"
    by (rule generatePrescription_existing)
next
  assume "generatePrescription now nid rnd d appt uid = (Inr p, d1)"
  then have "find (\<lambda>q. appointmentId q = appt_id appt) (prescriptions d1) = Some p"
    by (rule generatePrescription_stored)
  then show "generatePrescription now' nid' rnd' d1 appt uid' = (Inr p, d1)"
    by (rule generatePrescription_existing)
next
  show "distinct (map appointmentId (prescriptions (snd (generatePrescription now nid rnd d appt uid))))"
    by (rule generatePrescription_distinct [OF assms]) (rule prod.collapse [symmetric])
next
  assume ex: "cast_oid aid' = Some aid \<and> find (\<lambda>q. appointmentId q = aid) (prescriptions d) = Some p"
  then have c: "cast_oid aid' = Some aid" and f: "find (\<lambda>q. appointmentId q = aid) (prescriptions d) = Some p"
    by simp_all
  from generate_manual_existing [OF c f]
  show "snd (generatePrescriptionForAppointment env now nid rnd d uid aid') = d"
    and "code (fst (generatePrescriptionForAppointment env now nid rnd d uid aid')) \<noteq> 200"
    by simp_all
  assume "findById user_id uid (users d) = Some usr
                 \<and> findById appt_id aid (appointments usr) = Some a
                 \<and> (status a = Confirmed \<or> status a = Completed)"
  then have "findById user_id uid (users d) = Some usr" "findById appt_id aid (appointments usr) = Some a"
    "status a = Confirmed \<or> status a = Completed"
    by simp_all
  from generate_manual_exists [OF c this f]
  show "generatePrescriptionForAppointment env now nid rnd d uid aid' =
          (Resp 400 ''Prescription already exists for this appointment'' None, d)" .
next
  assume "generatePrescriptionForAppointment env now nid rnd d uid aid' = (resp, d2) \<and> code resp = 200"
  then have "generatePrescriptionForAppointment env now nid rnd d uid aid' = (resp, d2)" "code resp = 200"
    by simp_all
  then show "generatePrescriptionForAppointment env now' nid' rnd' d2 uid aid' =
              (Resp 400 ''Prescription already exists for this appointment'' None, d2)"
    by (rule generate_manual_twice)
next
  show "distinct (map appointmentId
           (prescriptions (snd (generatePrescriptionForAppointment env now nid rnd d uid aid'))))"
    by (rule generate_manual_distinct [OF assms]) (rule prod.collapse [symmetric])
qed

theorem prescription_exactly_once_witness:
  "generatePrescription 1000 1096 example_draws example_sweep_db example_appointment 16 =
     (Inr example_prescription, example_generated_db)
   \<and> generatePrescription 2000 2096 example_draws example_generated_db example_appointment 16 =
       (Inr example_prescription, example_generated_db)
   \<and> generatePrescriptionForAppointment example_env 3000 3096 example_draws example_generated_db 16
         ''000000000000000000000060'' =
       (Resp 400 ''Prescription already exists for this appointment'' None, example_generated_db)
   \<and> distinct (map appointmentId (prescriptions example_generated_db))"
proof -
  let ?u = "\<lparr>user_id = 16, appointments = [example_appointment]\<rparr>"
  have d0: "distinct (map appointmentId (prescriptions example_sweep_db))"
    by (simp add: example_sweep_db_def example_booked_db_def example_db_def)
  note first = prescription_exactly_once [OF d0, of example_appointment example_prescription 1000 1096
        example_draws 16 example_generated_db 2000 2096 example_draws 16]
  from first [THEN conjunct2, THEN conjunct1] example_generation
  have twice: "generatePrescription 2000 2096 example_draws example_generated_db example_appointment 16 =
       (Inr example_prescription, example_generated_db)"
    by simp
  from first [THEN conjunct2, THEN conjunct2, THEN conjunct1] example_generation
  have d1: "distinct (map appointmentId (prescriptions example_generated_db))"
    by simp
  have c: "cast_oid ''000000000000000000000060'' = Some 96"
    by (rule example_cast)
  have f: "find (\<lambda>q. appointmentId q = 96) (prescriptions example_generated_db) = Some example_prescription"
    by (simp add: example_generated_db_def example_prescription_def)
  have u: "findById user_id 16 (users example_generated_db) = Some ?u"
    by (simp add: example_generated_db_def example_sweep_db_def findById_def)
  have a: "findById appt_id 96 (appointments ?u) = Some example_appointment"
    by (simp add: findById_def example_appointment_def)
  have st: "status example_appointment = Confirmed \<or> status example_appointment = Completed"
    by (simp add: example_appointment_def)
  note second = prescription_exactly_once [OF d1, of example_appointment example_prescription 3000 3096
        example_draws 16 example_generated_db 3000 3096 example_draws 16
        "''000000000000000000000060''" 96 example_env ?u example_appointment]
  from second [THEN conjunct2, THEN conjunct2, THEN conjunct2, THEN conjunct1] c f u a st
  have manual: "generatePrescriptionForAppointment example_env 3000 3096 example_draws example_generated_db 16
         ''000000000000000000000060'' =
       (Resp 400 ''Prescription already exists for this appointment'' None, example_generated_db)"
    by simp
  from example_generation twice manual d1 show ?thesis
    by (simp only: simp_thms)
qed

text \<open>
  C9 as stated fails for the generator that the sweep uses: whatever is drawn, its
  follow-up date is seven times 24 hours after the generation time. With the draw that
  selects 14 days, the date is not the generation time plus 14 days.
\<close>

theorem followUp_fixed_counterexample:
  "fst (generatePrescription 1000 1096 example_draws example_sweep_db example_appointment 16)
     = Inr example_prescription
   \<and> random_element (r_followUp example_draws) followUpDays = 14
   \<and> followUpDate example_prescription
       \<noteq> addDays example_env 1000 (random_element (r_followUp example_draws) followUpDays)"
proof -
  have generated: "fst (generatePrescription 1000 1096 example_draws example_sweep_db example_appointment 16)
     = Inr example_prescription"
    by (simp add: example_generation)
  have drawn: "random_element (r_followUp example_draws) followUpDays = 14"
    by (simp add: example_draws_def random_element_def random_index_def followUpDays_def)
  have "followUpDate example_prescription \<noteq> addDays example_env 1000 14"
    by (simp add: example_prescription_def example_env_def)
  with generated drawn show ?thesis
    by simp
qed

text \<open>
  C9, amended. A prescription produced by the manual endpoint has as follow-up date the
  generation time moved on by a number of calendar days drawn from 7, 14, 30, 60 and 90,
  each of which can be drawn. A prescription produced by the service that the sweep calls
  has as follow-up date the generation time plus exactly 7 days of 24 hours, with no
  draw involved.
\<close>

theorem followUp_dates:
  "(generatePrescriptionForAppointment env now nid rnd d uid aid' = (resp, d2) \<and> code resp = 200 \<longrightarrow>
      (\<exists>p. payload resp = Some p \<and> prescribedAt p = now
           \<and> followUpDate p = addDays env now (followUpDays ! (r_followUp rnd mod 5))))
   \<and> followUpDays ! (r mod 5) \<in> {7, 14, 30, 60, 90}
   \<and> (k \<in> {7, 14, 30, 60, 90} \<longrightarrow> (\<exists>r'. generateFollowUpDate env now r' = addDays env now k))
   \<and> (generatePrescription now nid rnd d appt uid = (Inr p, d1)
        \<and> find (\<lambda>q. appointmentId q = appt_id appt) (prescriptions d) = None \<longrightarrow>
        prescribedAt p = now \<and> followUpDate p = now + 7 * 24 * 60 * 60 * 1000)"
proof (intro conjI impI)
  assume "generatePrescriptionForAppointment env now nid rnd d uid aid' = (resp, d2) \<and> code resp = 200"
  then have "generatePrescriptionForAppointment env now nid rnd d uid aid' = (resp, d2)" "code resp = 200"
    by simp_all
  from generate_manual_200 [OF this] obtain p where
    "payload resp = Some p" "prescribedAt p = now"
    "followUpDate p = generateFollowUpDate env now (r_followUp rnd)"
    by blast
  then show "\<exists>p. payload resp = Some p \<and> prescribedAt p = now
           \<and> followUpDate p = addDays env now (followUpDays ! (r_followUp rnd mod 5))"
    by (auto simp: generateFollowUpDate_def random_element_def random_index_def followUpDays_def)
next
  have "r mod 5 < length followUpDays"
    by (simp add: followUpDays_def)
  then have "followUpDays ! (r mod 5) \<in> set followUpDays"
    by (rule nth_mem)
  then show "followUpDays ! (r mod 5) \<in> {7, 14, 30, 60, 90}"
    by (simp add: followUpDays_def)
next
  assume "k \<in> {7, 14, 30, 60, 90}"
  then have "k \<in> set followUpDays"
    by (simp add: followUpDays_def)
  then obtain i where i: "i < length followUpDays" "followUpDays ! i = k"
    by (auto simp: in_set_conv_nth)
  then have "generateFollowUpDate env now i = addDays env now k"
    by (simp add: generateFollowUpDate_def random_element_def random_index_def followUpDays_def)
  then show "\<exists>r'. generateFollowUpDate env now r' = addDays env now k" ..
next
  assume "generatePrescription now nid rnd d appt uid = (Inr p, d1)
        \<and> find (\<lambda>q. appointmentId q = appt_id appt) (prescriptions d) = None"
  then have run: "generatePrescription now nid rnd d appt uid = (Inr p, d1)"
    and new: "find (\<lambda>q. appointmentId q = appt_id appt) (prescriptions d) = None"
    by simp_all
  from generatePrescription_result [OF run] new
  show "prescribedAt p = now" and "followUpDate p = now + 7 * 24 * 60 * 60 * 1000"
    by simp_all
qed

theorem followUp_dates_witness:
  "code (fst (generatePrescriptionForAppointment example_env 1000 1096 example_draws example_sweep_db 16
           ''000000000000000000000060'')) = 200
   \<and> map_option followUpDate
        (payload (fst (generatePrescriptionForAppointment example_env 1000 1096 example_draws
           example_sweep_db 16 ''000000000000000000000060''))) = Some (1000 + 14 * 86400000)
   \<and> followUpDate example_prescription = 1000 + 7 * 86400000"
proof -
  let ?r = "generatePrescriptionForAppointment example_env 1000 1096 example_draws example_sweep_db 16
              ''000000000000000000000060''"
  have ok: "code (fst ?r) = 200"
    by (simp add: generatePrescriptionForAppointment_def example_cast sweep_simps findById_def)
  have run: "?r = (fst ?r, snd ?r)"
    by simp
  have new: "find (\<lambda>q. appointmentId q = appt_id example_appointment) (prescriptions example_sweep_db) = None"
    by (simp add: example_sweep_db_def example_booked_db_def example_db_def)
  note T = followUp_dates [of example_env 1000 1096 example_draws example_sweep_db 16
      "''000000000000000000000060''" "fst ?r" "snd ?r" 0 7 example_appointment example_prescription
      example_generated_db]
  from T [THEN conjunct1] run ok obtain p where
    "payload (fst ?r) = Some p" "followUpDate p = addDays example_env 1000 (followUpDays ! (r_followUp example_draws mod 5))"
    by blast
  then have manual: "map_option followUpDate (payload (fst ?r)) = Some (1000 + 14 * 86400000)"
    by (simp add: example_env_def followUpDays_def example_draws_def)
  from T [THEN conjunct2, THEN conjunct2, THEN conjunct2] example_generation new
  have "followUpDate example_prescription = 1000 + 7 * 86400000"
    by simp
  with ok manual show ?thesis
    by (simp only: simp_thms)
qed

text \<open>
  C2 as stated fails: an update that names the status sets it on a cancelled appointment
  as on any other, here back to confirmed.
\<close>

theorem terminal_update_counterexample:
  "findById user_id 16 (users example_cancelled_db)
     = Some \<lparr>user_id = 16, appointments = [example_appointment\<lparr>status := Cancelled\<rparr>]\<rparr>
   \<and> code (fst (updateAppointment example_cancelled_db 16 ''000000000000000000000060'' example_update)) = 200
   \<and> findById user_id 16
        (users (snd (updateAppointment example_cancelled_db 16 ''000000000000000000000060'' example_update)))
       = Some \<lparr>user_id = 16, appointments = [example_appointment]\<rparr>
   \<and> status example_appointment = Confirmed"
  by (simp add: updateAppointment_def example_cast pick_updates_def allowedUpdates_def Let_def
      assign_notes_def example_cancelled_db_def example_db_def findById_def save_user_def
      example_appointment_def example_update_def parse_status_def)

text \<open>
  C2, amended. Booking, the sweep and the manual generation of a prescription never change
  the status of an appointment that is completed or cancelled, and cancelling never changes
  the status of an appointment that is cancelled: after each of them every such appointment
  is still in its ledger at its position with its status. The update operation sets
  whatever status of the enum the request names, whatever the current status.
\<close>

theorem terminal_statuses_kept:
  assumes "distinct (map user_id (users d))"
  shows "statuses_kept terminal d (snd (addAppointment env st now new_id d uid body))
     \<and> statuses_kept terminal d (snd (expireAppointments E d))
     \<and> statuses_kept terminal d (snd (generatePrescriptionForAppointment env now nid rnd d uid aid'))
     \<and> statuses_kept cancelled d (snd (cancelAppointment st' d uid aid'))
     \<and> (cast_oid aid' = Some aid \<and> findById user_id uid (users d) = Some usr
          \<and> findById appt_id aid (appointments usr) = Some appt
          \<and> updateData ''status'' = Some s \<and> parse_status s = Some new_status \<longrightarrow>
          code (fst (updateAppointment d uid aid' updateData)) = 200
          \<and> (\<exists>usr' appt'.
                findById user_id uid (users (snd (updateAppointment d uid aid' updateData))) = Some usr'
                \<and> findById appt_id aid (appointments usr') = Some appt'
                \<and> status appt' = new_status))"
proof (intro conjI impI)
  assume "cast_oid aid' = Some aid \<and> findById user_id uid (users d) = Some usr
          \<and> findById appt_id aid (appointments usr) = Some appt
          \<and> updateData ''status'' = Some s \<and> parse_status s = Some new_status"
  then have *: "cast_oid aid' = Some aid" "findById user_id uid (users d) = Some usr"
    "findById appt_id aid (appointments usr) = Some appt"
    "updateData ''status'' = Some s" "parse_status s = Some new_status"
    by simp_all
  from updateAppointment_sets_status [of aid' aid uid d usr appt updateData s new_status] *
  show "code (fst (updateAppointment d uid aid' updateData)) = 200"
    and "\<exists>usr' appt'.
                findById user_id uid (users (snd (updateAppointment d uid aid' updateData))) = Some usr'
                \<and> findById appt_id aid (appointments usr') = Some appt'
                \<and> status appt' = new_status"
    by simp_all
qed (simp_all add: assms addAppointment_kept expireAppointments_kept generate_manual_kept
    cancelAppointment_kept)

theorem terminal_statuses_kept_witness:
  "distinct (map user_id (users example_cancelled_db))
   \<and> map (map status \<circ> appointments)
         (users (snd (addAppointment example_env example_storage 6 97 example_cancelled_db 16
                        example_request)))
       = [[Cancelled, Confirmed], []]
   \<and> map (map status \<circ> appointments) (users (snd (expireAppointments example_sweep_env example_cancelled_db)))
       = [[Cancelled], []]
   \<and> map (map status \<circ> appointments)
         (users (snd (generatePrescriptionForAppointment example_env 6 1096 example_draws
                        example_cancelled_db 16 ''000000000000000000000060'')))
       = [[Cancelled], []]
   \<and> map (map status \<circ> appointments)
         (users (snd (cancelAppointment example_storage example_cancelled_db 16
                        ''000000000000000000000060'')))
       = [[Cancelled], []]
   \<and> map (map status \<circ> appointments)
         (users (snd (updateAppointment example_cancelled_db 16 ''000000000000000000000060'' example_update)))
       = [[Confirmed], []]"
proof -
  have dist: "distinct (map user_id (users example_cancelled_db))"
    by (simp add: example_cancelled_db_def)
  let ?u = "\<lparr>user_id = 16, appointments = [example_appointment\<lparr>status := Cancelled\<rparr>]\<rparr>"
  note T = terminal_statuses_kept [OF dist, where env = example_env and st = example_storage
      and now = 6 and new_id = 97 and uid = 16 and body = example_request and E = example_sweep_env
      and nid = 1096 and rnd = example_draws and aid' = "''000000000000000000000060''"
      and st' = example_storage and aid = 96 and usr = ?u
      and appt = "example_appointment\<lparr>status := Cancelled\<rparr>"
      and updateData = example_update and s = "''confirmed''" and new_status = Confirmed]
  have pre: "cast_oid ''000000000000000000000060'' = Some 96
      \<and> findById user_id 16 (users example_cancelled_db) = Some ?u
      \<and> findById appt_id 96 (appointments ?u) = Some (example_appointment\<lparr>status := Cancelled\<rparr>)
      \<and> example_update ''status'' = Some ''confirmed'' \<and> parse_status ''confirmed'' = Some Confirmed"
    by (simp add: example_cast example_cancelled_db_def findById_def example_appointment_def
        example_update_def parse_status_def)
  from T pre have "code (fst (updateAppointment example_cancelled_db 16 ''000000000000000000000060''
                          example_update)) = 200"
    by blast
  then have update: "map (map status \<circ> appointments)
         (users (snd (updateAppointment example_cancelled_db 16 ''000000000000000000000060'' example_update)))
       = [[Confirmed], []]"
    by (simp add: updateAppointment_def example_cast pick_updates_def allowedUpdates_def Let_def
      assign_notes_def example_cancelled_db_def example_db_def findById_def save_user_def
      example_appointment_def example_update_def parse_status_def)
  have add: "map (map status \<circ> appointments)
         (users (snd (addAppointment example_env example_storage 6 97 example_cancelled_db 16
                        example_request)))
       = [[Cancelled, Confirmed], []]"
    using T by (simp add: example_simps)
  have sweep: "map (map status \<circ> appointments)
         (users (snd (expireAppointments example_sweep_env example_cancelled_db))) = [[Cancelled], []]"
    using T by (simp add: sweep_simps example_cancelled_db_def)
  have manual: "map (map status \<circ> appointments)
         (users (snd (generatePrescriptionForAppointment example_env 6 1096 example_draws
                        example_cancelled_db 16 ''000000000000000000000060'')))
       = [[Cancelled], []]"
    using T by (simp add: generatePrescriptionForAppointment_def example_cast example_cancelled_db_def
        example_db_def findById_def example_appointment_def)
  have cancel: "map (map status \<circ> appointments)
         (users (snd (cancelAppointment example_storage example_cancelled_db 16
                        ''000000000000000000000060'')))
       = [[Cancelled], []]"
    using T by (simp add: example_simps)
  from dist add sweep manual cancel update show ?thesis
    by (simp only: simp_thms)
qed

end
